theory Spec2Isabelle
  imports Main "HOL-Library.Word"
begin

unbundle bit_operations_syntax

section \<open>Resource keys and resource groups\<close>

text \<open>
  The load-balancer entry type \<^verbatim>\<open>parser.ALBLogEntry\<close> is declared outside the files at hand;
  the two fields that the resource-key derivation reads are modelled, every other field
  lives in the record's extension part.
\<close>

record ALBLogEntry =
  TargetGroupARN :: string
  ChosenCertARN :: string

text \<open>
  \<^verbatim>\<open>func getResourceKey(entry *parser.ALBLogEntry) string\<close> (cmd/lambda and cmd/convert-otel):
  \<^verbatim>\<open>arn := entry.TargetGroupARN; if arn == "" || arn == "-" { arn = entry.ChosenCertARN }; return arn\<close>
\<close>

definition getResourceKey :: "'x ALBLogEntry_scheme \<Rightarrow> string" where
  "getResourceKey entry =
     (let arn = TargetGroupARN entry in
      if arn = [] \<or> arn = ''-'' then ChosenCertARN entry else arn)"

text \<open>
  \<^verbatim>\<open>type ALBAdapter struct { *parser.ALBLogEntry; AccountID string; Region string }\<close> and its
  method \<^verbatim>\<open>GetResourceKey\<close>, which reads the embedded entry in the same way.
\<close>

record 'x ALBAdapter =
  Entry :: "'x ALBLogEntry_scheme"
  AccountID :: string
  Region :: string

definition GetResourceKey :: "'x ALBAdapter \<Rightarrow> string" where
  "GetResourceKey a =
     (let arn = TargetGroupARN (Entry a) in
      if arn = [] \<or> arn = ''-'' then ChosenCertARN (Entry a) else arn)"

text \<open>
  A field counts as present when it is neither empty nor the absent marker \<^verbatim>\<open>-\<close>: this is
  the test the code applies to the target-group identifier.
\<close>

definition present :: "string \<Rightarrow> bool" where
  "present s \<longleftrightarrow> s \<noteq> [] \<and> s \<noteq> ''-''"

text \<open>
  \<^verbatim>\<open>type resourceGroup struct { ResourceAttrs []converter.OTelAttribute; LogRecords []converter.OTelLogRecord }\<close>.
  The converter package is not among the files at hand: the attribute set and the log
  record are type parameters, and \<^verbatim>\<open>converter.ExtractResourceAttributes\<close> and
  \<^verbatim>\<open>converter.ConvertToOTel\<close> are function parameters of the grouping loop.
\<close>

record ('a, 'r) resourceGroup =
  ResourceAttrs :: 'a
  LogRecords :: "'r list"

text \<open>
  One iteration of the grouping loop of \<^verbatim>\<open>convertAndSend\<close>: the map holds a pointer to the
  group, so appending to \<^verbatim>\<open>grouped[resKey].LogRecords\<close> updates the group stored under the key.
\<close>

definition group_step ::
  "('e \<Rightarrow> string) \<Rightarrow> ('e \<Rightarrow> 'a) \<Rightarrow> ('e \<Rightarrow> 'r) \<Rightarrow>
   (string \<rightharpoonup> ('a, 'r) resourceGroup) \<Rightarrow> 'e \<Rightarrow> (string \<rightharpoonup> ('a, 'r) resourceGroup)" where
  "group_step key ExtractResourceAttributes ConvertToOTel grouped entry =
     (let resKey = key entry;
          g = (case grouped resKey of
                 None \<Rightarrow> \<lparr>ResourceAttrs = ExtractResourceAttributes entry, LogRecords = []\<rparr>
               | Some g0 \<Rightarrow> g0);
          logRecord = ConvertToOTel entry
      in grouped(resKey \<mapsto> g\<lparr>LogRecords := LogRecords g @ [logRecord]\<rparr>))"

definition group_by_resource ::
  "('e \<Rightarrow> string) \<Rightarrow> ('e \<Rightarrow> 'a) \<Rightarrow> ('e \<Rightarrow> 'r) \<Rightarrow> 'e list \<Rightarrow> (string \<rightharpoonup> ('a, 'r) resourceGroup)" where
  "group_by_resource key ExtractResourceAttributes ConvertToOTel entries =
     foldl (group_step key ExtractResourceAttributes ConvertToOTel) Map.empty entries"

text \<open>The entries of the input that carry a given resource key, in input order.\<close>

definition entries_of_key :: "('e \<Rightarrow> string) \<Rightarrow> string \<Rightarrow> 'e list \<Rightarrow> 'e list" where
  "entries_of_key key k entries = filter (\<lambda>e. key e = k) entries"

section \<open>Batches and payloads\<close>

text \<open>
  The wire payload as \<^verbatim>\<open>buildPayload\<close> fills it in: one resource log holding the
  resource attributes and one scope log with the fixed scope and the batch's records.
  The struct declarations live in the converter package; their shape is read off the
  composite literal in \<^verbatim>\<open>buildPayload\<close>.
\<close>

record Scope =
  Name :: string
  Version :: string

record 'r ScopeLog =
  Scope :: Scope
  LogRecords :: "'r list"

record 'a ResourceAttributes =
  Attributes :: 'a

record ('a, 'r) ResourceLog =
  Resource :: "'a ResourceAttributes"
  ScopeLogs :: "'r ScopeLog list"

record ('a, 'r) OTLPPayload =
  ResourceLogs :: "('a, 'r) ResourceLog list"

definition buildPayload :: "'a \<Rightarrow> 'r list \<Rightarrow> ('a, 'r) OTLPPayload" where
  "buildPayload resourceAttrs logRecords =
     \<lparr>ResourceLogs =
        [\<lparr>Resource = \<lparr>Attributes = resourceAttrs\<rparr>,
          ScopeLogs = [\<lparr>Scope = \<lparr>Name = ''alb-log-parser'', Version = ''1.0.0''\<rparr>,
                        LogRecords = logRecords\<rparr>]\<rparr>]\<rparr>"

text \<open>
  Go's \<^verbatim>\<open>int\<close> is 64 bits wide on the platforms the handler runs on; \<open>wrap64\<close> is the value
  an \<^verbatim>\<open>int\<close> addition leaves behind, in two's complement.
\<close>

definition wrap64 :: "int \<Rightarrow> int" where
  "wrap64 x = (x + 2 ^ 63) mod 2 ^ 64 - 2 ^ 63"

text \<open>
  The slice expression \<^verbatim>\<open>records[i:end]\<close>. Go panics unless \<open>0 \<le> i \<le> end \<le> cap\<close>; the
  loop below checks the bounds before it takes the slice, and \<open>end\<close> never exceeds the
  length.
\<close>

definition subslice :: "'r list \<Rightarrow> int \<Rightarrow> int \<Rightarrow> 'r list" where
  "subslice xs i j = take (nat (j - i)) (drop (nat i) xs)"

text \<open>
  The batch loop of \<^verbatim>\<open>convertAndSend\<close> for one resource group:
  \<^verbatim>\<open>for i := 0; i < len(group.LogRecords); i += maxBatchSize\<close>. Each round first polls the
  error channel (\<open>errPending\<close> tells whether a failure of an earlier send is waiting when
  the round with that many payloads already handed over begins; the loop then returns the
  error), computes \<^verbatim>\<open>end\<close>, slices the batch and builds its payload, which is handed to a
  sender. \<open>sent\<close> lists the payloads handed over so far, in order. The loop does not come
  back for \<^verbatim>\<open>maxBatchSize = 0\<close> on a non-empty group (value \<open>None\<close>), and a negative
  \<^verbatim>\<open>maxBatchSize\<close> makes the slice expression panic.
\<close>

datatype loop_exit = Finished | ReturnedError | SliceBoundsPanic

partial_function (option) batch_loop ::
  "int \<Rightarrow> (nat \<Rightarrow> bool) \<Rightarrow> ('a, 'r) resourceGroup \<Rightarrow> int \<Rightarrow> ('a, 'r) OTLPPayload list
     \<Rightarrow> (('a, 'r) OTLPPayload list \<times> loop_exit) option" where
  "batch_loop maxBatchSize errPending grp i sent =
     (if i < int (length (resourceGroup.LogRecords grp)) then
        if errPending (length sent) then Some (sent, ReturnedError)
        else
          (let end0 = wrap64 (i + maxBatchSize);
               end = (if end0 > int (length (resourceGroup.LogRecords grp))
                      then int (length (resourceGroup.LogRecords grp)) else end0)
           in if 0 \<le> i \<and> i \<le> end
              then batch_loop maxBatchSize errPending grp (wrap64 (i + maxBatchSize))
                     (sent @ [buildPayload (ResourceAttrs grp)
                                (subslice (resourceGroup.LogRecords grp) i end)])
              else Some (sent, SliceBoundsPanic))
      else Some (sent, Finished))"

declare batch_loop.simps [code]

section \<open>Delivery with retry\<close>

text \<open>
  What one round of the retry loop of \<^verbatim>\<open>sendWithRetry\<close> meets: \<^verbatim>\<open>http.NewRequest\<close> fails,
  \<^verbatim>\<open>client.Do\<close> fails, or a response arrives with a status code and a body. The endpoint is
  the environment, given as a function from the serialised body and the round number to
  the outcome. \<open>'e\<close> is the type of Go error values.
\<close>

datatype 'e attempt_outcome =
    NewRequestFails 'e
  | DoFails 'e
  | Response int string

text \<open>
  \<^verbatim>\<open>lastErr\<close>: the error of a failed request, or the error built from a response outside
  the success range, \<^verbatim>\<open>fmt.Errorf("HTTP %d: %s", resp.StatusCode, string(respBody))\<close>.
\<close>

datatype 'e cause =
    Err 'e
  | HTTPError int string

text \<open>
  What the function does, in order: \<^verbatim>\<open>time.Sleep\<close> with a duration in nanoseconds (a
  duration that is not positive returns at once), and the rounds themselves.
\<close>

datatype event = Sleep int | is_Attempt: Attempt int

text \<open>
  The two errors \<^verbatim>\<open>sendWithRetry\<close> returns: \<^verbatim>\<open>failed to marshal payload: %w\<close> and
  \<^verbatim>\<open>failed after %d attempts: %w\<close> with \<^verbatim>\<open>maxRetries+1\<close> and \<^verbatim>\<open>lastErr\<close> (which is nil when
  no round ran).
\<close>

datatype 'e send_error =
    MarshalFailed 'e
  | FailedAfter int "'e cause option"

text \<open>
  \<^verbatim>\<open>retryBaseSec\<close> is a \<^verbatim>\<open>float64\<close> that \<^verbatim>\<open>init\<close> sets to \<^verbatim>\<open>1.0\<close> and nothing changes.
  The sleep before round \<open>attempt > 0\<close> is
  \<^verbatim>\<open>time.Duration(retryBaseSec*float64(multiplier)) * time.Second\<close> with
  \<^verbatim>\<open>multiplier := 1 << uint(attempt-1)\<close>: the shift is a 64-bit \<^verbatim>\<open>int\<close> shift (a power of two,
  the least \<^verbatim>\<open>int\<close> for a shift by 63, zero from 64 on), each of these values is a
  \<^verbatim>\<open>float64\<close> exactly and so is its product with \<^verbatim>\<open>1.0\<close>, the conversion to
  \<^verbatim>\<open>time.Duration\<close> gives the same integer back, and the multiplication by
  \<^verbatim>\<open>time.Second\<close> (\<open>10^9\<close> nanoseconds) is a 64-bit multiplication.
\<close>

definition retryBaseSec :: int where
  "retryBaseSec = 1"

definition sleepNanos :: "int \<Rightarrow> int" where
  "sleepNanos attempt =
     (let multiplier = wrap64 (2 ^ nat (attempt - 1))
      in wrap64 (retryBaseSec * multiplier * 1000000000))"

text \<open>
  The loop \<^verbatim>\<open>for attempt := 0; attempt <= maxRetries; attempt++\<close>, with \<^verbatim>\<open>lastErr\<close> and the
  events so far. It does not come back when \<^verbatim>\<open>maxRetries\<close> is the greatest \<^verbatim>\<open>int\<close> and no
  round succeeds (value \<open>None\<close>).
\<close>

partial_function (option) retry_loop ::
  "int \<Rightarrow> (int \<Rightarrow> 'e attempt_outcome) \<Rightarrow> int \<Rightarrow> 'e cause option \<Rightarrow> event list
     \<Rightarrow> (('e send_error + unit) \<times> event list) option" where
  "retry_loop maxRetries transport attempt lastErr trace =
     (if attempt \<le> maxRetries then
        (let slept = (if attempt > 0 then trace @ [Sleep (sleepNanos attempt)] else trace);
             tried = slept @ [Attempt attempt]
         in case transport attempt of
              NewRequestFails err \<Rightarrow>
                retry_loop maxRetries transport (wrap64 (attempt + 1)) (Some (Err err)) tried
            | DoFails err \<Rightarrow>
                retry_loop maxRetries transport (wrap64 (attempt + 1)) (Some (Err err)) tried
            | Response status respBody \<Rightarrow>
                if status \<ge> 200 \<and> status < 300 then Some (Inr (), tried)
                else retry_loop maxRetries transport (wrap64 (attempt + 1))
                       (Some (HTTPError status respBody)) tried)
      else Some (Inl (FailedAfter (wrap64 (maxRetries + 1)) lastErr), trace))"

declare retry_loop.simps [code]

text \<open>
  \<^verbatim>\<open>func sendWithRetry(payload converter.OTLPPayload) error\<close>; \<^verbatim>\<open>json.Marshal\<close> is a
  parameter, and \<^verbatim>\<open>maxRetries\<close>, a package variable read from the environment, is an
  argument.
\<close>

definition sendWithRetry ::
  "('p \<Rightarrow> 'e + 'b) \<Rightarrow> ('b \<Rightarrow> int \<Rightarrow> 'e attempt_outcome) \<Rightarrow> int \<Rightarrow> 'p
     \<Rightarrow> (('e send_error + unit) \<times> event list) option" where
  "sendWithRetry marshal transport maxRetries payload =
     (case marshal payload of
        Inl err \<Rightarrow> Some (Inl (MarshalFailed err), [])
      | Inr body \<Rightarrow> retry_loop maxRetries (transport body) 0 None [])"


text \<open>
  The success test of a round, \<^verbatim>\<open>resp.StatusCode >= 200 && resp.StatusCode < 300\<close> on a
  response that arrived, and the failure cause a round records otherwise.
\<close>

fun succeeds :: "'e attempt_outcome \<Rightarrow> bool" where
  "succeeds (Response status respBody) \<longleftrightarrow> 200 \<le> status \<and> status < 300"
| "succeeds (NewRequestFails err) \<longleftrightarrow> False"
| "succeeds (DoFails err) \<longleftrightarrow> False"

fun cause_of :: "'e attempt_outcome \<Rightarrow> 'e cause" where
  "cause_of (Response status respBody) = HTTPError status respBody"
| "cause_of (NewRequestFails err) = Err err"
| "cause_of (DoFails err) = Err err"

text \<open>
  The schedule as the specification words it, to be compared with what the loop does:
  round 0 at once, and before round \<open>n > 0\<close> a sleep of \<open>retryBaseSec * 2^(n-1)\<close> seconds.
\<close>

definition backoff_step :: "nat \<Rightarrow> event list" where
  "backoff_step n =
     (if n = 0 then [Attempt 0]
      else [Sleep (retryBaseSec * 2 ^ (n - 1) * 1000000000), Attempt (int n)])"

definition backoff_schedule :: "nat \<Rightarrow> event list" where
  "backoff_schedule m = concat (map backoff_step [0 ..< Suc m])"

section \<open>Strings as Go reads them\<close>

text \<open>
  Strings are byte strings. \<^verbatim>\<open>strings.TrimSpace\<close> removes leading and trailing white space as
  \<^verbatim>\<open>unicode.IsSpace\<close> defines it: the six ASCII characters tab, line feed, vertical tab, form
  feed, carriage return and space, and the code points U+0085, U+00A0, U+1680,
  U+2000 to U+200A, U+2028, U+2029, U+202F, U+205F and U+3000, each in its UTF-8 encoding.
  A byte sequence that is not valid UTF-8 decodes to the replacement character, which is
  not white space, so trimming stops there.
\<close>

definition asciiSpace :: "char \<Rightarrow> bool" where
  "asciiSpace c \<longleftrightarrow> c \<in> {CHR 0x09, CHR 0x0A, CHR 0x0B, CHR 0x0C, CHR 0x0D, CHR 0x20}"

definition spaceRunes :: "string list" where
  "spaceRunes =
     [[CHR 0xC2, CHR 0x85], [CHR 0xC2, CHR 0xA0], [CHR 0xE1, CHR 0x9A, CHR 0x80],
      [CHR 0xE2, CHR 0x80, CHR 0x80], [CHR 0xE2, CHR 0x80, CHR 0x81],
      [CHR 0xE2, CHR 0x80, CHR 0x82], [CHR 0xE2, CHR 0x80, CHR 0x83],
      [CHR 0xE2, CHR 0x80, CHR 0x84], [CHR 0xE2, CHR 0x80, CHR 0x85],
      [CHR 0xE2, CHR 0x80, CHR 0x86], [CHR 0xE2, CHR 0x80, CHR 0x87],
      [CHR 0xE2, CHR 0x80, CHR 0x88], [CHR 0xE2, CHR 0x80, CHR 0x89],
      [CHR 0xE2, CHR 0x80, CHR 0x8A], [CHR 0xE2, CHR 0x80, CHR 0xA8],
      [CHR 0xE2, CHR 0x80, CHR 0xA9], [CHR 0xE2, CHR 0x80, CHR 0xAF],
      [CHR 0xE2, CHR 0x81, CHR 0x9F], [CHR 0xE3, CHR 0x80, CHR 0x80]]"

text \<open>
  The width in bytes of the white-space character a string starts with (0 when it starts
  with none), and of the one it ends with: \<^verbatim>\<open>utf8.DecodeLastRuneInString\<close> steps back to the
  nearest lead byte and accepts the character only when its encoding ends the string.
\<close>

definition spaceWidth :: "string \<Rightarrow> nat" where
  "spaceWidth s =
     (case s of
        [] \<Rightarrow> 0
      | c # cs \<Rightarrow>
          if asciiSpace c then 1
          else (case find (\<lambda>r. take (length r) s = r) spaceRunes of
                  Some r \<Rightarrow> length r
                | None \<Rightarrow> 0))"

function TrimLeftSpace :: "string \<Rightarrow> string" where
  "TrimLeftSpace s = (if spaceWidth s = 0 then s else TrimLeftSpace (drop (spaceWidth s) s))"
  by pat_completeness auto
termination
  by (relation "measure length") (auto simp: spaceWidth_def split: list.splits)

definition spaceWidthLast :: "string \<Rightarrow> nat" where
  "spaceWidthLast s =
     (case rev s of
        [] \<Rightarrow> 0
      | c # cs \<Rightarrow>
          if asciiSpace c then 1
          else (case find (\<lambda>r. take (length r) (rev s) = rev r) spaceRunes of
                  Some r \<Rightarrow> length r
                | None \<Rightarrow> 0))"

function TrimRightSpace :: "string \<Rightarrow> string" where
  "TrimRightSpace s =
     (if spaceWidthLast s = 0 then s else TrimRightSpace (take (length s - spaceWidthLast s) s))"
  by pat_completeness auto
termination
  by (relation "measure length")
     (auto simp: spaceWidthLast_def split: list.splits if_splits option.splits)

definition TrimSpace :: "string \<Rightarrow> string" where
  "TrimSpace s = TrimRightSpace (TrimLeftSpace s)"


text \<open>
  \<^verbatim>\<open>strings.HasPrefix\<close>, \<^verbatim>\<open>strings.Split\<close> with a one-byte separator (the result of splitting
  the empty string is one empty field) and \<^verbatim>\<open>strings.Join\<close>.
\<close>

definition HasPrefix :: "string \<Rightarrow> string \<Rightarrow> bool" where
  "HasPrefix s pre \<longleftrightarrow> length pre \<le> length s \<and> take (length pre) s = pre"

fun Split :: "string \<Rightarrow> char \<Rightarrow> string list" where
  "Split [] sep = [[]]"
| "Split (c # cs) sep =
     (if c = sep then [] # Split cs sep
      else (case Split cs sep of f # fs \<Rightarrow> (c # f) # fs | [] \<Rightarrow> [[c]]))"

definition Join :: "string list \<Rightarrow> char \<Rightarrow> string" where
  "Join elems sep = concat (case elems of [] \<Rightarrow> [] | e # es \<Rightarrow> e # map (\<lambda>x. sep # x) es)"

text \<open>
  \<^verbatim>\<open>strconv.ParseUint(s, 10, 64)\<close> reads the bytes from left to right. A byte that is not
  a decimal digit ends the call with a syntax error (in base 10 an underscore is such a
  byte); a digit that would take the number past 64 bits ends it at once with a range
  error, whatever follows. The empty string is a syntax error. On a syntax error the value
  returned is 0, on a range error the greatest \<^verbatim>\<open>uint64\<close>.
\<close>

datatype num_error = ErrSyntax | ErrRange

definition isDigit :: "char \<Rightarrow> bool" where
  "isDigit c \<longleftrightarrow> 48 \<le> (of_char c :: nat) \<and> (of_char c :: nat) \<le> 57"

fun parseUintFrom :: "int \<Rightarrow> string \<Rightarrow> num_error + int" where
  "parseUintFrom n [] = Inr n"
| "parseUintFrom n (c # cs) =
     (if \<not> isDigit c then Inl ErrSyntax
      else if n \<ge> 1844674407370955162 then Inl ErrRange
      else if n * 10 + (of_char c - 48) > 18446744073709551615 then Inl ErrRange
      else parseUintFrom (n * 10 + (of_char c - 48)) cs)"

definition ParseUint :: "string \<Rightarrow> int \<times> num_error option" where
  "ParseUint s =
     (if s = [] then (0, Some ErrSyntax)
      else (case parseUintFrom 0 s of
              Inl ErrSyntax \<Rightarrow> (0, Some ErrSyntax)
            | Inl ErrRange \<Rightarrow> (18446744073709551615, Some ErrRange)
            | Inr n \<Rightarrow> (n, None)))"

text \<open>
  \<^verbatim>\<open>strconv.ParseInt(s, 10, 64)\<close>: the empty string is a syntax error; a leading sign is
  taken off and the rest goes to \<^verbatim>\<open>ParseUint\<close>. A syntax error gives 0. Otherwise a
  magnitude out of the range of \<^verbatim>\<open>int64\<close> (which a range error of \<^verbatim>\<open>ParseUint\<close> is, too)
  gives the nearest bound together with a range error. The result is the value and the
  error, \<open>None\<close> for \<^verbatim>\<open>nil\<close>. \<^verbatim>\<open>strconv.Atoi\<close> returns the same value and error where
  \<^verbatim>\<open>int\<close> has 64 bits: its short cut for strings of fewer than 19 bytes reads a sign and
  digits in the same way and cannot leave the range.
\<close>

definition ParseInt :: "string \<Rightarrow> int \<times> num_error option" where
  "ParseInt s =
     (if s = [] then (0, Some ErrSyntax)
      else
        (let neg = (hd s = CHR ''-'');
             s1 = (if hd s = CHR ''+'' \<or> hd s = CHR ''-'' then tl s else s);
             un = fst (ParseUint s1);
             err = snd (ParseUint s1)
         in if err = Some ErrSyntax then (0, err)
            else if \<not> neg \<and> un \<ge> 2 ^ 63 then (2 ^ 63 - 1, Some ErrRange)
            else if neg \<and> un > 2 ^ 63 then (- (2 ^ 63), Some ErrRange)
            else (if neg then - un else un, None)))"

definition Atoi :: "string \<Rightarrow> int \<times> num_error option" where
  "Atoi s = ParseInt s"

text \<open>
  The number a run of decimal digits denotes.
\<close>

definition digitsValue :: "string \<Rightarrow> int" where
  "digitsValue ds = foldl (\<lambda>n c. n * 10 + (of_char c - 48)) 0 ds"

text \<open>
  \<^verbatim>\<open>strconv.ParseFloat(s, 64)\<close> is a parameter: floating-point numbers are not modelled.
  A call parses its argument, or reports a value out of range together with the infinity it
  returns, or reports a syntax error, where the value it returns is 0. \<open>'f\<close> is the type of
  \<^verbatim>\<open>float64\<close> values, with its zero.
\<close>

datatype 'f float_result = FloatOK 'f | FloatRange 'f | FloatSyntax

definition floatValue :: "('f::zero) float_result \<Rightarrow> 'f" where
  "floatValue r = (case r of FloatOK v \<Rightarrow> v | FloatRange v \<Rightarrow> v | FloatSyntax \<Rightarrow> 0)"

text \<open>
  The numeric helpers of the CloudFront parser: \<^verbatim>\<open>-\<close> and the empty string give 0, anything
  else goes to \<^verbatim>\<open>strconv\<close> and the error is dropped (\<^verbatim>\<open>val, _ := ...; return val\<close>).
\<close>

definition parseCFInt :: "string \<Rightarrow> int" where
  "parseCFInt s = (if s = ''-'' \<or> s = [] then 0 else fst (Atoi s))"

definition parseCFInt64 :: "string \<Rightarrow> int" where
  "parseCFInt64 s = (if s = ''-'' \<or> s = [] then 0 else fst (ParseInt s))"

definition parseCFFloat :: "(string \<Rightarrow> ('f::zero) float_result) \<Rightarrow> string \<Rightarrow> 'f" where
  "parseCFFloat ParseFloat s = (if s = ''-'' \<or> s = [] then 0 else floatValue (ParseFloat s))"

text \<open>
  \<^verbatim>\<open>type CloudFrontLogEntry struct\<close>, the 33 columns in order.
\<close>

record 'f CloudFrontLogEntry =
  Date :: string
  Time :: string
  XEdgeLocation :: string
  SCBytes :: int
  CIP :: string
  CSMethod :: string
  CSHost :: string
  CSURIStem :: string
  SCStatus :: int
  CSReferer :: string
  CSUserAgent :: string
  CSURIQuery :: string
  CSCookie :: string
  XEdgeResultType :: string
  XEdgeRequestID :: string
  XHostHeader :: string
  CSProtocol :: string
  CSBytes :: int
  TimeTaken :: "'f"
  XForwardedFor :: string
  SSLProtocol :: string
  SSLCipher :: string
  XEdgeResponseResultType :: string
  CSProtocolVersion :: string
  FLEStatus :: string
  FLEEncryptedFields :: int
  CPort :: int
  TimeToFirstByte :: "'f"
  XEdgeDetailedResultType :: string
  SCContentType :: string
  SCContentLen :: int
  SCRangeStart :: string
  SCRangeEnd :: string

text \<open>
  Errors of the line parsers: \<^verbatim>\<open>invalid number of fields: got %d, expected 33\<close> and
  \<^verbatim>\<open>failed to parse NLB log line\<close>.
\<close>

datatype parse_error = InvalidFieldCount nat | NoPatternMatch

text \<open>
  \<^verbatim>\<open>func ParseCloudFrontLogLine(line string) (*CloudFrontLogEntry, error)\<close>. The result
  \<^verbatim>\<open>(nil, nil)\<close> is \<open>Inr None\<close>.
\<close>

definition ParseCloudFrontLogLine ::
  "(string \<Rightarrow> ('f::zero) float_result) \<Rightarrow> string \<Rightarrow> parse_error + 'f CloudFrontLogEntry option" where
  "ParseCloudFrontLogLine ParseFloat line0 =
     (let line = TrimSpace line0 in
      if line = [] \<or> HasPrefix line ''#'' then Inr None
      else
        (let fields = Split line (CHR 0x09) in
         if length fields < 33 then Inl (InvalidFieldCount (length fields))
         else Inr (Some
           \<lparr>Date = fields ! 0,
             Time = fields ! 1,
             XEdgeLocation = fields ! 2,
             SCBytes = parseCFInt64 (fields ! 3),
             CIP = fields ! 4,
             CSMethod = fields ! 5,
             CSHost = fields ! 6,
             CSURIStem = fields ! 7,
             SCStatus = parseCFInt (fields ! 8),
             CSReferer = fields ! 9,
             CSUserAgent = fields ! 10,
             CSURIQuery = fields ! 11,
             CSCookie = fields ! 12,
             XEdgeResultType = fields ! 13,
             XEdgeRequestID = fields ! 14,
             XHostHeader = fields ! 15,
             CSProtocol = fields ! 16,
             CSBytes = parseCFInt64 (fields ! 17),
             TimeTaken = parseCFFloat ParseFloat (fields ! 18),
             XForwardedFor = fields ! 19,
             SSLProtocol = fields ! 20,
             SSLCipher = fields ! 21,
             XEdgeResponseResultType = fields ! 22,
             CSProtocolVersion = fields ! 23,
             FLEStatus = fields ! 24,
             FLEEncryptedFields = parseCFInt (fields ! 25),
             CPort = parseCFInt (fields ! 26),
             TimeToFirstByte = parseCFFloat ParseFloat (fields ! 27),
             XEdgeDetailedResultType = fields ! 28,
             SCContentType = fields ! 29,
             SCContentLen = parseCFInt64 (fields ! 30),
             SCRangeStart = fields ! 31,
             SCRangeEnd = fields ! 32\<rparr>)))"

section \<open>Regular expressions\<close>

text \<open>
  The two patterns of the code are concatenations of literal characters and of repeated
  character classes (\<^verbatim>\<open>[^ ]*\<close>, \<^verbatim>\<open>\d+\<close>, ...), each class greedy. \<open>Rep least cls\<close> is the class
  \<open>cls\<close> repeated \<open>least\<close> times or more.
\<close>

datatype piece = Lit char | Rep nat "char \<Rightarrow> bool"

text \<open>
  Go's \<^verbatim>\<open>regexp\<close> returns the match a backtracking search finds first: a greedy repetition
  takes as many characters as it can and gives them back one at a time while the rest of
  the pattern fails. \<open>bt_match\<close> is that search at one position; it returns the text of every
  repetition, in order, and what follows the match.
\<close>

fun first_some :: "('a \<Rightarrow> 'b option) \<Rightarrow> 'a list \<Rightarrow> 'b option" where
  "first_some f [] = None"
| "first_some f (x # xs) = (case f x of Some y \<Rightarrow> Some y | None \<Rightarrow> first_some f xs)"

primrec bt_match :: "piece list \<Rightarrow> string \<Rightarrow> (string list \<times> string) option" where
  "bt_match [] s = Some ([], s)"
| "bt_match (p # ps) s =
     (case p of
        Lit c \<Rightarrow> (case s of [] \<Rightarrow> None | x # s' \<Rightarrow> if x = c then bt_match ps s' else None)
      | Rep least cls \<Rightarrow>
          first_some
            (\<lambda>n. map_option (\<lambda>(gs, rest). (take n s # gs, rest)) (bt_match ps (drop n s)))
            (rev [least ..< Suc (length (takeWhile cls s))]))"

text \<open>
  \<^verbatim>\<open>FindStringSubmatch\<close> for a pattern that is not anchored: the leftmost position at which
  the search succeeds, the end of the string included.
\<close>

fun FindSubmatch :: "piece list \<Rightarrow> string \<Rightarrow> string list option" where
  "FindSubmatch ps [] = map_option fst (bt_match ps [])"
| "FindSubmatch ps (c # cs) =
     (case bt_match ps (c # cs) of
        Some (gs, rest) \<Rightarrow> Some gs
      | None \<Rightarrow> FindSubmatch ps cs)"

text \<open>
  The character classes \<^verbatim>\<open>[^ ]\<close>, \<^verbatim>\<open>[^/]\<close>, \<^verbatim>\<open>[-.0-9]\<close> and \<^verbatim>\<open>[-0-9]\<close>; \<^verbatim>\<open>[0-9]\<close> and \<^verbatim>\<open>\d\<close>
  are \<open>isDigit\<close>. A negated class also matches a line feed.
\<close>

definition notSpace :: "char \<Rightarrow> bool" where "notSpace c \<longleftrightarrow> c \<noteq> CHR '' ''"
definition notSlash :: "char \<Rightarrow> bool" where "notSlash c \<longleftrightarrow> c \<noteq> CHR ''/''"
definition dashDotDigit :: "char \<Rightarrow> bool" where
  "dashDotDigit c \<longleftrightarrow> c = CHR ''-'' \<or> c = CHR ''.'' \<or> isDigit c"
definition dashDigit :: "char \<Rightarrow> bool" where
  "dashDigit c \<longleftrightarrow> c = CHR ''-'' \<or> isDigit c"

text \<open>
  \<^verbatim>\<open>nlbLogPattern\<close>, piece by piece. It is anchored at the start by \<^verbatim>\<open>^\<close> and open at the
  end, and every repetition is a group, so the groups of a match are groups 1 to 23.
\<close>

definition nlbLogPattern :: "piece list" where
  "nlbLogPattern =
     [Rep 0 notSpace, Lit (CHR '' ''), Rep 0 notSpace, Lit (CHR '' ''),
      Rep 0 notSpace, Lit (CHR '' ''), Rep 0 notSpace, Lit (CHR '' ''),
      Rep 0 notSpace, Lit (CHR '' ''),
      Rep 0 notSpace, Lit (CHR '':''), Rep 0 isDigit, Lit (CHR '' ''),
      Rep 0 notSpace, Lit (CHR '':''), Rep 0 isDigit, Lit (CHR '' ''),
      Rep 0 dashDotDigit, Lit (CHR '' ''), Rep 0 dashDotDigit, Lit (CHR '' ''),
      Rep 0 dashDigit, Lit (CHR '' ''), Rep 0 dashDigit, Lit (CHR '' ''),
      Rep 0 notSpace, Lit (CHR '' ''), Rep 0 notSpace, Lit (CHR '' ''),
      Rep 0 notSpace, Lit (CHR '' ''), Rep 0 notSpace, Lit (CHR '' ''),
      Rep 0 notSpace, Lit (CHR '' ''), Rep 0 notSpace, Lit (CHR '' ''),
      Rep 0 notSpace, Lit (CHR '' ''), Rep 0 notSpace, Lit (CHR '' ''),
      Rep 0 notSpace, Lit (CHR '' ''),
      Rep 0 dashDotDigit]"

text \<open>
  \<^verbatim>\<open>awsLogsKeyPattern = `AWSLogs/(\d+)/[^/]+/([^/]+)/`\<close>: of the three repetitions the first
  and the third are groups 1 and 2.
\<close>

definition awsLogsKeyPattern :: "piece list" where
  "awsLogsKeyPattern =
     map Lit ''AWSLogs/'' @
     [Rep 1 isDigit, Lit (CHR ''/''), Rep 1 notSlash, Lit (CHR ''/''),
      Rep 1 notSlash, Lit (CHR ''/'')]"

text \<open>
  \<^verbatim>\<open>func ParseRegionAccountFromS3Key(key string) (string, string)\<close>. A match has three
  entries, so \<^verbatim>\<open>len(matches) >= 3\<close> holds exactly when there is a match.
\<close>

definition ParseRegionAccountFromS3Key :: "string \<Rightarrow> string \<times> string" where
  "ParseRegionAccountFromS3Key key =
     (case FindSubmatch awsLogsKeyPattern key of
        Some groups \<Rightarrow> (groups ! 0, groups ! 2)
      | None \<Rightarrow> ([], []))"


text \<open>
  What it means for a pattern to match, stated on its own: the string splits into the
  literals and, for each repetition, a run of at least \<open>least\<close> characters of the class,
  followed by \<open>rest\<close>.
\<close>

inductive decomposes :: "piece list \<Rightarrow> string \<Rightarrow> string list \<Rightarrow> string \<Rightarrow> bool" where
  dec_Nil: "decomposes [] rest [] rest"
| dec_Lit: "decomposes ps s gs rest \<Longrightarrow> decomposes (Lit c # ps) (c # s) gs rest"
| dec_Rep: "decomposes ps s gs rest \<Longrightarrow> least \<le> length g \<Longrightarrow> list_all cls g \<Longrightarrow>
            decomposes (Rep least cls # ps) (g @ s) (g # gs) rest"

text \<open>
  The canonical key layout as the specification words it: the string starts with
  \<^verbatim>\<open>AWSLogs/<digits>/<service>/<region>/\<close>, the service and the region being non-empty and
  free of slashes.
\<close>

definition starts_with_segment :: "string \<Rightarrow> string \<Rightarrow> string \<Rightarrow> bool" where
  "starts_with_segment s account region \<longleftrightarrow>
     (\<exists>service post.
        s = ''AWSLogs/'' @ account @ ''/'' @ service @ ''/'' @ region @ ''/'' @ post \<and>
        account \<noteq> [] \<and> list_all isDigit account \<and>
        service \<noteq> [] \<and> list_all notSlash service \<and>
        region \<noteq> [] \<and> list_all notSlash region)"

section \<open>The NLB entry and its parser\<close>

text \<open>
  \<^verbatim>\<open>nlbLogPattern.FindStringSubmatch(line)\<close>: the pattern starts with \<^verbatim>\<open>^\<close>, so the search is
  made at the start of the line only. The result holds the matched text at index 0 and
  group \<open>k\<close> at index \<open>k\<close>; \<^verbatim>\<open>nil\<close> is \<open>None\<close>.
\<close>

definition FindSubmatchAnchored :: "piece list \<Rightarrow> string \<Rightarrow> string list option" where
  "FindSubmatchAnchored ps s =
     (case bt_match ps s of
        None \<Rightarrow> None
      | Some (groups, rest) \<Rightarrow> Some (take (length s - length rest) s # groups))"

text \<open>
  Modelled from the spec: the helpers \<^verbatim>\<open>getString\<close>, \<^verbatim>\<open>getInt\<close>, \<^verbatim>\<open>getInt64\<close> and \<^verbatim>\<open>getFloat\<close>
  of the parser package are not among the files at hand. \<^verbatim>\<open>getString\<close> gives the text of
  the group at the index (the empty string past the end of the match). For the numeric
  helpers the specification states the rule of the absent marker, \<^verbatim>\<open>-\<close> or the empty string
  is zero; any other text is converted as the CloudFront helpers of the same package
  convert it, the error of \<^verbatim>\<open>strconv\<close> dropped.
\<close>

definition getString :: "string list \<Rightarrow> nat \<Rightarrow> string" where
  "getString matches idx = (if idx < length matches then matches ! idx else [])"

definition getInt :: "string list \<Rightarrow> nat \<Rightarrow> int" where
  "getInt matches idx =
     (let s = getString matches idx in if s = ''-'' \<or> s = [] then 0 else fst (Atoi s))"

definition getInt64 :: "string list \<Rightarrow> nat \<Rightarrow> int" where
  "getInt64 matches idx =
     (let s = getString matches idx in if s = ''-'' \<or> s = [] then 0 else fst (ParseInt s))"

definition getFloat :: "(string \<Rightarrow> ('f::zero) float_result) \<Rightarrow> string list \<Rightarrow> nat \<Rightarrow> 'f" where
  "getFloat ParseFloat matches idx =
     (let s = getString matches idx
      in if s = ''-'' \<or> s = [] then 0 else floatValue (ParseFloat s))"

text \<open>
  \<^verbatim>\<open>type NLBLogEntry struct\<close>, the 23 fields in order.
\<close>

record 'f NLBLogEntry =
  Type :: string
  Version :: string
  Time :: string
  ELB :: string
  ListenerID :: string
  ClientIP :: string
  ClientPort :: int
  TargetIP :: string
  TargetPort :: int
  ConnectionTime :: 'f
  TLSHandshakeTime :: 'f
  ReceivedBytes :: int
  SentBytes :: int
  IncomingTLSAlert :: string
  ChosenCertARN :: string
  ChosenCertSerial :: string
  TLSCipher :: string
  TLSProtocolVersion :: string
  TLSNamedGroup :: string
  DomainName :: string
  ALPNProtocol :: string
  ALPNClientPreferenceList :: string
  TLSHandshakeTimeMS :: 'f

text \<open>
  \<^verbatim>\<open>func ParseNLBLogLine(line string) (*NLBLogEntry, error)\<close>.
\<close>

definition ParseNLBLogLine ::
  "(string \<Rightarrow> ('f::zero) float_result) \<Rightarrow> string \<Rightarrow> parse_error + 'f NLBLogEntry option" where
  "ParseNLBLogLine ParseFloat line0 =
     (let line = TrimSpace line0 in
      if line = [] \<or> HasPrefix line ''#'' then Inr None
      else
        (case FindSubmatchAnchored nlbLogPattern line of
           None \<Rightarrow> Inl NoPatternMatch
         | Some matches \<Rightarrow>
             Inr (Some
               \<lparr>Type = getString matches 1,
                Version = getString matches 2,
                Time = getString matches 3,
                ELB = getString matches 4,
                ListenerID = getString matches 5,
                ClientIP = getString matches 6,
                ClientPort = getInt matches 7,
                TargetIP = getString matches 8,
                TargetPort = getInt matches 9,
                ConnectionTime = getFloat ParseFloat matches 10,
                TLSHandshakeTime = getFloat ParseFloat matches 11,
                ReceivedBytes = getInt64 matches 12,
                SentBytes = getInt64 matches 13,
                IncomingTLSAlert = getString matches 14,
                ChosenCertARN = getString matches 15,
                ChosenCertSerial = getString matches 16,
                TLSCipher = getString matches 17,
                TLSProtocolVersion = getString matches 18,
                TLSNamedGroup = getString matches 19,
                DomainName = getString matches 20,
                ALPNProtocol = getString matches 21,
                ALPNClientPreferenceList = getString matches 22,
                TLSHandshakeTimeMS = getFloat ParseFloat matches 23\<rparr>)))"

section \<open>Grouping\<close>

lemma group_by_resource_snoc:
  "group_by_resource key ex cv (es @ [e]) = group_step key ex cv (group_by_resource key ex cv es) e"
  by (simp add: group_by_resource_def)

lemma group_by_resource_lookup:
  "group_by_resource key ex cv es k =
     (case entries_of_key key k es of
        [] \<Rightarrow> None
      | e0 # rest \<Rightarrow> Some \<lparr>ResourceAttrs = ex e0, LogRecords = map cv (e0 # rest)\<rparr>)"
proof (induction es rule: rev_induct)
  case Nil
  show ?case by (simp add: group_by_resource_def entries_of_key_def)
next
  case (snoc e es)
  show ?case
  proof (cases "key e = k")
    case False
    with snoc show ?thesis
      by (simp add: group_by_resource_snoc group_step_def Let_def entries_of_key_def)
  next
    case True
    with snoc show ?thesis
      by (cases "filter (\<lambda>e. key e = k) es")
         (simp_all add: group_by_resource_snoc group_step_def Let_def entries_of_key_def)
  qed
qed

lemma group_by_resource_dom:
  "dom (group_by_resource key ex cv es) = key ` set es"
proof -
  have "group_by_resource key ex cv es k \<noteq> None \<longleftrightarrow> k \<in> key ` set es" for k
  proof -
    have "group_by_resource key ex cv es k \<noteq> None \<longleftrightarrow> filter (\<lambda>e. key e = k) es \<noteq> []"
      by (simp add: group_by_resource_lookup entries_of_key_def split: list.splits)
    also have "\<dots> \<longleftrightarrow> k \<in> key ` set es"
      by (auto simp: filter_empty_conv)
    finally show ?thesis .
  qed
  then show ?thesis by (auto simp: dom_def)
qed

text \<open>
  C3. Grouping walks the entry list once, from left to right. For every key, the group
  stored under it after the walk is absent when no entry carries the key; otherwise its
  resource attributes are the ones extracted from the first entry carrying the key (what
  later entries with the same key would give is never computed into the group) and its
  log records are the converted entries carrying the key, in input order. The records of
  a group therefore share the one attribute set stored in the group.
\<close>

theorem grouping_first_attrs_input_order:
  "dom (group_by_resource key ex cv es) = key ` set es \<and>
   group_by_resource key ex cv es k =
     (case entries_of_key key k es of
        [] \<Rightarrow> None
      | e0 # rest \<Rightarrow> Some \<lparr>ResourceAttrs = ex e0, LogRecords = map cv (e0 # rest)\<rparr>)"
  by (simp add: group_by_resource_dom group_by_resource_lookup)

theorem grouping_first_attrs_input_order_witness:
  "group_by_resource getResourceKey ALBLogEntry.ChosenCertARN TargetGroupARN
     [\<lparr>TargetGroupARN = ''tg1'', ChosenCertARN = ''c1''\<rparr>,
      \<lparr>TargetGroupARN = ''tg2'', ChosenCertARN = ''c2''\<rparr>,
      \<lparr>TargetGroupARN = ''tg1'', ChosenCertARN = ''c3''\<rparr>] ''tg1''
   = Some \<lparr>ResourceAttrs = ''c1'', LogRecords = [''tg1'', ''tg1'']\<rparr>"
  using grouping_first_attrs_input_order
    [of getResourceKey ALBLogEntry.ChosenCertARN TargetGroupARN
        "[\<lparr>TargetGroupARN = ''tg1'', ChosenCertARN = ''c1''\<rparr>,
          \<lparr>TargetGroupARN = ''tg2'', ChosenCertARN = ''c2''\<rparr>,
          \<lparr>TargetGroupARN = ''tg1'', ChosenCertARN = ''c3''\<rparr>]" "''tg1''"]
  by (simp add: entries_of_key_def getResourceKey_def)

section \<open>Resource-key derivation\<close>

text \<open>
  C4 (as the code has it). The resource key is the target-group identifier when that is
  neither empty nor the marker \<^verbatim>\<open>-\<close>, and otherwise the certificate identifier exactly as
  stored, marker included; the adapter method and the free function agree. The key is
  empty exactly when the target group is absent and the certificate identifier is the
  empty string.
\<close>

theorem getResourceKey_fallback:
  "getResourceKey e =
     (if present (TargetGroupARN e) then TargetGroupARN e else ALBLogEntry.ChosenCertARN e) \<and>
   GetResourceKey a = getResourceKey (Entry a) \<and>
   (getResourceKey e = [] \<longleftrightarrow> \<not> present (TargetGroupARN e) \<and> ALBLogEntry.ChosenCertARN e = [])"
  by (auto simp: getResourceKey_def GetResourceKey_def present_def Let_def)

text \<open>
  An entry whose target group and certificate are both the absent marker has no
  identifying field, yet its key is the marker, not the empty string. And when only
  non-emptiness is asked of the target group, the entry with marker target group and a
  certificate gets the certificate, not the non-empty target-group field.
\<close>

theorem getResourceKey_absent_marker_counterexample:
  "\<not> present (TargetGroupARN \<lparr>TargetGroupARN = ''-'', ChosenCertARN = ''-''\<rparr>) \<and>
   \<not> present (ALBLogEntry.ChosenCertARN \<lparr>TargetGroupARN = ''-'', ChosenCertARN = ''-''\<rparr>) \<and>
   getResourceKey \<lparr>TargetGroupARN = ''-'', ChosenCertARN = ''-''\<rparr> \<noteq> [] \<and>
   GetResourceKey \<lparr>Entry = \<lparr>TargetGroupARN = ''-'', ChosenCertARN = ''-''\<rparr>,
                    AccountID = [], Region = []\<rparr> \<noteq> [] \<and>
   TargetGroupARN \<lparr>TargetGroupARN = ''-'', ChosenCertARN = ''arn:cert''\<rparr> \<noteq> [] \<and>
   getResourceKey \<lparr>TargetGroupARN = ''-'', ChosenCertARN = ''arn:cert''\<rparr>
     \<noteq> TargetGroupARN \<lparr>TargetGroupARN = ''-'', ChosenCertARN = ''arn:cert''\<rparr>"
  by (simp add: getResourceKey_def GetResourceKey_def present_def)

section \<open>Batching\<close>

lemma wrap64_id: "- (2 ^ 63) \<le> x \<Longrightarrow> x < 2 ^ 63 \<Longrightarrow> wrap64 x = x"
  by (simp add: wrap64_def)

lemma ceil_div_less_iff:
  fixes b :: nat
  assumes "1 \<le> b"
  shows "k < (r + b - 1) div b \<longleftrightarrow> k * b < r"
proof -
  have "k < (r + b - 1) div b \<longleftrightarrow> Suc k \<le> (r + b - 1) div b" by auto
  also have "\<dots> \<longleftrightarrow> Suc k * b \<le> r + b - 1"
    using assms by (simp add: less_eq_div_iff_mult_less_eq)
  also have "\<dots> \<longleftrightarrow> k * b < r"
    using assms by auto
  finally show ?thesis .
qed

lemma subslice_batch:
  fixes b i :: nat
  assumes "i < length xs"
  shows "subslice xs (int i)
           (if int (length xs) < int (i + b) then int (length xs) else int (i + b))
         = take b (drop i xs)"
proof (cases "length xs < i + b")
  case True
  then have "nat (int (length xs) - int i) = length xs - i" by simp
  with True assms show ?thesis by (simp add: subslice_def)
next
  case False
  have "nat (int (i + b) - int i) = b" by simp
  with False show ?thesis
    by (simp only: subslice_def of_nat_less_iff if_False nat_int)
qed

lemma batch_loop_from:
  fixes b :: nat
  assumes b: "1 \<le> b" "int b < 2 ^ 63"
    and len: "length (resourceGroup.LogRecords g) < 2 ^ 62"
    and ep: "\<And>j. \<not> ep j"
  shows "batch_loop (int b) ep g (int (k * b)) acc =
           Some (acc @ map (\<lambda>j. buildPayload (ResourceAttrs g)
                                   (take b (drop (j * b) (resourceGroup.LogRecords g))))
                         [k ..< (length (resourceGroup.LogRecords g) + b - 1) div b],
                 Finished)"
proof (induction "(length (resourceGroup.LogRecords g) + b - 1) div b - k" arbitrary: k acc)
  case 0
  then have "\<not> k < (length (resourceGroup.LogRecords g) + b - 1) div b" by simp
  then have "\<not> k * b < length (resourceGroup.LogRecords g)"
    using ceil_div_less_iff [OF b(1)] by simp
  then have "\<not> int (k * b) < int (length (resourceGroup.LogRecords g))"
    by (simp only: of_nat_less_iff not_False_eq_True)
  then have "batch_loop (int b) ep g (int (k * b)) acc = Some (acc, Finished)"
    by (subst batch_loop.simps) (simp only: if_False)
  with 0 show ?case by simp
next
  case (Suc d)
  let ?xs = "resourceGroup.LogRecords g"
  from Suc.hyps(2) have kn: "k < (length ?xs + b - 1) div b" by simp
  then have lt: "k * b < length ?xs"
    using ceil_div_less_iff [OF b(1)] by simp
  have "int (k * b) + int b < 2 ^ 63"
  proof (cases "k = 0")
    case True
    then show ?thesis using b by simp
  next
    case False
    then have "b \<le> k * b" by simp
    then have "b < length ?xs" using lt by (rule le_less_trans)
    then have "b < 2 ^ 62" using len by (rule less_trans)
    moreover have "k * b < 2 ^ 62" using lt len by (rule less_trans)
    ultimately have "b < 2 ^ 62" "k * b < 2 ^ 62" .
    then have "int b < 2 ^ 62" "int (k * b) < 2 ^ 62"
      by (metis of_nat_less_iff of_nat_numeral of_nat_power)+
    then show ?thesis by simp
  qed
  moreover have "- (2 ^ 63) \<le> int (k * b) + int b"
    by (rule order_trans [of _ 0]) simp_all
  ultimately have "wrap64 (int (k * b) + int b) = int (k * b) + int b"
    by (intro wrap64_id)
  then have w: "wrap64 (int (k * b) + int b) = int (Suc k * b)"
    by (simp add: algebra_simps)
  have sl: "subslice ?xs (int (k * b))
              (if int (length ?xs) < int (Suc k * b) then int (length ?xs) else int (Suc k * b))
            = take b (drop (k * b) ?xs)"
    using subslice_batch [OF lt, of b] by (simp only: mult_Suc add.commute)
  have bnd: "int (k * b) \<le> (if int (length ?xs) < int (Suc k * b) then int (length ?xs) else int (Suc k * b))"
    using lt by (simp del: of_nat_mult of_nat_add of_nat_Suc)
  have d: "d = (length ?xs + b - 1) div b - Suc k" using Suc.hyps(2) by simp
  have "batch_loop (int b) ep g (int (k * b)) acc =
          batch_loop (int b) ep g (int (Suc k * b))
            (acc @ [buildPayload (ResourceAttrs g) (take b (drop (k * b) ?xs))])"
    apply (subst batch_loop.simps)
    using lt ep [of "length acc"] bnd sl w
    apply (simp only: Let_def if_True if_False of_nat_less_iff simp_thms of_nat_0_le_iff)
    done
  also have "\<dots> = Some ((acc @ [buildPayload (ResourceAttrs g) (take b (drop (k * b) ?xs))]) @
                 map (\<lambda>j. buildPayload (ResourceAttrs g) (take b (drop (j * b) ?xs)))
                   [Suc k ..< (length ?xs + b - 1) div b], Finished)"
    by (rule Suc.hyps(1) [OF d])
  finally show ?case
    using kn by (simp add: upt_conv_Cons)
qed

lemma concat_batches_take:
  "concat (map (\<lambda>j. take b (drop (j * b) xs)) [0 ..< k]) = take (k * b) xs"
proof (induction k)
  case 0
  show ?case by simp
next
  case (Suc k)
  have "take (k * b + b) xs = take (k * b) xs @ take b (drop (k * b) xs)"
    by (simp add: take_add)
  with Suc show ?case by (simp add: add.commute)
qed


text \<open>
  C2. For a group of \<open>R\<close> records and a batch size \<open>B \<ge> 1\<close>, the batch loop (when no
  failed send makes it return early) hands over \<open>\<lceil>R / B\<rceil> = (R + B - 1) div B\<close> payloads, all
  built with the group's own resource attributes; the \<open>j\<close>-th batch is the slice of the
  group's record list that starts at \<open>j * B\<close> and has at most \<open>B\<close> records, so the batches are
  contiguous, do not overlap, follow the stored order and hold records of this group only;
  every batch but the last has exactly \<open>B\<close> records, and the batches concatenated give the
  group's record list back. The bounds \<open>B < 2^63\<close> (the type \<^verbatim>\<open>int\<close>) and \<open>R < 2^62\<close> (more
  records than any address space holds) keep \<^verbatim>\<open>i + maxBatchSize\<close> from wrapping.
\<close>

theorem batching_slices:
  assumes "1 \<le> maxBatchSize" and "maxBatchSize < 2 ^ 63"
    and "length (resourceGroup.LogRecords g) < 2 ^ 62"
    and "\<forall>k. \<not> errPending k"
  shows "\<exists>bs. batch_loop maxBatchSize errPending g 0 [] =
                Some (map (buildPayload (ResourceAttrs g)) bs, Finished) \<and>
              length bs =
                (length (resourceGroup.LogRecords g) + nat maxBatchSize - 1) div nat maxBatchSize \<and>
              concat bs = resourceGroup.LogRecords g \<and>
              (\<forall>j < length bs.
                 bs ! j = take (nat maxBatchSize)
                            (drop (j * nat maxBatchSize) (resourceGroup.LogRecords g))) \<and>
              (\<forall>j < length bs. int (length (bs ! j)) \<le> maxBatchSize) \<and>
              (\<forall>j. Suc j < length bs \<longrightarrow> int (length (bs ! j)) = maxBatchSize)"
proof -
  define b where "b = nat maxBatchSize"
  define xs where "xs = resourceGroup.LogRecords g"
  define n where "n = (length xs + b - 1) div b"
  define bs where "bs = map (\<lambda>j. take b (drop (j * b) xs)) [0 ..< n]"
  have b1: "1 \<le> b" and bB: "int b = maxBatchSize" using assms(1) by (simp_all add: b_def)
  have b63: "int b < 2 ^ 63" using assms(2) bB by simp
  have "batch_loop (int b) errPending g (int (0 * b)) [] =
          Some ([] @ map (\<lambda>j. buildPayload (ResourceAttrs g)
                                  (take b (drop (j * b) (resourceGroup.LogRecords g))))
                        [0 ..< (length (resourceGroup.LogRecords g) + b - 1) div b], Finished)"
    using assms(3,4) by (intro batch_loop_from [OF b1 b63]) simp_all
  then have run: "batch_loop maxBatchSize errPending g 0 [] =
                    Some (map (buildPayload (ResourceAttrs g)) bs, Finished)"
    by (simp add: bB bs_def n_def xs_def comp_def)
  have len: "length bs = n" by (simp add: bs_def)
  have nth: "bs ! j = take b (drop (j * b) xs)" if "j < n" for j
    using that by (simp add: bs_def)
  have "\<not> n * b < length xs"
    using ceil_div_less_iff [OF b1, of n "length xs"] by (simp add: n_def)
  then have cat: "concat bs = xs"
    by (simp add: bs_def concat_batches_take)
  have le: "int (length (bs ! j)) \<le> maxBatchSize" if "j < n" for j
    using that bB by (simp add: nth)
  have full: "int (length (bs ! j)) = maxBatchSize" if "Suc j < n" for j
  proof -
    from that have "Suc j * b < length xs"
      using ceil_div_less_iff [OF b1, of "Suc j" "length xs"] by (simp add: n_def)
    then have "b \<le> length xs - j * b" by simp
    moreover have "j < n" using that by simp
    ultimately show ?thesis using bB by (simp add: nth min_absorb2)
  qed
  show ?thesis
    using run len cat nth le full
    by (intro exI [of _ bs]) (simp add: n_def xs_def b_def)
qed

theorem batching_slices_witness:
  "batch_loop 2 (\<lambda>_. False) \<lparr>ResourceAttrs = ''lb'', LogRecords = [1, 2, 3, 4, 5 :: nat]\<rparr> 0 []
     = Some (map (buildPayload ''lb'') [[1, 2], [3, 4], [5]], Finished)"
proof -
  let ?g = "\<lparr>ResourceAttrs = ''lb'', LogRecords = [1, 2, 3, 4, 5 :: nat]\<rparr>"
  have "\<exists>bs. batch_loop 2 (\<lambda>_. False) ?g 0 [] = Some (map (buildPayload (ResourceAttrs ?g)) bs, Finished) \<and>
          length bs = 3 \<and>
          (\<forall>j < length bs. bs ! j = take 2 (drop (j * 2) [1, 2, 3, 4, 5 :: nat]))"
    using batching_slices [of 2 ?g "\<lambda>_. False"] by (auto simp: numeral_3_eq_3)
  then obtain bs where run: "batch_loop 2 (\<lambda>_. False) ?g 0 [] = Some (map (buildPayload ''lb'') bs, Finished)"
    and len: "length bs = 3"
    and nth: "\<And>j. j < 3 \<Longrightarrow> bs ! j = take 2 (drop (j * 2) [1, 2, 3, 4, 5 :: nat])"
    by auto
  from len obtain x y z where bs: "bs = [x, y, z]"
    by (auto simp: numeral_3_eq_3 length_Suc_conv)
  have "x = [1, 2]" "y = [3, 4]" "z = [5]"
    using nth [of 0] nth [of 1] nth [of 2] by (simp_all add: bs)
  with bs run show ?thesis by simp
qed

section \<open>Retry policy\<close>

lemma sleepNanos_exact:
  assumes "1 \<le> n" "n \<le> 34"
  shows "sleepNanos (int n) = retryBaseSec * 2 ^ (n - 1) * 1000000000"
proof -
  have "(2::int) ^ (n - 1) \<le> 2 ^ 33"
    using assms by (intro power_increasing) simp_all
  then have le: "(2::int) ^ (n - 1) \<le> 8589934592" by simp
  have ge: "(0::int) \<le> 2 ^ (n - 1)" by simp
  have n: "nat (int n - 1) = n - 1" using assms by simp
  have "wrap64 (2 ^ (n - 1)) = 2 ^ (n - 1)"
    using le ge by (simp add: wrap64_def)
  moreover have "wrap64 (2 ^ (n - 1) * 1000000000) = 2 ^ (n - 1) * 1000000000"
    using le ge by (simp add: wrap64_def)
  ultimately show ?thesis
    by (simp add: sleepNanos_def retryBaseSec_def n)
qed

lemma retry_trace_step:
  assumes "k \<le> 34"
  shows "(if int k > 0 then acc @ [Sleep (sleepNanos (int k))] else acc) @ [Attempt (int k)]
           = acc @ backoff_step k"
  using assms sleepNanos_exact [of k] by (cases "k = 0") (simp_all add: backoff_step_def)

lemma wrap64_succ: "k \<le> 34 \<Longrightarrow> wrap64 (int k + 1) = int (Suc k)"
  by (subst wrap64_id) simp_all

lemma retry_loop_success:
  assumes "k \<le> M" "k \<le> 34" "succeeds (tr (int k))"
  shows "retry_loop (int M) tr (int k) le acc = Some (Inr (), acc @ backoff_step k)"
proof -
  note k = assms(2)
  show ?thesis
    using assms(1,3)
    by (subst retry_loop.simps, cases "tr (int k)")
       (simp_all add: Let_def retry_trace_step [OF k] del: of_nat_0_less_iff)
qed

lemma retry_loop_failure:
  assumes "k \<le> M" "k \<le> 34" "\<not> succeeds (tr (int k))"
  shows "retry_loop (int M) tr (int k) le acc =
           retry_loop (int M) tr (int (Suc k)) (Some (cause_of (tr (int k)))) (acc @ backoff_step k)"
proof -
  note k = assms(2)
  show ?thesis
    using assms(1,3)
    by (subst retry_loop.simps, cases "tr (int k)")
       (auto simp add: Let_def retry_trace_step [OF k] wrap64_succ [OF k]
                 simp del: of_nat_0_less_iff of_nat_Suc)
qed

lemma retry_loop_exhausted:
  assumes "M \<le> 34"
  shows "retry_loop (int M) tr (int (Suc M)) le acc = Some (Inl (FailedAfter (int M + 1) le), acc)"
  using assms by (subst retry_loop.simps) (simp add: wrap64_succ)


lemma backoff_upt_Cons:
  "k \<le> m \<Longrightarrow> concat (map backoff_step [k ..< Suc m]) =
     backoff_step k @ concat (map backoff_step [Suc k ..< Suc m])"
  by (simp add: upt_conv_Cons del: upt_Suc)

lemma retry_loop_from:
  shows "k \<le> M \<Longrightarrow> k \<le> 34 \<Longrightarrow>
         M \<le> 34 \<or> (\<exists>j. k \<le> j \<and> j \<le> 34 \<and> succeeds (tr (int j))) \<Longrightarrow>
         \<exists>m. k \<le> m \<and> m \<le> M \<and> m \<le> 34 \<and>
             (\<forall>n. k \<le> n \<and> n < m \<longrightarrow> \<not> succeeds (tr (int n))) \<and>
             (\<not> succeeds (tr (int m)) \<longrightarrow> m = M) \<and>
             retry_loop (int M) tr (int k) le acc =
               Some (if succeeds (tr (int m)) then Inr ()
                     else Inl (FailedAfter (int M + 1) (Some (cause_of (tr (int m))))),
                     acc @ concat (map backoff_step [k ..< Suc m]))"
proof (induction "34 - k" arbitrary: k le acc)
  case 0
  then have k34: "k = 34" by simp
  show ?case
  proof (cases "succeeds (tr (int k))")
    case True
    then show ?thesis
      using retry_loop_success [of k M tr le acc] "0.prems"
      by (intro exI [of _ k]) auto
  next
    case False
    have "M \<le> 34"
    proof (rule ccontr)
      assume "\<not> M \<le> 34"
      with "0.prems"(3) obtain j where "k \<le> j" "j \<le> 34" "succeeds (tr (int j))" by blast
      then have "j = k" using k34 by simp
      with \<open>succeeds (tr (int j))\<close> False show False by simp
    qed
    then have kM: "k = M" using "0.prems"(1) k34 by simp
    have "retry_loop (int M) tr (int k) le acc =
                 Some (Inl (FailedAfter (int M + 1) (Some (cause_of (tr (int k))))),
                       acc @ backoff_step k)"
      using retry_loop_failure [of k M tr le acc] \<open>M \<le> 34\<close> kM False
      by (simp add: retry_loop_exhausted del: of_nat_Suc)
    with False kM \<open>M \<le> 34\<close> show ?thesis
      by (intro exI [of _ k]) auto
  qed
next
  case (Suc d)
  then have k34: "k < 34" by simp
  show ?case
  proof (cases "succeeds (tr (int k))")
    case True
    then show ?thesis
      using retry_loop_success [of k M tr le acc] Suc.prems
      by (intro exI [of _ k]) auto
  next
    case False
    note nok = False
    show ?thesis
    proof (cases "k = M")
      case True
      then have M34: "M \<le> 34" using Suc.prems(2) by simp
      have "retry_loop (int M) tr (int k) le acc =
                 Some (Inl (FailedAfter (int M + 1) (Some (cause_of (tr (int k))))),
                       acc @ backoff_step k)"
        using retry_loop_failure [of k M tr le acc] M34 True nok
        by (simp add: retry_loop_exhausted del: of_nat_Suc)
      with nok True M34 show ?thesis
        by (intro exI [of _ k]) auto
    next
      case False
      then have kM: "k < M" using Suc.prems(1) by simp
      have d: "d = 34 - Suc k" using Suc.hyps(2) by simp
      have p1: "Suc k \<le> M" using kM by simp
      have p2: "Suc k \<le> 34" using k34 by simp
      have p3: "M \<le> 34 \<or> (\<exists>j. Suc k \<le> j \<and> j \<le> 34 \<and> succeeds (tr (int j)))"
      proof (cases "M \<le> 34")
        case True then show ?thesis by simp
      next
        case False
        with Suc.prems(3) obtain j where j: "k \<le> j" "j \<le> 34" "succeeds (tr (int j))" by blast
        then have "j \<noteq> k" using nok by auto
        with j show ?thesis by (intro disjI2 exI [of _ j]) simp
      qed
      from Suc.hyps(1) [OF d p1 p2 p3, of "Some (cause_of (tr (int k)))" "acc @ backoff_step k"]
      obtain m where m: "Suc k \<le> m" "m \<le> M" "m \<le> 34"
        and nof: "\<forall>n. Suc k \<le> n \<and> n < m \<longrightarrow> \<not> succeeds (tr (int n))"
        and last: "\<not> succeeds (tr (int m)) \<longrightarrow> m = M"
        and run: "retry_loop (int M) tr (int (Suc k)) (Some (cause_of (tr (int k)))) (acc @ backoff_step k) =
                 Some (if succeeds (tr (int m)) then Inr ()
                       else Inl (FailedAfter (int M + 1) (Some (cause_of (tr (int m))))),
                       (acc @ backoff_step k) @ concat (map backoff_step [Suc k ..< Suc m]))"
        by blast
      have nof': "\<forall>n. k \<le> n \<and> n < m \<longrightarrow> \<not> succeeds (tr (int n))"
      proof (intro allI impI)
        fix n assume n: "k \<le> n \<and> n < m"
        show "\<not> succeeds (tr (int n))"
        proof (cases "n = k")
          case True with nok show ?thesis by simp
        next
          case False with n nof show ?thesis by simp
        qed
      qed
      have km: "k \<le> m" using m by simp
      have "retry_loop (int M) tr (int k) le acc =
              Some (if succeeds (tr (int m)) then Inr ()
                    else Inl (FailedAfter (int M + 1) (Some (cause_of (tr (int m))))),
                    acc @ concat (map backoff_step [k ..< Suc m]))"
      proof -
        have "retry_loop (int M) tr (int k) le acc =
                retry_loop (int M) tr (int (Suc k)) (Some (cause_of (tr (int k)))) (acc @ backoff_step k)"
          using kM Suc.prems(2) nok by (intro retry_loop_failure) simp_all
        with run show ?thesis
          by (simp only: backoff_upt_Cons [OF km] append_assoc)
      qed
      with km m(2,3) nof' last show ?thesis
        by (intro exI [of _ m]) simp
    qed
  qed
qed

lemma attempts_of_schedule:
  "length (filter is_Attempt (concat (map backoff_step [0 ..< k]))) = k"
  by (induction k) (simp_all add: backoff_step_def)

text \<open>
  C1. With a payload that serialises and a retry count that is not negative,
  \<^verbatim>\<open>sendWithRetry\<close> returns after \<open>m + 1 \<le> maxRetries + 1\<close> rounds, where round \<open>m\<close> is the
  first whose response has a status in \<open>[200, 300)\<close>, or the last round when there is none.
  What it did is the backoff schedule up to round \<open>m\<close>: round 0 at once, and a sleep of
  \<open>retryBaseSec * 2^(n-1)\<close> seconds before each later round \<open>n\<close>. It returns success exactly
  when round \<open>m\<close> succeeded, and otherwise the error with the count \<open>maxRetries + 1\<close> and the
  cause recorded by the last round. This holds for every run of at most 35 rounds: a retry
  count up to 34, or any retry count when one of the rounds 0 to 34 succeeds. (Before
  round 35 the nanosecond count of the sleep no longer fits 64 bits, see
  \<open>sleepNanos_beyond_range\<close>; the sleeps before it add up to more than 500 years. A payload
  that does not serialise is refused before any round.)
\<close>

theorem sendWithRetry_policy:
  assumes "marshal payload = Inr body" and "0 \<le> maxRetries"
    and "maxRetries \<le> 34 \<or> (\<exists>j \<le> 34. succeeds (transport body (int j)))"
  shows "\<exists>m \<le> nat maxRetries.
           (\<forall>n < m. \<not> succeeds (transport body (int n))) \<and>
           (\<not> succeeds (transport body (int m)) \<longrightarrow> m = nat maxRetries) \<and>
           sendWithRetry marshal transport maxRetries payload =
             Some (if succeeds (transport body (int m)) then Inr ()
                   else Inl (FailedAfter (maxRetries + 1)
                               (Some (cause_of (transport body (int m))))),
                   backoff_schedule m) \<and>
           length (filter is_Attempt (backoff_schedule m)) = Suc m"
proof -
  define M where "M = nat maxRetries"
  have M: "int M = maxRetries" using assms(2) by (simp add: M_def)
  have h: "M \<le> 34 \<or> (\<exists>j. 0 \<le> j \<and> j \<le> 34 \<and> succeeds (transport body (int j)))"
    using assms(3) by (auto simp: M_def)
  from retry_loop_from [of 0 M "transport body" None "[]", OF _ _ h]
  obtain m where "m \<le> M"
    and "\<forall>n. n < m \<longrightarrow> \<not> succeeds (transport body (int n))"
    and "\<not> succeeds (transport body (int m)) \<longrightarrow> m = M"
    and "retry_loop (int M) (transport body) 0 None [] =
           Some (if succeeds (transport body (int m)) then Inr ()
                 else Inl (FailedAfter (int M + 1) (Some (cause_of (transport body (int m))))),
                 backoff_schedule m)"
    by (auto simp: backoff_schedule_def)
  then have "m \<le> nat (int M) \<and>
           (\<forall>n < m. \<not> succeeds (transport body (int n))) \<and>
           (\<not> succeeds (transport body (int m)) \<longrightarrow> m = nat (int M)) \<and>
           sendWithRetry marshal transport (int M) payload =
             Some (if succeeds (transport body (int m)) then Inr ()
                   else Inl (FailedAfter (int M + 1)
                               (Some (cause_of (transport body (int m))))),
                   backoff_schedule m) \<and>
           length (filter is_Attempt (backoff_schedule m)) = Suc m"
    using assms(1) attempts_of_schedule [of "Suc m"]
    by (simp add: sendWithRetry_def backoff_schedule_def)
  then show ?thesis
    unfolding M by (intro exI [of _ m])
qed

lemma sleepNanos_beyond_range: "sleepNanos 35 = - 1266874889709551616"
  by (simp add: sleepNanos_def wrap64_def retryBaseSec_def)

theorem sendWithRetry_policy_witness:
  "sendWithRetry (Inr :: nat \<Rightarrow> string + nat)
     (\<lambda>b n. if n < 3 then Response 503 ''busy'' else Response 204 []) 3 (0 :: nat)
   = Some (Inr (), [Attempt 0, Sleep 1000000000, Attempt 1, Sleep 2000000000, Attempt 2,
                    Sleep 4000000000, Attempt 3])"
proof -
  let ?t = "\<lambda>(b::nat) (n::int). if n < 3 then Response 503 ''busy'' else (Response 204 [] :: string attempt_outcome)"
  have sched: "backoff_schedule 3 = [Attempt 0, Sleep 1000000000, Attempt 1, Sleep 2000000000,
                 Attempt 2, Sleep 4000000000, Attempt 3]"
    by (simp add: backoff_schedule_def backoff_step_def retryBaseSec_def upt_conv_Cons)
  have "\<exists>m \<le> nat 3.
           (\<forall>n < m. \<not> succeeds (?t 0 (int n))) \<and>
           (\<not> succeeds (?t 0 (int m)) \<longrightarrow> m = nat 3) \<and>
           sendWithRetry (Inr :: nat \<Rightarrow> string + nat) ?t 3 0 =
             Some (if succeeds (?t 0 (int m)) then Inr ()
                   else Inl (FailedAfter (3 + 1) (Some (cause_of (?t 0 (int m))))),
                   backoff_schedule m) \<and>
           length (filter is_Attempt (backoff_schedule m)) = Suc m"
    by (rule sendWithRetry_policy) simp_all
  then obtain m where le: "m \<le> nat 3"
    and last: "\<not> succeeds (?t 0 (int m)) \<longrightarrow> m = nat 3"
    and run: "sendWithRetry (Inr :: nat \<Rightarrow> string + nat) ?t 3 0 =
             Some (if succeeds (?t 0 (int m)) then Inr ()
                   else Inl (FailedAfter (3 + 1) (Some (cause_of (?t 0 (int m))))),
                   backoff_schedule m)"
    by blast
  have m: "m = 3"
  proof (cases "m < 3")
    case True
    then have "\<not> succeeds (?t 0 (int m))" by simp
    with last show ?thesis by simp
  next
    case False
    with le show ?thesis by simp
  qed
  show ?thesis using run unfolding m by (simp add: sched)
qed

section \<open>Matching\<close>

lemma first_some_SomeD:
  "first_some f xs = Some y \<Longrightarrow> \<exists>x \<in> set xs. f x = Some y"
  by (induction xs) (auto split: option.splits)

lemma first_some_NoneI:
  "(\<And>x. x \<in> set xs \<Longrightarrow> f x = None) \<Longrightarrow> first_some f xs = None"
  by (induction xs) auto

lemma first_some_not_None:
  "x \<in> set xs \<Longrightarrow> f x \<noteq> None \<Longrightarrow> first_some f xs \<noteq> None"
  by (induction xs) (auto split: option.splits)

lemma take_takeWhile_all:
  assumes "n \<le> length (takeWhile P s)"
  shows "list_all P (take n s)"
proof -
  have "take n s = take n (takeWhile P s @ dropWhile P s)" by simp
  also have "\<dots> = take n (takeWhile P s)" using assms by (simp del: takeWhile_dropWhile_id)
  finally have "set (take n s) \<subseteq> set (takeWhile P s)" by (simp add: set_take_subset)
  then show ?thesis by (auto simp: list_all_iff dest: set_takeWhileD)
qed

lemma bt_match_sound:
  "bt_match ps s = Some (gs, rest) \<Longrightarrow> decomposes ps s gs rest"
proof (induction ps arbitrary: s gs rest)
  case Nil
  then show ?case by (auto intro: dec_Nil)
next
  case (Cons p ps)
  show ?case
  proof (cases p)
    case (Lit c)
    with Cons.prems obtain s' where "s = c # s'" "bt_match ps s' = Some (gs, rest)"
      by (auto split: list.splits if_splits)
    with Cons.IH Lit show ?thesis by (auto intro: dec_Lit)
  next
    case (Rep least cls)
    with Cons.prems obtain n where n: "least \<le> n" "n \<le> length (takeWhile cls s)"
      and m: "map_option (\<lambda>(gs, rest). (take n s # gs, rest)) (bt_match ps (drop n s)) = Some (gs, rest)"
      by (auto dest!: first_some_SomeD)
    from m obtain gs' where gs: "gs = take n s # gs'" and r: "bt_match ps (drop n s) = Some (gs', rest)"
      by auto
    have len: "length (take n s) = n"
      using n(2) length_takeWhile_le [of cls s] by simp
    have "decomposes (Rep least cls # ps) (take n s @ drop n s) (take n s # gs') rest"
      using Cons.IH [OF r] n(1) len take_takeWhile_all [OF n(2)]
      by (intro dec_Rep) simp_all
    then show ?thesis using Rep gs by simp
  qed
qed

lemma bt_match_complete:
  "decomposes ps s gs rest \<Longrightarrow> bt_match ps s \<noteq> None"
proof (induction rule: decomposes.induct)
  case (dec_Nil rest)
  show ?case by simp
next
  case (dec_Lit ps s gs rest c)
  then show ?case by simp
next
  case (dec_Rep ps s gs rest least g cls)
  have "length g \<le> length (takeWhile cls (g @ s))"
    using dec_Rep.hyps(3) by (simp add: list_all_iff)
  then have "length g \<in> set (rev [least ..< Suc (length (takeWhile cls (g @ s)))])"
    using dec_Rep.hyps(2) by auto
  moreover have "map_option (\<lambda>(gs, rest). (take (length g) (g @ s) # gs, rest))
                   (bt_match ps (drop (length g) (g @ s))) \<noteq> None"
    using dec_Rep.IH by simp
  ultimately show ?case
    by (simp only: bt_match.simps piece.case) (rule first_some_not_None)
qed

lemma bt_match_Some_iff:
  "(\<exists>gs rest. bt_match ps s = Some (gs, rest)) \<longleftrightarrow> (\<exists>gs rest. decomposes ps s gs rest)"
  using bt_match_sound bt_match_complete by (metis not_None_eq surj_pair)


inductive_simps decomposes_Nil: "decomposes [] s gs rest"
inductive_simps decomposes_Lit: "decomposes (Lit c # ps) s gs rest"
inductive_simps decomposes_Rep: "decomposes (Rep least cls # ps) s gs rest"

lemma delimited_unique:
  assumes "g @ c # r = g' @ c # r'" "list_all cls g" "list_all cls g'" "\<not> cls c"
  shows "g = g' \<and> r = r'"
proof -
  have "takeWhile cls (g @ c # r) = g" "takeWhile cls (g' @ c # r') = g'"
    using assms(2-4) by (simp_all add: takeWhile_tail list_all_iff)
  with assms(1) have "g = g'" by simp
  with assms(1) show ?thesis by simp
qed

lemma aws_decomposes_iff:
  "decomposes awsLogsKeyPattern s gs rest \<longleftrightarrow>
     (\<exists>account service region.
        gs = [account, service, region] \<and>
        s = ''AWSLogs/'' @ account @ ''/'' @ service @ ''/'' @ region @ ''/'' @ rest \<and>
        account \<noteq> [] \<and> list_all isDigit account \<and>
        service \<noteq> [] \<and> list_all notSlash service \<and>
        region \<noteq> [] \<and> list_all notSlash region)"
  by (auto simp: awsLogsKeyPattern_def decomposes_Nil decomposes_Lit decomposes_Rep
                 Suc_le_eq)

lemma aws_decomposes_unique:
  assumes "decomposes awsLogsKeyPattern s gs rest" "decomposes awsLogsKeyPattern s gs' rest'"
  shows "gs = gs'"
proof -
  from assms(1) obtain a v r where 1: "gs = [a, v, r]"
    "s = ''AWSLogs/'' @ a @ ''/'' @ v @ ''/'' @ r @ ''/'' @ rest"
    "list_all isDigit a" "list_all notSlash v" "list_all notSlash r"
    unfolding aws_decomposes_iff by blast
  from assms(2) obtain a' v' r' where 2: "gs' = [a', v', r']"
    "s = ''AWSLogs/'' @ a' @ ''/'' @ v' @ ''/'' @ r' @ ''/'' @ rest'"
    "list_all isDigit a'" "list_all notSlash v'" "list_all notSlash r'"
    unfolding aws_decomposes_iff by blast
  have nd: "\<not> isDigit (CHR ''/'')" "\<not> notSlash (CHR ''/'')"
    by (simp_all add: isDigit_def notSlash_def)
  from 1(2) 2(2) have "a @ CHR ''/'' # (v @ ''/'' @ r @ ''/'' @ rest) =
                       a' @ CHR ''/'' # (v' @ ''/'' @ r' @ ''/'' @ rest')" by simp
  from delimited_unique [OF this 1(3) 2(3) nd(1)]
  have a: "a = a'" and "v @ CHR ''/'' # (r @ ''/'' @ rest) = v' @ CHR ''/'' # (r' @ ''/'' @ rest')"
    by simp_all
  from delimited_unique [OF this(2) 1(4) 2(4) nd(2)]
  have v: "v = v'" and "r @ CHR ''/'' # rest = r' @ CHR ''/'' # rest'" by simp_all
  from delimited_unique [OF this(2) 1(5) 2(5) nd(2)] have "r = r'" by simp
  with a v 1(1) 2(1) show ?thesis by simp
qed

lemma aws_match_iff_segment:
  "(\<exists>service rest. bt_match awsLogsKeyPattern s = Some ([account, service, region], rest))
     \<longleftrightarrow> starts_with_segment s account region"
proof
  assume "\<exists>service rest. bt_match awsLogsKeyPattern s = Some ([account, service, region], rest)"
  then obtain service rest where "decomposes awsLogsKeyPattern s [account, service, region] rest"
    using bt_match_sound by blast
  then show "starts_with_segment s account region"
    unfolding aws_decomposes_iff starts_with_segment_def by blast
next
  assume "starts_with_segment s account region"
  then obtain service post where d: "decomposes awsLogsKeyPattern s [account, service, region] post"
    unfolding aws_decomposes_iff starts_with_segment_def by blast
  then obtain gs rest where m: "bt_match awsLogsKeyPattern s = Some (gs, rest)"
    using bt_match_complete by fastforce
  then have "decomposes awsLogsKeyPattern s gs rest" by (rule bt_match_sound)
  with d have "gs = [account, service, region]" by (metis aws_decomposes_unique)
  with m show "\<exists>service rest. bt_match awsLogsKeyPattern s = Some ([account, service, region], rest)"
    by blast
qed

lemma aws_no_match_iff:
  "bt_match awsLogsKeyPattern s = None \<longleftrightarrow> \<not> (\<exists>account region. starts_with_segment s account region)"
proof -
  have "bt_match awsLogsKeyPattern s \<noteq> None \<longleftrightarrow> (\<exists>gs rest. decomposes awsLogsKeyPattern s gs rest)"
    using bt_match_Some_iff [of awsLogsKeyPattern s] by auto
  also have "\<dots> \<longleftrightarrow> (\<exists>account region. starts_with_segment s account region)"
    unfolding aws_decomposes_iff starts_with_segment_def by blast
  finally show ?thesis by blast
qed

lemma FindSubmatch_here:
  "bt_match ps s = Some (gs, rest) \<Longrightarrow> FindSubmatch ps s = Some gs"
  by (cases s) simp_all

lemma FindSubmatch_skip:
  "(\<And>n. n < length pre \<Longrightarrow> bt_match ps (drop n (pre @ s)) = None) \<Longrightarrow>
   FindSubmatch ps (pre @ s) = FindSubmatch ps s"
proof (induction pre)
  case Nil
  show ?case by simp
next
  case (Cons c pre)
  have "bt_match ps (drop 0 ((c # pre) @ s)) = None"
    by (rule Cons.prems) simp
  then have 0: "FindSubmatch ps ((c # pre) @ s) = FindSubmatch ps (pre @ s)" by simp
  have "bt_match ps (drop n (pre @ s)) = None" if "n < length pre" for n
    using Cons.prems [of "Suc n"] that by simp
  with Cons.IH 0 show ?case by simp
qed

lemma FindSubmatch_None:
  "(\<And>n. n \<le> length key \<Longrightarrow> bt_match ps (drop n key) = None) \<Longrightarrow> FindSubmatch ps key = None"
proof (induction key)
  case Nil
  then show ?case by simp
next
  case (Cons c key)
  have "bt_match ps (drop 0 (c # key)) = None" by (rule Cons.prems) simp
  moreover have "bt_match ps (drop n key) = None" if "n \<le> length key" for n
    using Cons.prems [of "Suc n"] that by simp
  ultimately show ?case using Cons.IH by simp
qed


section \<open>Account and region from the key\<close>

lemma segment_min_length: "starts_with_segment s account region \<Longrightarrow> 14 \<le> length s"
  by (auto simp: starts_with_segment_def Suc_le_eq neq_Nil_conv)

lemma ParseRegionAccount_leftmost:
  assumes "starts_with_segment (drop n key) account region"
    and "\<And>m. m < n \<Longrightarrow> \<not> (\<exists>a r. starts_with_segment (drop m key) a r)"
  shows "ParseRegionAccountFromS3Key key = (account, region)"
proof -
  have n: "n \<le> length key"
    using segment_min_length [OF assms(1)] by simp
  obtain service rest where m: "bt_match awsLogsKeyPattern (drop n key) = Some ([account, service, region], rest)"
    using assms(1) aws_match_iff_segment by blast
  have "bt_match awsLogsKeyPattern (drop m (take n key @ drop n key)) = None" if "m < length (take n key)" for m
    using that assms(2) [of m] by (simp add: aws_no_match_iff)
  then have "FindSubmatch awsLogsKeyPattern (take n key @ drop n key) =
               FindSubmatch awsLogsKeyPattern (drop n key)"
    by (rule FindSubmatch_skip)
  then have "FindSubmatch awsLogsKeyPattern key = Some [account, service, region]"
    using FindSubmatch_here [OF m] by simp
  then show ?thesis by (simp add: ParseRegionAccountFromS3Key_def)
qed

text \<open>
  C7. \<^verbatim>\<open>ParseRegionAccountFromS3Key\<close> returns a pair of strings for every key. When the
  canonical segment \<^verbatim>\<open>AWSLogs/<digits>/<service>/<region>/\<close> starts at position \<open>n\<close> of the key
  and nowhere before, the pair is that segment's account id and region; so a key that
  contains the segment yields the account id and region of a segment it contains (the
  leftmost), and a key that contains none yields two empty strings.
\<close>

theorem ParseRegionAccountFromS3Key_segment:
  "(starts_with_segment (drop n key) account region \<and>
      (\<forall>m < n. \<not> (\<exists>a r. starts_with_segment (drop m key) a r))
      \<longrightarrow> ParseRegionAccountFromS3Key key = (account, region)) \<and>
   ((\<exists>n a r. starts_with_segment (drop n key) a r)
      \<longrightarrow> (\<exists>n a r. starts_with_segment (drop n key) a r \<and>
                    ParseRegionAccountFromS3Key key = (a, r))) \<and>
   ((\<forall>n. \<not> (\<exists>a r. starts_with_segment (drop n key) a r))
      \<longrightarrow> ParseRegionAccountFromS3Key key = ([], []))"
proof (intro conjI impI)
  assume "starts_with_segment (drop n key) account region \<and>
          (\<forall>m < n. \<not> (\<exists>a r. starts_with_segment (drop m key) a r))"
  then show "ParseRegionAccountFromS3Key key = (account, region)"
    by (intro ParseRegionAccount_leftmost [of n]) blast+
next
  assume "\<exists>n a r. starts_with_segment (drop n key) a r"
  then have "\<exists>n. \<exists>a r. starts_with_segment (drop n key) a r" by blast
  then obtain k where k: "\<exists>a r. starts_with_segment (drop k key) a r"
    and least: "\<And>m. m < k \<Longrightarrow> \<not> (\<exists>a r. starts_with_segment (drop m key) a r)"
    using exists_least_iff [of "\<lambda>n. \<exists>a r. starts_with_segment (drop n key) a r"] by blast
  from k obtain a r where "starts_with_segment (drop k key) a r" by blast
  with least show "\<exists>n a r. starts_with_segment (drop n key) a r \<and>
                     ParseRegionAccountFromS3Key key = (a, r)"
    using ParseRegionAccount_leftmost [of k key a r] by blast
next
  assume none: "\<forall>n. \<not> (\<exists>a r. starts_with_segment (drop n key) a r)"
  have "FindSubmatch awsLogsKeyPattern key = None"
    using none by (intro FindSubmatch_None) (simp add: aws_no_match_iff)
  then show "ParseRegionAccountFromS3Key key = ([], [])"
    by (simp add: ParseRegionAccountFromS3Key_def)
qed

theorem ParseRegionAccountFromS3Key_segment_witness:
  "ParseRegionAccountFromS3Key ''AWSLogs/123456789012/elasticloadbalancing/us-east-1/...''
     = (''123456789012'', ''us-east-1'') \<and>
   ParseRegionAccountFromS3Key ''logs/app.gz'' = ([], [])"
proof -
  let ?key = "''AWSLogs/123456789012/elasticloadbalancing/us-east-1/...''"
  have seg: "starts_with_segment (drop 0 ?key) ''123456789012'' ''us-east-1''"
    unfolding starts_with_segment_def
    by (intro exI [of _ "''elasticloadbalancing''"] exI [of _ "''...''"])
       (simp add: isDigit_def notSlash_def)
  have a: "ParseRegionAccountFromS3Key ?key = (''123456789012'', ''us-east-1'')"
    using ParseRegionAccountFromS3Key_segment [of 0 ?key "''123456789012''" "''us-east-1''"] seg
    by blast
  have "\<not> (\<exists>a r. starts_with_segment (drop n ''logs/app.gz'') a r)" for n
  proof
    assume "\<exists>a r. starts_with_segment (drop n ''logs/app.gz'') a r"
    then obtain a r where "starts_with_segment (drop n ''logs/app.gz'') a r" by blast
    from segment_min_length [OF this] show False by simp
  qed
  then have b: "ParseRegionAccountFromS3Key ''logs/app.gz'' = ([], [])"
    using ParseRegionAccountFromS3Key_segment [of 0 "''logs/app.gz''" "[]" "[]"] by blast
  from a b show ?thesis by simp
qed

section \<open>Splitting, joining and trimming\<close>

lemma Split_not_Nil: "Split s sep \<noteq> []"
  by (induction s) (auto split: list.splits)

lemma length_Split: "length (Split s sep) = Suc (length (filter (\<lambda>c. c = sep) s))"
proof (induction s)
  case Nil
  show ?case by simp
next
  case (Cons c s)
  then show ?case
    using Split_not_Nil [of s sep] by (auto split: list.splits)
qed

lemma Split_no_sep: "sep \<notin> set e \<Longrightarrow> Split e sep = [e]"
  by (induction e) auto

lemma Split_field_then_sep:
  "sep \<notin> set e \<Longrightarrow> Split (e @ sep # s) sep = e # Split s sep"
  by (induction e) auto

lemma Split_Join:
  assumes "elems \<noteq> []" and "\<forall>e \<in> set elems. sep \<notin> set e"
  shows "Split (Join elems sep) sep = elems"
  using assms
proof (induction elems)
  case Nil
  then show ?case by simp
next
  case (Cons e es)
  show ?case
  proof (cases es)
    case Nil
    with Cons.prems show ?thesis by (simp add: Join_def Split_no_sep)
  next
    case (Cons e' es')
    have "Join (e # es) sep = e @ sep # Join es sep"
      by (simp add: Join_def Cons)
    moreover have "Split (Join es sep) sep = es"
      using Cons.IH Cons.prems Cons by simp
    ultimately show ?thesis
      using Cons.prems by (simp add: Split_field_then_sep)
  qed
qed

lemma Join_not_Nil: "2 \<le> length elems \<Longrightarrow> Join elems sep \<noteq> []"
  by (cases elems; cases "tl elems") (auto simp: Join_def)

lemma TrimLeftSpace_drop: "\<exists>n. TrimLeftSpace s = drop n s"
proof (induction s rule: TrimLeftSpace.induct)
  case (1 s)
  show ?case
  proof (cases "spaceWidth s = 0")
    case True
    then have "TrimLeftSpace s = drop 0 s" by (subst TrimLeftSpace.simps) simp
    then show ?thesis by blast
  next
    case False
    with 1 obtain n where "TrimLeftSpace (drop (spaceWidth s) s) = drop n (drop (spaceWidth s) s)"
      by blast
    with False have "TrimLeftSpace s = drop (n + spaceWidth s) s"
      by (subst TrimLeftSpace.simps) (simp add: add.commute)
    then show ?thesis by blast
  qed
qed

lemma TrimRightSpace_take: "\<exists>n. TrimRightSpace s = take n s"
proof (induction s rule: TrimRightSpace.induct)
  case (1 s)
  show ?case
  proof (cases "spaceWidthLast s = 0")
    case True
    then have "TrimRightSpace s = take (length s) s" by (subst TrimRightSpace.simps) simp
    then show ?thesis by blast
  next
    case False
    with 1 obtain n where
      "TrimRightSpace (take (length s - spaceWidthLast s) s) = take n (take (length s - spaceWidthLast s) s)"
      by blast
    with False have "TrimRightSpace s = take (min n (length s - spaceWidthLast s)) s"
      by (subst TrimRightSpace.simps) (simp add: min.commute)
    then show ?thesis by blast
  qed
qed

lemma length_filter_take_drop:
  "length (filter P (take n (drop m s))) \<le> length (filter P s)"
proof -
  have "length (filter P (take n (drop m s))) \<le> length (filter P (drop m s))"
    by (metis append_take_drop_id filter_append le_add1 length_append)
  also have "\<dots> \<le> length (filter P s)"
    by (metis append_take_drop_id filter_append le_add2 length_append)
  finally show ?thesis .
qed

lemma Split_TrimSpace_le:
  "length (Split (TrimSpace line) sep) \<le> length (Split line sep)"
proof -
  obtain m where "TrimLeftSpace line = drop m line" using TrimLeftSpace_drop by blast
  moreover obtain n where "TrimRightSpace (TrimLeftSpace line) = take n (TrimLeftSpace line)"
    using TrimRightSpace_take by blast
  ultimately have "TrimSpace line = take n (drop m line)" by (simp add: TrimSpace_def)
  then show ?thesis by (simp add: length_Split length_filter_take_drop)
qed

lemma take_before_sep:
  assumes "t \<notin> set r"
  shows "(take (length r) (c @ t # rest) = r) = (take (length r) c = r)"
proof (cases "length r \<le> length c")
  case True then show ?thesis by simp
next
  case False
  then have lt: "length c < length r" by simp
  then obtain k where k: "length r - length c = Suc k" by (cases "length r - length c") simp_all
  have "take (length r) (c @ t # rest) = c @ t # take k rest" using k by simp
  then have l: "take (length r) (c @ t # rest) \<noteq> r" using assms by (metis in_set_conv_decomp)
  have "take (length r) c = c" using lt by simp
  then have "take (length r) c \<noteq> r" using lt by auto
  with l show ?thesis by simp
qed

lemma spaceRunes_no_tab: "r \<in> set spaceRunes \<Longrightarrow> CHR 0x09 \<notin> set r"
  by (auto simp: spaceRunes_def)

lemma spaceWidth_before_tab:
  assumes "c \<noteq> []"
  shows "spaceWidth (c @ CHR 0x09 # rest) = spaceWidth c"
proof -
  obtain x xs where c: "c = x # xs" using assms by (cases c) auto
  have "find (\<lambda>r. take (length r) (c @ CHR 0x09 # rest) = r) spaceRunes =
        find (\<lambda>r. take (length r) c = r) spaceRunes"
    by (intro find_cong refl take_before_sep spaceRunes_no_tab)
  then show ?thesis
    unfolding spaceWidth_def c by simp
qed

lemma spaceWidthLast_after_tab:
  assumes "c \<noteq> []"
  shows "spaceWidthLast (pre @ CHR 0x09 # c) = spaceWidthLast c"
proof -
  obtain x xs where c: "rev c = x # xs" using assms by (cases "rev c") auto
  have r: "rev (pre @ CHR 0x09 # c) = (x # xs) @ CHR 0x09 # rev pre" by (simp add: c)
  have f: "find (\<lambda>r. take (length r) ((x # xs) @ CHR 0x09 # rev pre) = rev r) spaceRunes =
        find (\<lambda>r. take (length r) (x # xs) = rev r) spaceRunes"
  proof (intro find_cong refl)
    fix r assume "r \<in> set spaceRunes"
    then have "CHR 0x09 \<notin> set (rev r)" using spaceRunes_no_tab by simp
    from take_before_sep [OF this, of "x # xs" "rev pre"]
    show "(take (length r) ((x # xs) @ CHR 0x09 # rev pre) = rev r) =
          (take (length r) (x # xs) = rev r)"
      by simp
  qed
  show ?thesis
    unfolding spaceWidthLast_def r c f by simp
qed

lemma TrimSpace_id: "spaceWidth s = 0 \<Longrightarrow> spaceWidthLast s = 0 \<Longrightarrow> TrimSpace s = s"
  by (simp add: TrimSpace_def)

lemma Join_snoc: "es \<noteq> [] \<Longrightarrow> Join (es @ [e]) sep = Join es sep @ sep # e"
  by (cases es) (simp_all add: Join_def)

lemma Join_hd:
  assumes "2 \<le> length cols"
  shows "\<exists>rest. Join cols sep = hd cols @ sep # rest"
proof -
  obtain e e' es where "cols = e # e' # es"
    using assms by (cases cols; cases "tl cols") auto
  then show ?thesis by (simp add: Join_def)
qed

lemma Join_last:
  assumes "2 \<le> length cols"
  shows "\<exists>pre. Join cols sep = pre @ sep # last cols"
proof -
  have ne: "cols \<noteq> []" "butlast cols \<noteq> []" using assms by (auto simp: butlast_conv_take)
  have "Join (butlast cols @ [last cols]) sep = Join (butlast cols) sep @ sep # last cols"
    using ne(2) by (rule Join_snoc)
  then show ?thesis using ne(1) by auto
qed

lemma TrimSpace_Join:
  assumes "2 \<le> length cols" "hd cols \<noteq> []" "spaceWidth (hd cols) = 0"
    "last cols \<noteq> []" "spaceWidthLast (last cols) = 0"
  shows "TrimSpace (Join cols (CHR 0x09)) = Join cols (CHR 0x09)"
proof -
  obtain rest where h: "Join cols (CHR 0x09) = hd cols @ CHR 0x09 # rest"
    using Join_hd [OF assms(1)] by blast
  obtain pre where l: "Join cols (CHR 0x09) = pre @ CHR 0x09 # last cols"
    using Join_last [OF assms(1)] by blast
  have "spaceWidth (Join cols (CHR 0x09)) = 0"
    unfolding h using assms(2,3) by (simp add: spaceWidth_before_tab)
  moreover have "spaceWidthLast (Join cols (CHR 0x09)) = 0"
    unfolding l using assms(4,5) by (simp add: spaceWidthLast_after_tab)
  ultimately show ?thesis by (rule TrimSpace_id)
qed

lemma HasPrefix_Join:
  assumes "2 \<le> length cols" "hd cols \<noteq> []"
  shows "HasPrefix (Join cols sep) ''#'' = HasPrefix (hd cols) ''#''"
proof -
  obtain rest where h: "Join cols sep = hd cols @ sep # rest"
    using Join_hd [OF assms(1)] by blast
  obtain x xs where "hd cols = x # xs" using assms(2) by (cases "hd cols") auto
  then show ?thesis unfolding h by (simp add: HasPrefix_def)
qed

section \<open>The CloudFront line parser\<close>

lemma ParseCloudFrontLogLine_skip:
  "TrimSpace line = [] \<or> HasPrefix (TrimSpace line) ''#'' \<Longrightarrow>
   ParseCloudFrontLogLine pf line = Inr None"
  by (simp add: ParseCloudFrontLogLine_def Let_def)

lemma ParseCloudFrontLogLine_short:
  "TrimSpace line \<noteq> [] \<Longrightarrow> \<not> HasPrefix (TrimSpace line) ''#'' \<Longrightarrow>
   length (Split (TrimSpace line) (CHR 0x09)) < 33 \<Longrightarrow>
   ParseCloudFrontLogLine pf line =
     Inl (InvalidFieldCount (length (Split (TrimSpace line) (CHR 0x09))))"
  by (simp add: ParseCloudFrontLogLine_def Let_def)

lemma ParseCloudFrontLogLine_entry:
  "TrimSpace line \<noteq> [] \<Longrightarrow> \<not> HasPrefix (TrimSpace line) ''#'' \<Longrightarrow>
   33 \<le> length (Split (TrimSpace line) (CHR 0x09)) \<Longrightarrow>
   ParseCloudFrontLogLine pf line =
     Inr (Some
       \<lparr>Date = Split (TrimSpace line) (CHR 0x09) ! 0,
         CloudFrontLogEntry.Time = Split (TrimSpace line) (CHR 0x09) ! 1,
         XEdgeLocation = Split (TrimSpace line) (CHR 0x09) ! 2,
         SCBytes = parseCFInt64 (Split (TrimSpace line) (CHR 0x09) ! 3),
         CIP = Split (TrimSpace line) (CHR 0x09) ! 4,
         CSMethod = Split (TrimSpace line) (CHR 0x09) ! 5,
         CSHost = Split (TrimSpace line) (CHR 0x09) ! 6,
         CSURIStem = Split (TrimSpace line) (CHR 0x09) ! 7,
         SCStatus = parseCFInt (Split (TrimSpace line) (CHR 0x09) ! 8),
         CSReferer = Split (TrimSpace line) (CHR 0x09) ! 9,
         CSUserAgent = Split (TrimSpace line) (CHR 0x09) ! 10,
         CSURIQuery = Split (TrimSpace line) (CHR 0x09) ! 11,
         CSCookie = Split (TrimSpace line) (CHR 0x09) ! 12,
         XEdgeResultType = Split (TrimSpace line) (CHR 0x09) ! 13,
         XEdgeRequestID = Split (TrimSpace line) (CHR 0x09) ! 14,
         XHostHeader = Split (TrimSpace line) (CHR 0x09) ! 15,
         CSProtocol = Split (TrimSpace line) (CHR 0x09) ! 16,
         CSBytes = parseCFInt64 (Split (TrimSpace line) (CHR 0x09) ! 17),
         TimeTaken = parseCFFloat pf (Split (TrimSpace line) (CHR 0x09) ! 18),
         XForwardedFor = Split (TrimSpace line) (CHR 0x09) ! 19,
         SSLProtocol = Split (TrimSpace line) (CHR 0x09) ! 20,
         SSLCipher = Split (TrimSpace line) (CHR 0x09) ! 21,
         XEdgeResponseResultType = Split (TrimSpace line) (CHR 0x09) ! 22,
         CSProtocolVersion = Split (TrimSpace line) (CHR 0x09) ! 23,
         FLEStatus = Split (TrimSpace line) (CHR 0x09) ! 24,
         FLEEncryptedFields = parseCFInt (Split (TrimSpace line) (CHR 0x09) ! 25),
         CPort = parseCFInt (Split (TrimSpace line) (CHR 0x09) ! 26),
         TimeToFirstByte = parseCFFloat pf (Split (TrimSpace line) (CHR 0x09) ! 27),
         XEdgeDetailedResultType = Split (TrimSpace line) (CHR 0x09) ! 28,
         SCContentType = Split (TrimSpace line) (CHR 0x09) ! 29,
         SCContentLen = parseCFInt64 (Split (TrimSpace line) (CHR 0x09) ! 30),
         SCRangeStart = Split (TrimSpace line) (CHR 0x09) ! 31,
         SCRangeEnd = Split (TrimSpace line) (CHR 0x09) ! 32\<rparr>)"
  by (simp add: ParseCloudFrontLogLine_def Let_def)

lemma ParseCloudFrontLogLine_error_iff:
  "(\<exists>err. ParseCloudFrontLogLine pf line = Inl err) \<longleftrightarrow>
     TrimSpace line \<noteq> [] \<and> \<not> HasPrefix (TrimSpace line) ''#'' \<and>
     length (Split (TrimSpace line) (CHR 0x09)) < 33"
  by (simp add: ParseCloudFrontLogLine_def Let_def)

lemma ParseCloudFrontLogLine_Join:
  assumes "33 \<le> length cols" and "\<forall>c \<in> set cols. CHR 0x09 \<notin> set c"
    and t: "TrimSpace (Join cols (CHR 0x09)) = Join cols (CHR 0x09)"
    and "\<not> HasPrefix (Join cols (CHR 0x09)) ''#''"
  shows "ParseCloudFrontLogLine pf (Join cols (CHR 0x09)) =
           Inr (Some
             \<lparr>Date = cols ! 0,
               CloudFrontLogEntry.Time = cols ! 1,
               XEdgeLocation = cols ! 2,
               SCBytes = parseCFInt64 (cols ! 3),
               CIP = cols ! 4,
               CSMethod = cols ! 5,
               CSHost = cols ! 6,
               CSURIStem = cols ! 7,
               SCStatus = parseCFInt (cols ! 8),
               CSReferer = cols ! 9,
               CSUserAgent = cols ! 10,
               CSURIQuery = cols ! 11,
               CSCookie = cols ! 12,
               XEdgeResultType = cols ! 13,
               XEdgeRequestID = cols ! 14,
               XHostHeader = cols ! 15,
               CSProtocol = cols ! 16,
               CSBytes = parseCFInt64 (cols ! 17),
               TimeTaken = parseCFFloat pf (cols ! 18),
               XForwardedFor = cols ! 19,
               SSLProtocol = cols ! 20,
               SSLCipher = cols ! 21,
               XEdgeResponseResultType = cols ! 22,
               CSProtocolVersion = cols ! 23,
               FLEStatus = cols ! 24,
               FLEEncryptedFields = parseCFInt (cols ! 25),
               CPort = parseCFInt (cols ! 26),
               TimeToFirstByte = parseCFFloat pf (cols ! 27),
               XEdgeDetailedResultType = cols ! 28,
               SCContentType = cols ! 29,
               SCContentLen = parseCFInt64 (cols ! 30),
               SCRangeStart = cols ! 31,
               SCRangeEnd = cols ! 32\<rparr>)"
proof -
  have ne: "cols \<noteq> []" using assms(1) by auto
  have sp: "Split (Join cols (CHR 0x09)) (CHR 0x09) = cols"
    using assms(2) ne by (intro Split_Join) simp_all
  have "Join cols (CHR 0x09) \<noteq> []" using assms(1) by (intro Join_not_Nil) simp
  then have 1: "TrimSpace (Join cols (CHR 0x09)) \<noteq> []" by (simp only: t not_False_eq_True)
  have 2: "\<not> HasPrefix (TrimSpace (Join cols (CHR 0x09))) ''#''"
    unfolding t using assms(4) .
  have 3: "33 \<le> length (Split (TrimSpace (Join cols (CHR 0x09))) (CHR 0x09))"
    unfolding t sp using assms(1) .
  show ?thesis
    using ParseCloudFrontLogLine_entry [OF 1 2 3, of pf] unfolding t sp .
qed

lemma ParseCloudFrontLogLine_cols:
  assumes "33 \<le> length cols" and "\<forall>c \<in> set cols. CHR 0x09 \<notin> set c"
    and "hd cols \<noteq> []" and "spaceWidth (hd cols) = 0" and "\<not> HasPrefix (hd cols) ''#''"
    and "last cols \<noteq> []" and "spaceWidthLast (last cols) = 0"
  shows "ParseCloudFrontLogLine pf (Join cols (CHR 0x09)) =
           Inr (Some
             \<lparr>Date = cols ! 0,
               CloudFrontLogEntry.Time = cols ! 1,
               XEdgeLocation = cols ! 2,
               SCBytes = parseCFInt64 (cols ! 3),
               CIP = cols ! 4,
               CSMethod = cols ! 5,
               CSHost = cols ! 6,
               CSURIStem = cols ! 7,
               SCStatus = parseCFInt (cols ! 8),
               CSReferer = cols ! 9,
               CSUserAgent = cols ! 10,
               CSURIQuery = cols ! 11,
               CSCookie = cols ! 12,
               XEdgeResultType = cols ! 13,
               XEdgeRequestID = cols ! 14,
               XHostHeader = cols ! 15,
               CSProtocol = cols ! 16,
               CSBytes = parseCFInt64 (cols ! 17),
               TimeTaken = parseCFFloat pf (cols ! 18),
               XForwardedFor = cols ! 19,
               SSLProtocol = cols ! 20,
               SSLCipher = cols ! 21,
               XEdgeResponseResultType = cols ! 22,
               CSProtocolVersion = cols ! 23,
               FLEStatus = cols ! 24,
               FLEEncryptedFields = parseCFInt (cols ! 25),
               CPort = parseCFInt (cols ! 26),
               TimeToFirstByte = parseCFFloat pf (cols ! 27),
               XEdgeDetailedResultType = cols ! 28,
               SCContentType = cols ! 29,
               SCContentLen = parseCFInt64 (cols ! 30),
               SCRangeStart = cols ! 31,
               SCRangeEnd = cols ! 32\<rparr>)"
proof -
  have 2: "2 \<le> length cols" using assms(1) by simp
  have t: "TrimSpace (Join cols (CHR 0x09)) = Join cols (CHR 0x09)"
    using 2 assms(3,4,6,7) by (rule TrimSpace_Join)
  have h: "\<not> HasPrefix (Join cols (CHR 0x09)) ''#''"
    using assms(5) by (simp only: HasPrefix_Join [OF 2 assms(3)] not_False_eq_True)
  show ?thesis
    using assms(1,2) t h by (rule ParseCloudFrontLogLine_Join)
qed

lemma isDigit_value: "isDigit c \<Longrightarrow> 0 \<le> (of_char c :: int) - 48"
proof -
  assume "isDigit c"
  then have "int 48 \<le> int (of_char c)" unfolding isDigit_def by linarith
  then show ?thesis by (simp only: of_nat_of_char)
qed

lemma foldl_digits_ge:
  "0 \<le> n \<Longrightarrow> list_all isDigit ds
   \<Longrightarrow> (n::int) \<le> foldl (\<lambda>n c. n * 10 + (of_char c - 48)) n ds"
proof (induction ds arbitrary: n)
  case Nil show ?case by simp
next
  case (Cons c cs)
  have d: "0 \<le> (of_char c :: int) - 48" using Cons.prems(2) by (intro isDigit_value) simp
  have 1: "n \<le> n * 10 + (of_char c - 48)" using Cons.prems(1) d by linarith
  then have 2: "0 \<le> n * 10 + (of_char c - 48)" using Cons.prems(1) by linarith
  have "n * 10 + (of_char c - 48)
          \<le> foldl (\<lambda>n c. n * 10 + (of_char c - 48)) (n * 10 + (of_char c - 48)) cs"
    using 2 Cons.prems(2) by (intro Cons.IH) simp_all
  with 1 show ?case by simp
qed

lemma parseUintFrom_digits:
  "0 \<le> n \<Longrightarrow> list_all isDigit ds
   \<Longrightarrow> foldl (\<lambda>n c. n * 10 + (of_char c - 48)) n ds < 2 ^ 64
   \<Longrightarrow> parseUintFrom n ds = Inr (foldl (\<lambda>n c. n * 10 + (of_char c - 48)) n ds)"
proof (induction ds arbitrary: n)
  case Nil show ?case by simp
next
  case (Cons c cs)
  let ?m = "n * 10 + (of_char c - 48)"
  have d: "isDigit c" "list_all isDigit cs" using Cons.prems(2) by simp_all
  have dv: "0 \<le> (of_char c :: int) - 48" using d(1) by (rule isDigit_value)
  have m0: "0 \<le> ?m" using Cons.prems(1) dv by linarith
  have le: "?m \<le> foldl (\<lambda>n c. n * 10 + (of_char c - 48)) ?m cs"
    using m0 d(2) by (rule foldl_digits_ge)
  have lt: "foldl (\<lambda>n c. n * 10 + (of_char c - 48)) ?m cs < 2 ^ 64"
    using Cons.prems(3) by simp
  from le lt have m: "?m < 2 ^ 64" by (rule le_less_trans)
  then have m': "\<not> ?m > 18446744073709551615" by simp
  from m dv have n: "\<not> n \<ge> 1844674407370955162" by simp
  have "parseUintFrom n (c # cs) = parseUintFrom ?m cs"
    using d(1) n m' by simp
  also have "\<dots> = Inr (foldl (\<lambda>n c. n * 10 + (of_char c - 48)) ?m cs)"
    using m0 d(2) lt by (rule Cons.IH)
  finally show ?case by simp
qed

lemma parseCFInt64_digits:
  assumes "ds \<noteq> []" "list_all isDigit ds" "digitsValue ds < 2 ^ 63"
  shows "parseCFInt64 ds = digitsValue ds" "parseCFInt ds = digitsValue ds"
proof -
  obtain c cs where ds: "ds = c # cs" using assms(1) by (cases ds) auto
  have c: "isDigit c" using assms(2) ds by simp
  then have ns: "hd ds \<noteq> CHR ''+''" "hd ds \<noteq> CHR ''-''" using ds by (auto simp: isDigit_def)
  have "digitsValue ds < 2 ^ 64" using assms(3) by simp
  then have "parseUintFrom 0 ds = Inr (digitsValue ds)"
    unfolding digitsValue_def using assms(2) by (intro parseUintFrom_digits) simp_all
  then have u: "ParseUint ds = (digitsValue ds, None)" using assms(1) by (simp add: ParseUint_def)
  have p: "ParseInt ds = (digitsValue ds, None)"
    using assms(1,3) ns u by (simp add: ParseInt_def Let_def)
  have "ds \<noteq> ''-''" using ns ds by auto
  then show "parseCFInt64 ds = digitsValue ds" "parseCFInt ds = digitsValue ds"
    using p assms(1) by (simp_all add: parseCFInt64_def parseCFInt_def Atoi_def)
qed

text \<open>
  C5 (as the code has it). The parser trims the white space around the record, tabs
  included, before it splits it. A record that is not blank and not a comment and has fewer
  than 33 tab-separated columns, before or after the trim, is refused with the field-count
  error, which carries the number of columns left after the trim. A record with 33 columns
  or more after the trim parses to the entry whose text fields are the first 33 columns of
  the trimmed record and whose numeric fields are those columns under the coercion rules:
  the absent marker and the empty string give 0, a run of decimal digits within the 64-bit
  range gives its value, and a text that \<^verbatim>\<open>strconv.ParseFloat\<close> accepts gives the number it
  denotes. Columns beyond the 33rd are ignored. So a record of 33 columns or more
  round-trips every column when its first column is not empty, does not begin with white
  space or \<^verbatim>\<open>#\<close>, and its last column is not empty and does not end with white space.
\<close>

theorem ParseCloudFrontLogLine_columns:
  "(TrimSpace line \<noteq> [] \<and> \<not> HasPrefix (TrimSpace line) ''#'' \<and>
      length (Split line (CHR 0x09)) < 33
      \<longrightarrow> (\<exists>n < 33. ParseCloudFrontLogLine pf line = Inl (InvalidFieldCount n))) \<and>
   (TrimSpace line \<noteq> [] \<and> \<not> HasPrefix (TrimSpace line) ''#'' \<and>
      length (Split (TrimSpace line) (CHR 0x09)) < 33
      \<longrightarrow> ParseCloudFrontLogLine pf line =
            Inl (InvalidFieldCount (length (Split (TrimSpace line) (CHR 0x09))))) \<and>
   (TrimSpace line \<noteq> [] \<and> \<not> HasPrefix (TrimSpace line) ''#'' \<and>
      33 \<le> length (Split (TrimSpace line) (CHR 0x09))
      \<longrightarrow> ParseCloudFrontLogLine pf line =
            Inr (Some
              \<lparr>Date = Split (TrimSpace line) (CHR 0x09) ! 0,
                CloudFrontLogEntry.Time = Split (TrimSpace line) (CHR 0x09) ! 1,
                XEdgeLocation = Split (TrimSpace line) (CHR 0x09) ! 2,
                SCBytes = parseCFInt64 (Split (TrimSpace line) (CHR 0x09) ! 3),
                CIP = Split (TrimSpace line) (CHR 0x09) ! 4,
                CSMethod = Split (TrimSpace line) (CHR 0x09) ! 5,
                CSHost = Split (TrimSpace line) (CHR 0x09) ! 6,
                CSURIStem = Split (TrimSpace line) (CHR 0x09) ! 7,
                SCStatus = parseCFInt (Split (TrimSpace line) (CHR 0x09) ! 8),
                CSReferer = Split (TrimSpace line) (CHR 0x09) ! 9,
                CSUserAgent = Split (TrimSpace line) (CHR 0x09) ! 10,
                CSURIQuery = Split (TrimSpace line) (CHR 0x09) ! 11,
                CSCookie = Split (TrimSpace line) (CHR 0x09) ! 12,
                XEdgeResultType = Split (TrimSpace line) (CHR 0x09) ! 13,
                XEdgeRequestID = Split (TrimSpace line) (CHR 0x09) ! 14,
                XHostHeader = Split (TrimSpace line) (CHR 0x09) ! 15,
                CSProtocol = Split (TrimSpace line) (CHR 0x09) ! 16,
                CSBytes = parseCFInt64 (Split (TrimSpace line) (CHR 0x09) ! 17),
                TimeTaken = parseCFFloat pf (Split (TrimSpace line) (CHR 0x09) ! 18),
                XForwardedFor = Split (TrimSpace line) (CHR 0x09) ! 19,
                SSLProtocol = Split (TrimSpace line) (CHR 0x09) ! 20,
                SSLCipher = Split (TrimSpace line) (CHR 0x09) ! 21,
                XEdgeResponseResultType = Split (TrimSpace line) (CHR 0x09) ! 22,
                CSProtocolVersion = Split (TrimSpace line) (CHR 0x09) ! 23,
                FLEStatus = Split (TrimSpace line) (CHR 0x09) ! 24,
                FLEEncryptedFields = parseCFInt (Split (TrimSpace line) (CHR 0x09) ! 25),
                CPort = parseCFInt (Split (TrimSpace line) (CHR 0x09) ! 26),
                TimeToFirstByte = parseCFFloat pf (Split (TrimSpace line) (CHR 0x09) ! 27),
                XEdgeDetailedResultType = Split (TrimSpace line) (CHR 0x09) ! 28,
                SCContentType = Split (TrimSpace line) (CHR 0x09) ! 29,
                SCContentLen = parseCFInt64 (Split (TrimSpace line) (CHR 0x09) ! 30),
                SCRangeStart = Split (TrimSpace line) (CHR 0x09) ! 31,
                SCRangeEnd = Split (TrimSpace line) (CHR 0x09) ! 32\<rparr>)) \<and>
   (33 \<le> length cols \<and> (\<forall>c \<in> set cols. CHR 0x09 \<notin> set c) \<and>
      hd cols \<noteq> [] \<and> spaceWidth (hd cols) = 0 \<and> \<not> HasPrefix (hd cols) ''#'' \<and>
      last cols \<noteq> [] \<and> spaceWidthLast (last cols) = 0
      \<longrightarrow> ParseCloudFrontLogLine pf (Join cols (CHR 0x09)) =
            Inr (Some
              \<lparr>Date = cols ! 0,
                CloudFrontLogEntry.Time = cols ! 1,
                XEdgeLocation = cols ! 2,
                SCBytes = parseCFInt64 (cols ! 3),
                CIP = cols ! 4,
                CSMethod = cols ! 5,
                CSHost = cols ! 6,
                CSURIStem = cols ! 7,
                SCStatus = parseCFInt (cols ! 8),
                CSReferer = cols ! 9,
                CSUserAgent = cols ! 10,
                CSURIQuery = cols ! 11,
                CSCookie = cols ! 12,
                XEdgeResultType = cols ! 13,
                XEdgeRequestID = cols ! 14,
                XHostHeader = cols ! 15,
                CSProtocol = cols ! 16,
                CSBytes = parseCFInt64 (cols ! 17),
                TimeTaken = parseCFFloat pf (cols ! 18),
                XForwardedFor = cols ! 19,
                SSLProtocol = cols ! 20,
                SSLCipher = cols ! 21,
                XEdgeResponseResultType = cols ! 22,
                CSProtocolVersion = cols ! 23,
                FLEStatus = cols ! 24,
                FLEEncryptedFields = parseCFInt (cols ! 25),
                CPort = parseCFInt (cols ! 26),
                TimeToFirstByte = parseCFFloat pf (cols ! 27),
                XEdgeDetailedResultType = cols ! 28,
                SCContentType = cols ! 29,
                SCContentLen = parseCFInt64 (cols ! 30),
                SCRangeStart = cols ! 31,
                SCRangeEnd = cols ! 32\<rparr>)) \<and>
   (ds \<noteq> [] \<and> list_all isDigit ds \<and> digitsValue ds < 2 ^ 63
      \<longrightarrow> parseCFInt64 ds = digitsValue ds \<and> parseCFInt ds = digitsValue ds) \<and>
   (s \<noteq> ''-'' \<and> s \<noteq> [] \<and> pf s = FloatOK v \<longrightarrow> parseCFFloat pf s = v) \<and>
   parseCFInt64 ''-'' = 0 \<and> parseCFInt64 [] = 0 \<and> parseCFInt ''-'' = 0 \<and> parseCFInt [] = 0 \<and>
   parseCFFloat pf ''-'' = 0 \<and> parseCFFloat pf [] = 0"
proof (intro conjI impI)
  assume a: "TrimSpace line \<noteq> [] \<and> \<not> HasPrefix (TrimSpace line) ''#'' \<and>
             length (Split line (CHR 0x09)) < 33"
  then have "length (Split (TrimSpace line) (CHR 0x09)) < 33"
    using Split_TrimSpace_le [of line "CHR 0x09"] by simp
  with a show "\<exists>n < 33. ParseCloudFrontLogLine pf line = Inl (InvalidFieldCount n)"
    using ParseCloudFrontLogLine_short [of line pf] by blast
next
  assume "TrimSpace line \<noteq> [] \<and> \<not> HasPrefix (TrimSpace line) ''#'' \<and>
      length (Split (TrimSpace line) (CHR 0x09)) < 33"
  then show "ParseCloudFrontLogLine pf line =
            Inl (InvalidFieldCount (length (Split (TrimSpace line) (CHR 0x09))))"
    by (intro ParseCloudFrontLogLine_short) blast+
next
  assume "TrimSpace line \<noteq> [] \<and> \<not> HasPrefix (TrimSpace line) ''#'' \<and>
      33 \<le> length (Split (TrimSpace line) (CHR 0x09))"
  then show "ParseCloudFrontLogLine pf line =
            Inr (Some
              \<lparr>Date = Split (TrimSpace line) (CHR 0x09) ! 0,
                CloudFrontLogEntry.Time = Split (TrimSpace line) (CHR 0x09) ! 1,
                XEdgeLocation = Split (TrimSpace line) (CHR 0x09) ! 2,
                SCBytes = parseCFInt64 (Split (TrimSpace line) (CHR 0x09) ! 3),
                CIP = Split (TrimSpace line) (CHR 0x09) ! 4,
                CSMethod = Split (TrimSpace line) (CHR 0x09) ! 5,
                CSHost = Split (TrimSpace line) (CHR 0x09) ! 6,
                CSURIStem = Split (TrimSpace line) (CHR 0x09) ! 7,
                SCStatus = parseCFInt (Split (TrimSpace line) (CHR 0x09) ! 8),
                CSReferer = Split (TrimSpace line) (CHR 0x09) ! 9,
                CSUserAgent = Split (TrimSpace line) (CHR 0x09) ! 10,
                CSURIQuery = Split (TrimSpace line) (CHR 0x09) ! 11,
                CSCookie = Split (TrimSpace line) (CHR 0x09) ! 12,
                XEdgeResultType = Split (TrimSpace line) (CHR 0x09) ! 13,
                XEdgeRequestID = Split (TrimSpace line) (CHR 0x09) ! 14,
                XHostHeader = Split (TrimSpace line) (CHR 0x09) ! 15,
                CSProtocol = Split (TrimSpace line) (CHR 0x09) ! 16,
                CSBytes = parseCFInt64 (Split (TrimSpace line) (CHR 0x09) ! 17),
                TimeTaken = parseCFFloat pf (Split (TrimSpace line) (CHR 0x09) ! 18),
                XForwardedFor = Split (TrimSpace line) (CHR 0x09) ! 19,
                SSLProtocol = Split (TrimSpace line) (CHR 0x09) ! 20,
                SSLCipher = Split (TrimSpace line) (CHR 0x09) ! 21,
                XEdgeResponseResultType = Split (TrimSpace line) (CHR 0x09) ! 22,
                CSProtocolVersion = Split (TrimSpace line) (CHR 0x09) ! 23,
                FLEStatus = Split (TrimSpace line) (CHR 0x09) ! 24,
                FLEEncryptedFields = parseCFInt (Split (TrimSpace line) (CHR 0x09) ! 25),
                CPort = parseCFInt (Split (TrimSpace line) (CHR 0x09) ! 26),
                TimeToFirstByte = parseCFFloat pf (Split (TrimSpace line) (CHR 0x09) ! 27),
                XEdgeDetailedResultType = Split (TrimSpace line) (CHR 0x09) ! 28,
                SCContentType = Split (TrimSpace line) (CHR 0x09) ! 29,
                SCContentLen = parseCFInt64 (Split (TrimSpace line) (CHR 0x09) ! 30),
                SCRangeStart = Split (TrimSpace line) (CHR 0x09) ! 31,
                SCRangeEnd = Split (TrimSpace line) (CHR 0x09) ! 32\<rparr>)"
    by (intro ParseCloudFrontLogLine_entry) blast+
next
  assume "33 \<le> length cols \<and> (\<forall>c \<in> set cols. CHR 0x09 \<notin> set c) \<and>
      hd cols \<noteq> [] \<and> spaceWidth (hd cols) = 0 \<and> \<not> HasPrefix (hd cols) ''#'' \<and>
      last cols \<noteq> [] \<and> spaceWidthLast (last cols) = 0"
  then show "ParseCloudFrontLogLine pf (Join cols (CHR 0x09)) =
            Inr (Some
              \<lparr>Date = cols ! 0,
                CloudFrontLogEntry.Time = cols ! 1,
                XEdgeLocation = cols ! 2,
                SCBytes = parseCFInt64 (cols ! 3),
                CIP = cols ! 4,
                CSMethod = cols ! 5,
                CSHost = cols ! 6,
                CSURIStem = cols ! 7,
                SCStatus = parseCFInt (cols ! 8),
                CSReferer = cols ! 9,
                CSUserAgent = cols ! 10,
                CSURIQuery = cols ! 11,
                CSCookie = cols ! 12,
                XEdgeResultType = cols ! 13,
                XEdgeRequestID = cols ! 14,
                XHostHeader = cols ! 15,
                CSProtocol = cols ! 16,
                CSBytes = parseCFInt64 (cols ! 17),
                TimeTaken = parseCFFloat pf (cols ! 18),
                XForwardedFor = cols ! 19,
                SSLProtocol = cols ! 20,
                SSLCipher = cols ! 21,
                XEdgeResponseResultType = cols ! 22,
                CSProtocolVersion = cols ! 23,
                FLEStatus = cols ! 24,
                FLEEncryptedFields = parseCFInt (cols ! 25),
                CPort = parseCFInt (cols ! 26),
                TimeToFirstByte = parseCFFloat pf (cols ! 27),
                XEdgeDetailedResultType = cols ! 28,
                SCContentType = cols ! 29,
                SCContentLen = parseCFInt64 (cols ! 30),
                SCRangeStart = cols ! 31,
                SCRangeEnd = cols ! 32\<rparr>)"
    by (intro ParseCloudFrontLogLine_cols) blast+
next
  assume "ds \<noteq> [] \<and> list_all isDigit ds \<and> digitsValue ds < 2 ^ 63"
  then show "parseCFInt64 ds = digitsValue ds" "parseCFInt ds = digitsValue ds"
    using parseCFInt64_digits [of ds] by blast+
next
  assume "s \<noteq> ''-'' \<and> s \<noteq> [] \<and> pf s = FloatOK v"
  then show "parseCFFloat pf s = v" by (simp add: parseCFFloat_def floatValue_def)
qed (simp_all add: parseCFInt64_def parseCFInt_def parseCFFloat_def)

text \<open>
  A record of 33 columns with valid values whose last column, \<^verbatim>\<open>sc-range-end\<close>, is empty:
  the trim takes the closing tab away, 32 columns are left, and the record is refused.
\<close>

theorem trailing_empty_column_counterexample:
  "length [''2019-12-04'',
      ''21:02:31'',
      ''LAX1'',
      ''392'',
      ''192.0.2.100'',
      ''GET'',
      ''d1.cloudfront.net'',
      ''/index.html'',
      ''200'',
      ''-'',
      ''UA'',
      ''-'',
      ''-'',
      ''Hit'',
      ''ID1'',
      ''d1.cloudfront.net'',
      ''https'',
      ''23'',
      ''0.001'',
      ''-'',
      ''TLSv1.2'',
      ''Cipher'',
      ''Hit'',
      ''HTTP/2.0'',
      ''-'',
      ''-'',
      ''11040'',
      ''0.001'',
      ''Hit'',
      ''text/html'',
      ''78'',
      ''-'',
      []] = 33 \<and>
   ParseCloudFrontLogLine (\<lambda>s. if s = ''0.001'' then FloatOK (1 :: int) else FloatSyntax)
     (Join [''2019-12-04'',
      ''21:02:31'',
      ''LAX1'',
      ''392'',
      ''192.0.2.100'',
      ''GET'',
      ''d1.cloudfront.net'',
      ''/index.html'',
      ''200'',
      ''-'',
      ''UA'',
      ''-'',
      ''-'',
      ''Hit'',
      ''ID1'',
      ''d1.cloudfront.net'',
      ''https'',
      ''23'',
      ''0.001'',
      ''-'',
      ''TLSv1.2'',
      ''Cipher'',
      ''Hit'',
      ''HTTP/2.0'',
      ''-'',
      ''-'',
      ''11040'',
      ''0.001'',
      ''Hit'',
      ''text/html'',
      ''78'',
      ''-'',
      []] (CHR 0x09))
   = Inl (InvalidFieldCount 32)"
proof -
  let ?pf = "(\<lambda>s. if s = ''0.001'' then FloatOK (1 :: int) else FloatSyntax)"
  let ?cols = "[''2019-12-04'',
      ''21:02:31'',
      ''LAX1'',
      ''392'',
      ''192.0.2.100'',
      ''GET'',
      ''d1.cloudfront.net'',
      ''/index.html'',
      ''200'',
      ''-'',
      ''UA'',
      ''-'',
      ''-'',
      ''Hit'',
      ''ID1'',
      ''d1.cloudfront.net'',
      ''https'',
      ''23'',
      ''0.001'',
      ''-'',
      ''TLSv1.2'',
      ''Cipher'',
      ''Hit'',
      ''HTTP/2.0'',
      ''-'',
      ''-'',
      ''11040'',
      ''0.001'',
      ''Hit'',
      ''text/html'',
      ''78'',
      ''-'',
      []]"
  let ?left = "[''2019-12-04'',
      ''21:02:31'',
      ''LAX1'',
      ''392'',
      ''192.0.2.100'',
      ''GET'',
      ''d1.cloudfront.net'',
      ''/index.html'',
      ''200'',
      ''-'',
      ''UA'',
      ''-'',
      ''-'',
      ''Hit'',
      ''ID1'',
      ''d1.cloudfront.net'',
      ''https'',
      ''23'',
      ''0.001'',
      ''-'',
      ''TLSv1.2'',
      ''Cipher'',
      ''Hit'',
      ''HTTP/2.0'',
      ''-'',
      ''-'',
      ''11040'',
      ''0.001'',
      ''Hit'',
      ''text/html'',
      ''78'',
      ''-'']"
  let ?line = "Join ?cols (CHR 0x09)"
  have t: "TrimSpace ?line = Join ?left (CHR 0x09)" by code_simp
  have sp: "Split (Join ?left (CHR 0x09)) (CHR 0x09) = ?left" by code_simp
  have p: "Join ?left (CHR 0x09) \<noteq> [] \<and> \<not> HasPrefix (Join ?left (CHR 0x09)) ''#''"
    by code_simp
  have "ParseCloudFrontLogLine ?pf ?line =
          Inl (InvalidFieldCount (length (Split (TrimSpace ?line) (CHR 0x09))))"
    by (rule ParseCloudFrontLogLine_short) (simp_all only: t sp, simp_all add: p)
  then have "ParseCloudFrontLogLine ?pf ?line = Inl (InvalidFieldCount 32)"
    unfolding t sp by simp
  then show ?thesis by simp
qed

text \<open>
  The record of the parser's own test, and its three-column record. The stand-in for
  \<^verbatim>\<open>float64\<close> counts thousandths.
\<close>

theorem ParseCloudFrontLogLine_columns_witness:
  "ParseCloudFrontLogLine (\<lambda>s. if s = ''0.001'' then FloatOK (1 :: int) else FloatSyntax)
     (Join [''2019-12-04'',
      ''21:02:31'',
      ''LAX1'',
      ''392'',
      ''192.0.2.100'',
      ''GET'',
      ''d111111abcdef8.cloudfront.net'',
      ''/index.html'',
      ''200'',
      ''-'',
      ''Mozilla/5.0...'',
      ''-'',
      ''-'',
      ''Hit'',
      ''SOX4xwn4XV6Q4rgb7XiVGOHms_BGlTAC4KyHmureZmBNrjGdRLiNIQ=='',
      ''d111111abcdef8.cloudfront.net'',
      ''https'',
      ''23'',
      ''0.001'',
      ''-'',
      ''TLSv1.2'',
      ''ECDHE-RSA-AES128-GCM-SHA256'',
      ''Hit'',
      ''HTTP/2.0'',
      ''-'',
      ''-'',
      ''11040'',
      ''0.001'',
      ''Hit'',
      ''text/html'',
      ''78'',
      ''-'',
      ''-''] (CHR 0x09))
   = Inr (Some
       \<lparr>Date = ''2019-12-04'',
         CloudFrontLogEntry.Time = ''21:02:31'',
         XEdgeLocation = ''LAX1'',
         SCBytes = 392,
         CIP = ''192.0.2.100'',
         CSMethod = ''GET'',
         CSHost = ''d111111abcdef8.cloudfront.net'',
         CSURIStem = ''/index.html'',
         SCStatus = 200,
         CSReferer = ''-'',
         CSUserAgent = ''Mozilla/5.0...'',
         CSURIQuery = ''-'',
         CSCookie = ''-'',
         XEdgeResultType = ''Hit'',
         XEdgeRequestID = ''SOX4xwn4XV6Q4rgb7XiVGOHms_BGlTAC4KyHmureZmBNrjGdRLiNIQ=='',
         XHostHeader = ''d111111abcdef8.cloudfront.net'',
         CSProtocol = ''https'',
         CSBytes = 23,
         TimeTaken = 1,
         XForwardedFor = ''-'',
         SSLProtocol = ''TLSv1.2'',
         SSLCipher = ''ECDHE-RSA-AES128-GCM-SHA256'',
         XEdgeResponseResultType = ''Hit'',
         CSProtocolVersion = ''HTTP/2.0'',
         FLEStatus = ''-'',
         FLEEncryptedFields = 0,
         CPort = 11040,
         TimeToFirstByte = 1,
         XEdgeDetailedResultType = ''Hit'',
         SCContentType = ''text/html'',
         SCContentLen = 78,
         SCRangeStart = ''-'',
         SCRangeEnd = ''-''\<rparr>) \<and>
   ParseCloudFrontLogLine (\<lambda>s. if s = ''0.001'' then FloatOK (1 :: int) else FloatSyntax)
     (Join [''date'', ''time'', ''location''] (CHR 0x09)) = Inl (InvalidFieldCount 3) \<and>
   parseCFInt64 ''392'' = 392"
proof -
  let ?pf = "(\<lambda>s. if s = ''0.001'' then FloatOK (1 :: int) else FloatSyntax)"
  let ?cols = "[''2019-12-04'',
      ''21:02:31'',
      ''LAX1'',
      ''392'',
      ''192.0.2.100'',
      ''GET'',
      ''d111111abcdef8.cloudfront.net'',
      ''/index.html'',
      ''200'',
      ''-'',
      ''Mozilla/5.0...'',
      ''-'',
      ''-'',
      ''Hit'',
      ''SOX4xwn4XV6Q4rgb7XiVGOHms_BGlTAC4KyHmureZmBNrjGdRLiNIQ=='',
      ''d111111abcdef8.cloudfront.net'',
      ''https'',
      ''23'',
      ''0.001'',
      ''-'',
      ''TLSv1.2'',
      ''ECDHE-RSA-AES128-GCM-SHA256'',
      ''Hit'',
      ''HTTP/2.0'',
      ''-'',
      ''-'',
      ''11040'',
      ''0.001'',
      ''Hit'',
      ''text/html'',
      ''78'',
      ''-'',
      ''-'']"
  let ?line = "Join ?cols (CHR 0x09)"
  let ?bad = "Join [''date'', ''time'', ''location''] (CHR 0x09)"
  note inst = ParseCloudFrontLogLine_columns
    [where line = "?bad" and pf = "?pf" and cols = "?cols" and ds = "''392''"
       and s = "''0.001''" and v = 1]
  note inst2 = ParseCloudFrontLogLine_columns
    [where line = "?line" and pf = "?pf" and cols = "?cols" and ds = "''392''"
       and s = "''0.001''" and v = 1]
  have tb: "TrimSpace ?bad = ?bad" by code_simp
  have sb: "Split ?bad (CHR 0x09) = [''date'', ''time'', ''location'']" by code_simp
  have pb: "?bad \<noteq> [] \<and> \<not> HasPrefix ?bad ''#''" by code_simp
  have h1: "TrimSpace ?bad \<noteq> [] \<and> \<not> HasPrefix (TrimSpace ?bad) ''#'' \<and>
            length (Split ?bad (CHR 0x09)) < 33"
    unfolding tb sb using pb by simp
  have h2: "TrimSpace ?bad \<noteq> [] \<and> \<not> HasPrefix (TrimSpace ?bad) ''#'' \<and>
            length (Split (TrimSpace ?bad) (CHR 0x09)) < 33"
    unfolding tb sb using pb by simp
  have h4: "33 \<le> length ?cols \<and> (\<forall>c \<in> set ?cols. CHR 0x09 \<notin> set c) \<and>
      hd ?cols \<noteq> [] \<and> spaceWidth (hd ?cols) = 0 \<and> \<not> HasPrefix (hd ?cols) ''#'' \<and>
      last ?cols \<noteq> [] \<and> spaceWidthLast (last ?cols) = 0"
    by code_simp
  have tl: "TrimSpace ?line = ?line"
    using h4 by (intro TrimSpace_Join) simp_all
  have sl: "Split ?line (CHR 0x09) = ?cols"
    using h4 by (intro Split_Join) simp_all
  have pl: "?line \<noteq> [] \<and> \<not> HasPrefix ?line ''#''" by code_simp
  have h3: "TrimSpace ?line \<noteq> [] \<and> \<not> HasPrefix (TrimSpace ?line) ''#'' \<and>
            33 \<le> length (Split (TrimSpace ?line) (CHR 0x09))"
    unfolding tl sl using pl by simp
  have h5: "''392'' \<noteq> [] \<and> list_all isDigit ''392'' \<and> digitsValue ''392'' < 2 ^ 63"
    by code_simp
  have dv: "digitsValue ''392'' = 392" by code_simp
  have ev: "\<lparr>Date = ?cols ! 0,
         CloudFrontLogEntry.Time = ?cols ! 1,
         XEdgeLocation = ?cols ! 2,
         SCBytes = parseCFInt64 (?cols ! 3),
         CIP = ?cols ! 4,
         CSMethod = ?cols ! 5,
         CSHost = ?cols ! 6,
         CSURIStem = ?cols ! 7,
         SCStatus = parseCFInt (?cols ! 8),
         CSReferer = ?cols ! 9,
         CSUserAgent = ?cols ! 10,
         CSURIQuery = ?cols ! 11,
         CSCookie = ?cols ! 12,
         XEdgeResultType = ?cols ! 13,
         XEdgeRequestID = ?cols ! 14,
         XHostHeader = ?cols ! 15,
         CSProtocol = ?cols ! 16,
         CSBytes = parseCFInt64 (?cols ! 17),
         TimeTaken = parseCFFloat ?pf (?cols ! 18),
         XForwardedFor = ?cols ! 19,
         SSLProtocol = ?cols ! 20,
         SSLCipher = ?cols ! 21,
         XEdgeResponseResultType = ?cols ! 22,
         CSProtocolVersion = ?cols ! 23,
         FLEStatus = ?cols ! 24,
         FLEEncryptedFields = parseCFInt (?cols ! 25),
         CPort = parseCFInt (?cols ! 26),
         TimeToFirstByte = parseCFFloat ?pf (?cols ! 27),
         XEdgeDetailedResultType = ?cols ! 28,
         SCContentType = ?cols ! 29,
         SCContentLen = parseCFInt64 (?cols ! 30),
         SCRangeStart = ?cols ! 31,
         SCRangeEnd = ?cols ! 32\<rparr> =
       \<lparr>Date = ''2019-12-04'',
         CloudFrontLogEntry.Time = ''21:02:31'',
         XEdgeLocation = ''LAX1'',
         SCBytes = 392,
         CIP = ''192.0.2.100'',
         CSMethod = ''GET'',
         CSHost = ''d111111abcdef8.cloudfront.net'',
         CSURIStem = ''/index.html'',
         SCStatus = 200,
         CSReferer = ''-'',
         CSUserAgent = ''Mozilla/5.0...'',
         CSURIQuery = ''-'',
         CSCookie = ''-'',
         XEdgeResultType = ''Hit'',
         XEdgeRequestID = ''SOX4xwn4XV6Q4rgb7XiVGOHms_BGlTAC4KyHmureZmBNrjGdRLiNIQ=='',
         XHostHeader = ''d111111abcdef8.cloudfront.net'',
         CSProtocol = ''https'',
         CSBytes = 23,
         TimeTaken = 1,
         XForwardedFor = ''-'',
         SSLProtocol = ''TLSv1.2'',
         SSLCipher = ''ECDHE-RSA-AES128-GCM-SHA256'',
         XEdgeResponseResultType = ''Hit'',
         CSProtocolVersion = ''HTTP/2.0'',
         FLEStatus = ''-'',
         FLEEncryptedFields = 0,
         CPort = 11040,
         TimeToFirstByte = 1,
         XEdgeDetailedResultType = ''Hit'',
         SCContentType = ''text/html'',
         SCContentLen = 78,
         SCRangeStart = ''-'',
         SCRangeEnd = ''-''\<rparr>"
    by code_simp
  from inst h1 have "\<exists>n < 33. ParseCloudFrontLogLine ?pf ?bad = Inl (InvalidFieldCount n)"
    by blast
  from inst h2 have "ParseCloudFrontLogLine ?pf ?bad =
      Inl (InvalidFieldCount (length (Split (TrimSpace ?bad) (CHR 0x09))))"
    by blast
  then have a: "ParseCloudFrontLogLine ?pf ?bad = Inl (InvalidFieldCount 3)"
    unfolding tb sb by simp
  from inst2 h3 have "ParseCloudFrontLogLine ?pf ?line =
            Inr (Some
              \<lparr>Date = Split (TrimSpace ?line) (CHR 0x09) ! 0,
                CloudFrontLogEntry.Time = Split (TrimSpace ?line) (CHR 0x09) ! 1,
                XEdgeLocation = Split (TrimSpace ?line) (CHR 0x09) ! 2,
                SCBytes = parseCFInt64 (Split (TrimSpace ?line) (CHR 0x09) ! 3),
                CIP = Split (TrimSpace ?line) (CHR 0x09) ! 4,
                CSMethod = Split (TrimSpace ?line) (CHR 0x09) ! 5,
                CSHost = Split (TrimSpace ?line) (CHR 0x09) ! 6,
                CSURIStem = Split (TrimSpace ?line) (CHR 0x09) ! 7,
                SCStatus = parseCFInt (Split (TrimSpace ?line) (CHR 0x09) ! 8),
                CSReferer = Split (TrimSpace ?line) (CHR 0x09) ! 9,
                CSUserAgent = Split (TrimSpace ?line) (CHR 0x09) ! 10,
                CSURIQuery = Split (TrimSpace ?line) (CHR 0x09) ! 11,
                CSCookie = Split (TrimSpace ?line) (CHR 0x09) ! 12,
                XEdgeResultType = Split (TrimSpace ?line) (CHR 0x09) ! 13,
                XEdgeRequestID = Split (TrimSpace ?line) (CHR 0x09) ! 14,
                XHostHeader = Split (TrimSpace ?line) (CHR 0x09) ! 15,
                CSProtocol = Split (TrimSpace ?line) (CHR 0x09) ! 16,
                CSBytes = parseCFInt64 (Split (TrimSpace ?line) (CHR 0x09) ! 17),
                TimeTaken = parseCFFloat ?pf (Split (TrimSpace ?line) (CHR 0x09) ! 18),
                XForwardedFor = Split (TrimSpace ?line) (CHR 0x09) ! 19,
                SSLProtocol = Split (TrimSpace ?line) (CHR 0x09) ! 20,
                SSLCipher = Split (TrimSpace ?line) (CHR 0x09) ! 21,
                XEdgeResponseResultType = Split (TrimSpace ?line) (CHR 0x09) ! 22,
                CSProtocolVersion = Split (TrimSpace ?line) (CHR 0x09) ! 23,
                FLEStatus = Split (TrimSpace ?line) (CHR 0x09) ! 24,
                FLEEncryptedFields = parseCFInt (Split (TrimSpace ?line) (CHR 0x09) ! 25),
                CPort = parseCFInt (Split (TrimSpace ?line) (CHR 0x09) ! 26),
                TimeToFirstByte = parseCFFloat ?pf (Split (TrimSpace ?line) (CHR 0x09) ! 27),
                XEdgeDetailedResultType = Split (TrimSpace ?line) (CHR 0x09) ! 28,
                SCContentType = Split (TrimSpace ?line) (CHR 0x09) ! 29,
                SCContentLen = parseCFInt64 (Split (TrimSpace ?line) (CHR 0x09) ! 30),
                SCRangeStart = Split (TrimSpace ?line) (CHR 0x09) ! 31,
                SCRangeEnd = Split (TrimSpace ?line) (CHR 0x09) ! 32\<rparr>)"
    by blast
  then have b3: "ParseCloudFrontLogLine ?pf ?line =
            Inr (Some
              \<lparr>Date = ?cols ! 0,
                CloudFrontLogEntry.Time = ?cols ! 1,
                XEdgeLocation = ?cols ! 2,
                SCBytes = parseCFInt64 (?cols ! 3),
                CIP = ?cols ! 4,
                CSMethod = ?cols ! 5,
                CSHost = ?cols ! 6,
                CSURIStem = ?cols ! 7,
                SCStatus = parseCFInt (?cols ! 8),
                CSReferer = ?cols ! 9,
                CSUserAgent = ?cols ! 10,
                CSURIQuery = ?cols ! 11,
                CSCookie = ?cols ! 12,
                XEdgeResultType = ?cols ! 13,
                XEdgeRequestID = ?cols ! 14,
                XHostHeader = ?cols ! 15,
                CSProtocol = ?cols ! 16,
                CSBytes = parseCFInt64 (?cols ! 17),
                TimeTaken = parseCFFloat ?pf (?cols ! 18),
                XForwardedFor = ?cols ! 19,
                SSLProtocol = ?cols ! 20,
                SSLCipher = ?cols ! 21,
                XEdgeResponseResultType = ?cols ! 22,
                CSProtocolVersion = ?cols ! 23,
                FLEStatus = ?cols ! 24,
                FLEEncryptedFields = parseCFInt (?cols ! 25),
                CPort = parseCFInt (?cols ! 26),
                TimeToFirstByte = parseCFFloat ?pf (?cols ! 27),
                XEdgeDetailedResultType = ?cols ! 28,
                SCContentType = ?cols ! 29,
                SCContentLen = parseCFInt64 (?cols ! 30),
                SCRangeStart = ?cols ! 31,
                SCRangeEnd = ?cols ! 32\<rparr>)"
    unfolding tl sl .
  from inst h4 have b: "ParseCloudFrontLogLine ?pf ?line =
            Inr (Some
              \<lparr>Date = ?cols ! 0,
                CloudFrontLogEntry.Time = ?cols ! 1,
                XEdgeLocation = ?cols ! 2,
                SCBytes = parseCFInt64 (?cols ! 3),
                CIP = ?cols ! 4,
                CSMethod = ?cols ! 5,
                CSHost = ?cols ! 6,
                CSURIStem = ?cols ! 7,
                SCStatus = parseCFInt (?cols ! 8),
                CSReferer = ?cols ! 9,
                CSUserAgent = ?cols ! 10,
                CSURIQuery = ?cols ! 11,
                CSCookie = ?cols ! 12,
                XEdgeResultType = ?cols ! 13,
                XEdgeRequestID = ?cols ! 14,
                XHostHeader = ?cols ! 15,
                CSProtocol = ?cols ! 16,
                CSBytes = parseCFInt64 (?cols ! 17),
                TimeTaken = parseCFFloat ?pf (?cols ! 18),
                XForwardedFor = ?cols ! 19,
                SSLProtocol = ?cols ! 20,
                SSLCipher = ?cols ! 21,
                XEdgeResponseResultType = ?cols ! 22,
                CSProtocolVersion = ?cols ! 23,
                FLEStatus = ?cols ! 24,
                FLEEncryptedFields = parseCFInt (?cols ! 25),
                CPort = parseCFInt (?cols ! 26),
                TimeToFirstByte = parseCFFloat ?pf (?cols ! 27),
                XEdgeDetailedResultType = ?cols ! 28,
                SCContentType = ?cols ! 29,
                SCContentLen = parseCFInt64 (?cols ! 30),
                SCRangeStart = ?cols ! 31,
                SCRangeEnd = ?cols ! 32\<rparr>)"
    by blast
  from inst h5 have "parseCFInt64 ''392'' = digitsValue ''392''" by blast
  then have c: "parseCFInt64 ''392'' = 392" unfolding dv .
  from a b c ev show ?thesis by simp
qed

section \<open>Numeric conversion failures\<close>

text \<open>
  C10 (as the code has it). \<^verbatim>\<open>ParseCloudFrontLogLine\<close> returns an error exactly for a record
  that is not blank, not a comment and has fewer than 33 columns after trimming; with 33
  columns or more it returns the entry, whatever the numeric columns hold. A numeric
  column keeps what \<^verbatim>\<open>strconv\<close> returns beside the dropped error: 0 when the error is a
  syntax error, but the nearest bound of the 64-bit range when it is a range error, and the
  value \<^verbatim>\<open>ParseFloat\<close> returns (an infinity) when a float is out of range.
\<close>

theorem conversion_failures_discarded:
  "((\<exists>err. ParseCloudFrontLogLine pf line = Inl err) \<longleftrightarrow>
      TrimSpace line \<noteq> [] \<and> \<not> HasPrefix (TrimSpace line) ''#'' \<and>
      length (Split (TrimSpace line) (CHR 0x09)) < 33) \<and>
   (TrimSpace line \<noteq> [] \<and> \<not> HasPrefix (TrimSpace line) ''#'' \<and>
      33 \<le> length (Split (TrimSpace line) (CHR 0x09))
      \<longrightarrow> ParseCloudFrontLogLine pf line =
            Inr (Some
              \<lparr>Date = Split (TrimSpace line) (CHR 0x09) ! 0,
                CloudFrontLogEntry.Time = Split (TrimSpace line) (CHR 0x09) ! 1,
                XEdgeLocation = Split (TrimSpace line) (CHR 0x09) ! 2,
                SCBytes = parseCFInt64 (Split (TrimSpace line) (CHR 0x09) ! 3),
                CIP = Split (TrimSpace line) (CHR 0x09) ! 4,
                CSMethod = Split (TrimSpace line) (CHR 0x09) ! 5,
                CSHost = Split (TrimSpace line) (CHR 0x09) ! 6,
                CSURIStem = Split (TrimSpace line) (CHR 0x09) ! 7,
                SCStatus = parseCFInt (Split (TrimSpace line) (CHR 0x09) ! 8),
                CSReferer = Split (TrimSpace line) (CHR 0x09) ! 9,
                CSUserAgent = Split (TrimSpace line) (CHR 0x09) ! 10,
                CSURIQuery = Split (TrimSpace line) (CHR 0x09) ! 11,
                CSCookie = Split (TrimSpace line) (CHR 0x09) ! 12,
                XEdgeResultType = Split (TrimSpace line) (CHR 0x09) ! 13,
                XEdgeRequestID = Split (TrimSpace line) (CHR 0x09) ! 14,
                XHostHeader = Split (TrimSpace line) (CHR 0x09) ! 15,
                CSProtocol = Split (TrimSpace line) (CHR 0x09) ! 16,
                CSBytes = parseCFInt64 (Split (TrimSpace line) (CHR 0x09) ! 17),
                TimeTaken = parseCFFloat pf (Split (TrimSpace line) (CHR 0x09) ! 18),
                XForwardedFor = Split (TrimSpace line) (CHR 0x09) ! 19,
                SSLProtocol = Split (TrimSpace line) (CHR 0x09) ! 20,
                SSLCipher = Split (TrimSpace line) (CHR 0x09) ! 21,
                XEdgeResponseResultType = Split (TrimSpace line) (CHR 0x09) ! 22,
                CSProtocolVersion = Split (TrimSpace line) (CHR 0x09) ! 23,
                FLEStatus = Split (TrimSpace line) (CHR 0x09) ! 24,
                FLEEncryptedFields = parseCFInt (Split (TrimSpace line) (CHR 0x09) ! 25),
                CPort = parseCFInt (Split (TrimSpace line) (CHR 0x09) ! 26),
                TimeToFirstByte = parseCFFloat pf (Split (TrimSpace line) (CHR 0x09) ! 27),
                XEdgeDetailedResultType = Split (TrimSpace line) (CHR 0x09) ! 28,
                SCContentType = Split (TrimSpace line) (CHR 0x09) ! 29,
                SCContentLen = parseCFInt64 (Split (TrimSpace line) (CHR 0x09) ! 30),
                SCRangeStart = Split (TrimSpace line) (CHR 0x09) ! 31,
                SCRangeEnd = Split (TrimSpace line) (CHR 0x09) ! 32\<rparr>)) \<and>
   (snd (ParseInt s) = Some ErrSyntax \<longrightarrow> parseCFInt s = 0 \<and> parseCFInt64 s = 0) \<and>
   (snd (ParseInt s) = Some ErrRange
      \<longrightarrow> parseCFInt s = (if hd s = CHR ''-'' then - (2 ^ 63) else 2 ^ 63 - 1) \<and>
          parseCFInt64 s = (if hd s = CHR ''-'' then - (2 ^ 63) else 2 ^ 63 - 1)) \<and>
   (pf s = FloatSyntax \<longrightarrow> parseCFFloat pf s = 0) \<and>
   (s \<noteq> ''-'' \<and> s \<noteq> [] \<and> pf s = FloatRange v \<longrightarrow> parseCFFloat pf s = v)"
proof (intro conjI impI)
  show "(\<exists>err. ParseCloudFrontLogLine pf line = Inl err) \<longleftrightarrow>
      TrimSpace line \<noteq> [] \<and> \<not> HasPrefix (TrimSpace line) ''#'' \<and>
      length (Split (TrimSpace line) (CHR 0x09)) < 33"
    by (rule ParseCloudFrontLogLine_error_iff)
next
  assume "TrimSpace line \<noteq> [] \<and> \<not> HasPrefix (TrimSpace line) ''#'' \<and>
      33 \<le> length (Split (TrimSpace line) (CHR 0x09))"
  then show "ParseCloudFrontLogLine pf line =
            Inr (Some
              \<lparr>Date = Split (TrimSpace line) (CHR 0x09) ! 0,
                CloudFrontLogEntry.Time = Split (TrimSpace line) (CHR 0x09) ! 1,
                XEdgeLocation = Split (TrimSpace line) (CHR 0x09) ! 2,
                SCBytes = parseCFInt64 (Split (TrimSpace line) (CHR 0x09) ! 3),
                CIP = Split (TrimSpace line) (CHR 0x09) ! 4,
                CSMethod = Split (TrimSpace line) (CHR 0x09) ! 5,
                CSHost = Split (TrimSpace line) (CHR 0x09) ! 6,
                CSURIStem = Split (TrimSpace line) (CHR 0x09) ! 7,
                SCStatus = parseCFInt (Split (TrimSpace line) (CHR 0x09) ! 8),
                CSReferer = Split (TrimSpace line) (CHR 0x09) ! 9,
                CSUserAgent = Split (TrimSpace line) (CHR 0x09) ! 10,
                CSURIQuery = Split (TrimSpace line) (CHR 0x09) ! 11,
                CSCookie = Split (TrimSpace line) (CHR 0x09) ! 12,
                XEdgeResultType = Split (TrimSpace line) (CHR 0x09) ! 13,
                XEdgeRequestID = Split (TrimSpace line) (CHR 0x09) ! 14,
                XHostHeader = Split (TrimSpace line) (CHR 0x09) ! 15,
                CSProtocol = Split (TrimSpace line) (CHR 0x09) ! 16,
                CSBytes = parseCFInt64 (Split (TrimSpace line) (CHR 0x09) ! 17),
                TimeTaken = parseCFFloat pf (Split (TrimSpace line) (CHR 0x09) ! 18),
                XForwardedFor = Split (TrimSpace line) (CHR 0x09) ! 19,
                SSLProtocol = Split (TrimSpace line) (CHR 0x09) ! 20,
                SSLCipher = Split (TrimSpace line) (CHR 0x09) ! 21,
                XEdgeResponseResultType = Split (TrimSpace line) (CHR 0x09) ! 22,
                CSProtocolVersion = Split (TrimSpace line) (CHR 0x09) ! 23,
                FLEStatus = Split (TrimSpace line) (CHR 0x09) ! 24,
                FLEEncryptedFields = parseCFInt (Split (TrimSpace line) (CHR 0x09) ! 25),
                CPort = parseCFInt (Split (TrimSpace line) (CHR 0x09) ! 26),
                TimeToFirstByte = parseCFFloat pf (Split (TrimSpace line) (CHR 0x09) ! 27),
                XEdgeDetailedResultType = Split (TrimSpace line) (CHR 0x09) ! 28,
                SCContentType = Split (TrimSpace line) (CHR 0x09) ! 29,
                SCContentLen = parseCFInt64 (Split (TrimSpace line) (CHR 0x09) ! 30),
                SCRangeStart = Split (TrimSpace line) (CHR 0x09) ! 31,
                SCRangeEnd = Split (TrimSpace line) (CHR 0x09) ! 32\<rparr>)"
    by (intro ParseCloudFrontLogLine_entry) blast+
next
  assume "snd (ParseInt s) = Some ErrSyntax"
  then have "fst (ParseInt s) = 0"
    by (auto simp: ParseInt_def Let_def split: if_splits)
  then show "parseCFInt s = 0" "parseCFInt64 s = 0"
    by (simp_all add: parseCFInt_def parseCFInt64_def Atoi_def)
next
  assume a: "snd (ParseInt s) = Some ErrRange"
  then have "fst (ParseInt s) = (if hd s = CHR ''-'' then - (2 ^ 63) else 2 ^ 63 - 1)"
    by (auto simp: ParseInt_def Let_def split: if_splits)
  moreover have "s \<noteq> ''-''" "s \<noteq> []" using a by (auto simp: ParseInt_def ParseUint_def)
  ultimately show "parseCFInt s = (if hd s = CHR ''-'' then - (2 ^ 63) else 2 ^ 63 - 1)"
    "parseCFInt64 s = (if hd s = CHR ''-'' then - (2 ^ 63) else 2 ^ 63 - 1)"
    by (simp_all add: parseCFInt_def parseCFInt64_def Atoi_def)
next
  assume "pf s = FloatSyntax"
  then show "parseCFFloat pf s = 0" by (simp add: parseCFFloat_def floatValue_def)
next
  assume "s \<noteq> ''-'' \<and> s \<noteq> [] \<and> pf s = FloatRange v"
  then show "parseCFFloat pf s = v" by (simp add: parseCFFloat_def floatValue_def)
qed

text \<open>
  A record of 33 columns whose \<^verbatim>\<open>sc-bytes\<close> column is a numeral of twenty digits: the column
  is not the absent marker, \<^verbatim>\<open>strconv.ParseInt\<close> reports an error for it, and the field of
  the entry is the greatest \<^verbatim>\<open>int64\<close>, not zero.
\<close>

theorem out_of_range_not_zero_counterexample:
  "length [''2019-12-04'',
      ''21:02:31'',
      ''LAX1'',
      ''99999999999999999999'',
      ''192.0.2.100'',
      ''GET'',
      ''d1.cloudfront.net'',
      ''/index.html'',
      ''200'',
      ''-'',
      ''UA'',
      ''-'',
      ''-'',
      ''Hit'',
      ''ID1'',
      ''d1.cloudfront.net'',
      ''https'',
      ''23'',
      ''0.001'',
      ''-'',
      ''TLSv1.2'',
      ''Cipher'',
      ''Hit'',
      ''HTTP/2.0'',
      ''-'',
      ''-'',
      ''11040'',
      ''0.001'',
      ''Hit'',
      ''text/html'',
      ''78'',
      ''-'',
      ''-''] = 33 \<and>
   snd (ParseInt ''99999999999999999999'') = Some ErrRange \<and>
   map_sum id (map_option SCBytes)
     (ParseCloudFrontLogLine (\<lambda>s. FloatSyntax :: int float_result)
        (Join [''2019-12-04'',
      ''21:02:31'',
      ''LAX1'',
      ''99999999999999999999'',
      ''192.0.2.100'',
      ''GET'',
      ''d1.cloudfront.net'',
      ''/index.html'',
      ''200'',
      ''-'',
      ''UA'',
      ''-'',
      ''-'',
      ''Hit'',
      ''ID1'',
      ''d1.cloudfront.net'',
      ''https'',
      ''23'',
      ''0.001'',
      ''-'',
      ''TLSv1.2'',
      ''Cipher'',
      ''Hit'',
      ''HTTP/2.0'',
      ''-'',
      ''-'',
      ''11040'',
      ''0.001'',
      ''Hit'',
      ''text/html'',
      ''78'',
      ''-'',
      ''-''] (CHR 0x09)))
     = Inr (Some 9223372036854775807)"
proof -
  let ?cols = "[''2019-12-04'',
      ''21:02:31'',
      ''LAX1'',
      ''99999999999999999999'',
      ''192.0.2.100'',
      ''GET'',
      ''d1.cloudfront.net'',
      ''/index.html'',
      ''200'',
      ''-'',
      ''UA'',
      ''-'',
      ''-'',
      ''Hit'',
      ''ID1'',
      ''d1.cloudfront.net'',
      ''https'',
      ''23'',
      ''0.001'',
      ''-'',
      ''TLSv1.2'',
      ''Cipher'',
      ''Hit'',
      ''HTTP/2.0'',
      ''-'',
      ''-'',
      ''11040'',
      ''0.001'',
      ''Hit'',
      ''text/html'',
      ''78'',
      ''-'',
      ''-'']"
  have h: "33 \<le> length ?cols" "\<forall>c \<in> set ?cols. CHR 0x09 \<notin> set c"
    "TrimSpace (Join ?cols (CHR 0x09)) = Join ?cols (CHR 0x09)"
    "\<not> HasPrefix (Join ?cols (CHR 0x09)) ''#''"
    by code_simp+
  have a: "length ?cols = 33" by simp
  have b: "snd (ParseInt ''99999999999999999999'') = Some ErrRange" by code_simp
  have c: "parseCFInt64 ''99999999999999999999'' = 9223372036854775807" by code_simp
  have "map_sum id (map_option SCBytes)
          (ParseCloudFrontLogLine (\<lambda>s. FloatSyntax :: int float_result) (Join ?cols (CHR 0x09)))
        = Inr (Some 9223372036854775807)"
    unfolding ParseCloudFrontLogLine_Join [OF h] by (simp add: c)
  with a b show ?thesis by blast
qed

text \<open>
  A record with \<^verbatim>\<open>abc\<close> as \<^verbatim>\<open>sc-bytes\<close> and as \<^verbatim>\<open>time-taken\<close>, a numeral out of range as
  \<^verbatim>\<open>cs-bytes\<close> and a float out of range as \<^verbatim>\<open>time-to-first-byte\<close> (the stand-in 7 is the
  infinity \<^verbatim>\<open>ParseFloat\<close> returns), and the three-column record.
\<close>

theorem conversion_failures_discarded_witness:
  "map_sum id (map_option (\<lambda>e. (SCBytes e, CSBytes e, TimeTaken e, TimeToFirstByte e)))
     (ParseCloudFrontLogLine (\<lambda>s. if s = ''1e999'' then FloatRange (7 :: int) else FloatSyntax)
        (Join [''2019-12-04'',
      ''21:02:31'',
      ''LAX1'',
      ''abc'',
      ''192.0.2.100'',
      ''GET'',
      ''d1.cloudfront.net'',
      ''/index.html'',
      ''200'',
      ''-'',
      ''UA'',
      ''-'',
      ''-'',
      ''Hit'',
      ''ID1'',
      ''d1.cloudfront.net'',
      ''https'',
      ''99999999999999999999'',
      ''abc'',
      ''-'',
      ''TLSv1.2'',
      ''Cipher'',
      ''Hit'',
      ''HTTP/2.0'',
      ''-'',
      ''-'',
      ''11040'',
      ''1e999'',
      ''Hit'',
      ''text/html'',
      ''78'',
      ''-'',
      ''-''] (CHR 0x09)))
     = Inr (Some (0, 9223372036854775807, 0, 7)) \<and>
   (\<exists>err. ParseCloudFrontLogLine (\<lambda>s. if s = ''1e999'' then FloatRange (7 :: int) else FloatSyntax)
        (Join [''date'', ''time'', ''location''] (CHR 0x09)) = Inl err) \<and>
   parseCFInt ''abc'' = 0"
proof -
  let ?pf = "(\<lambda>s. if s = ''1e999'' then FloatRange (7 :: int) else FloatSyntax)"
  let ?cols = "[''2019-12-04'',
      ''21:02:31'',
      ''LAX1'',
      ''abc'',
      ''192.0.2.100'',
      ''GET'',
      ''d1.cloudfront.net'',
      ''/index.html'',
      ''200'',
      ''-'',
      ''UA'',
      ''-'',
      ''-'',
      ''Hit'',
      ''ID1'',
      ''d1.cloudfront.net'',
      ''https'',
      ''99999999999999999999'',
      ''abc'',
      ''-'',
      ''TLSv1.2'',
      ''Cipher'',
      ''Hit'',
      ''HTTP/2.0'',
      ''-'',
      ''-'',
      ''11040'',
      ''1e999'',
      ''Hit'',
      ''text/html'',
      ''78'',
      ''-'',
      ''-'']"
  let ?line = "Join ?cols (CHR 0x09)"
  let ?bad = "Join [''date'', ''time'', ''location''] (CHR 0x09)"
  note inst = conversion_failures_discarded [of ?pf ?line "''abc''" 0]
  note inst2 = conversion_failures_discarded [of ?pf ?bad "''abc''" 0]
  have t: "TrimSpace ?line = ?line" by code_simp
  have sp: "Split ?line (CHR 0x09) = ?cols" by code_simp
  have p: "?line \<noteq> [] \<and> \<not> HasPrefix ?line ''#''" by code_simp
  have h: "TrimSpace ?line \<noteq> [] \<and> \<not> HasPrefix (TrimSpace ?line) ''#'' \<and>
           33 \<le> length (Split (TrimSpace ?line) (CHR 0x09))"
    unfolding t sp using p by simp
  have ev: "map_sum id (map_option (\<lambda>e. (SCBytes e, CSBytes e, TimeTaken e, TimeToFirstByte e)))
     (Inr (Some
              \<lparr>Date = ?cols ! 0,
                CloudFrontLogEntry.Time = ?cols ! 1,
                XEdgeLocation = ?cols ! 2,
                SCBytes = parseCFInt64 (?cols ! 3),
                CIP = ?cols ! 4,
                CSMethod = ?cols ! 5,
                CSHost = ?cols ! 6,
                CSURIStem = ?cols ! 7,
                SCStatus = parseCFInt (?cols ! 8),
                CSReferer = ?cols ! 9,
                CSUserAgent = ?cols ! 10,
                CSURIQuery = ?cols ! 11,
                CSCookie = ?cols ! 12,
                XEdgeResultType = ?cols ! 13,
                XEdgeRequestID = ?cols ! 14,
                XHostHeader = ?cols ! 15,
                CSProtocol = ?cols ! 16,
                CSBytes = parseCFInt64 (?cols ! 17),
                TimeTaken = parseCFFloat ?pf (?cols ! 18),
                XForwardedFor = ?cols ! 19,
                SSLProtocol = ?cols ! 20,
                SSLCipher = ?cols ! 21,
                XEdgeResponseResultType = ?cols ! 22,
                CSProtocolVersion = ?cols ! 23,
                FLEStatus = ?cols ! 24,
                FLEEncryptedFields = parseCFInt (?cols ! 25),
                CPort = parseCFInt (?cols ! 26),
                TimeToFirstByte = parseCFFloat ?pf (?cols ! 27),
                XEdgeDetailedResultType = ?cols ! 28,
                SCContentType = ?cols ! 29,
                SCContentLen = parseCFInt64 (?cols ! 30),
                SCRangeStart = ?cols ! 31,
                SCRangeEnd = ?cols ! 32\<rparr>)
        :: parse_error + int CloudFrontLogEntry option)
     = Inr (Some (0, 9223372036854775807, 0, 7))"
    by code_simp
  from inst h have "ParseCloudFrontLogLine ?pf ?line =
            Inr (Some
              \<lparr>Date = Split (TrimSpace ?line) (CHR 0x09) ! 0,
                CloudFrontLogEntry.Time = Split (TrimSpace ?line) (CHR 0x09) ! 1,
                XEdgeLocation = Split (TrimSpace ?line) (CHR 0x09) ! 2,
                SCBytes = parseCFInt64 (Split (TrimSpace ?line) (CHR 0x09) ! 3),
                CIP = Split (TrimSpace ?line) (CHR 0x09) ! 4,
                CSMethod = Split (TrimSpace ?line) (CHR 0x09) ! 5,
                CSHost = Split (TrimSpace ?line) (CHR 0x09) ! 6,
                CSURIStem = Split (TrimSpace ?line) (CHR 0x09) ! 7,
                SCStatus = parseCFInt (Split (TrimSpace ?line) (CHR 0x09) ! 8),
                CSReferer = Split (TrimSpace ?line) (CHR 0x09) ! 9,
                CSUserAgent = Split (TrimSpace ?line) (CHR 0x09) ! 10,
                CSURIQuery = Split (TrimSpace ?line) (CHR 0x09) ! 11,
                CSCookie = Split (TrimSpace ?line) (CHR 0x09) ! 12,
                XEdgeResultType = Split (TrimSpace ?line) (CHR 0x09) ! 13,
                XEdgeRequestID = Split (TrimSpace ?line) (CHR 0x09) ! 14,
                XHostHeader = Split (TrimSpace ?line) (CHR 0x09) ! 15,
                CSProtocol = Split (TrimSpace ?line) (CHR 0x09) ! 16,
                CSBytes = parseCFInt64 (Split (TrimSpace ?line) (CHR 0x09) ! 17),
                TimeTaken = parseCFFloat ?pf (Split (TrimSpace ?line) (CHR 0x09) ! 18),
                XForwardedFor = Split (TrimSpace ?line) (CHR 0x09) ! 19,
                SSLProtocol = Split (TrimSpace ?line) (CHR 0x09) ! 20,
                SSLCipher = Split (TrimSpace ?line) (CHR 0x09) ! 21,
                XEdgeResponseResultType = Split (TrimSpace ?line) (CHR 0x09) ! 22,
                CSProtocolVersion = Split (TrimSpace ?line) (CHR 0x09) ! 23,
                FLEStatus = Split (TrimSpace ?line) (CHR 0x09) ! 24,
                FLEEncryptedFields = parseCFInt (Split (TrimSpace ?line) (CHR 0x09) ! 25),
                CPort = parseCFInt (Split (TrimSpace ?line) (CHR 0x09) ! 26),
                TimeToFirstByte = parseCFFloat ?pf (Split (TrimSpace ?line) (CHR 0x09) ! 27),
                XEdgeDetailedResultType = Split (TrimSpace ?line) (CHR 0x09) ! 28,
                SCContentType = Split (TrimSpace ?line) (CHR 0x09) ! 29,
                SCContentLen = parseCFInt64 (Split (TrimSpace ?line) (CHR 0x09) ! 30),
                SCRangeStart = Split (TrimSpace ?line) (CHR 0x09) ! 31,
                SCRangeEnd = Split (TrimSpace ?line) (CHR 0x09) ! 32\<rparr>)"
    by blast
  then have a: "map_sum id (map_option (\<lambda>e. (SCBytes e, CSBytes e, TimeTaken e, TimeToFirstByte e)))
     (ParseCloudFrontLogLine ?pf ?line) = Inr (Some (0, 9223372036854775807, 0, 7))"
    unfolding t sp using ev by simp
  have h2: "TrimSpace ?bad \<noteq> [] \<and> \<not> HasPrefix (TrimSpace ?bad) ''#'' \<and>
            length (Split (TrimSpace ?bad) (CHR 0x09)) < 33"
    by code_simp
  from inst2 h2 have b: "\<exists>err. ParseCloudFrontLogLine ?pf ?bad = Inl err" by blast
  have "snd (ParseInt ''abc'') = Some ErrSyntax" by code_simp
  with inst have c: "parseCFInt ''abc'' = 0" by blast
  from a b c show ?thesis by blast
qed

section \<open>The NLB line parser\<close>

lemma decomposes_length:
  "decomposes ps s gs rest \<Longrightarrow> length gs = length (filter (\<lambda>p. \<exists>l c. p = Rep l c) ps)"
  by (induction rule: decomposes.induct) auto

lemma nlb_decomposes_ports:
  assumes "decomposes nlbLogPattern s gs rest"
  shows "length gs = 23 \<and> list_all isDigit (gs ! 6) \<and> list_all isDigit (gs ! 8)"
  using assms
  by (auto simp: nlbLogPattern_def decomposes_Nil decomposes_Lit decomposes_Rep)

lemma nlb_decomposes_numeric:
  assumes "decomposes nlbLogPattern s gs rest"
  shows "list_all dashDotDigit (gs ! 9) \<and> list_all dashDotDigit (gs ! 10) \<and>
         list_all dashDigit (gs ! 11) \<and> list_all dashDigit (gs ! 12) \<and>
         list_all dashDotDigit (gs ! 22)"
  using assms
  by (auto simp: nlbLogPattern_def decomposes_Nil decomposes_Lit decomposes_Rep)

lemma getString_groups:
  "0 < k \<Longrightarrow> k \<le> length gs \<Longrightarrow> getString (whole # gs) k = gs ! (k - 1)"
  by (cases k) (simp_all add: getString_def)

lemma ParseNLBLogLine_skip:
  "TrimSpace line = [] \<or> HasPrefix (TrimSpace line) ''#'' \<Longrightarrow> ParseNLBLogLine pf line = Inr None"
  by (simp add: ParseNLBLogLine_def Let_def)

lemma ParseNLBLogLine_no_match:
  "TrimSpace line \<noteq> [] \<Longrightarrow> \<not> HasPrefix (TrimSpace line) ''#'' \<Longrightarrow>
   bt_match nlbLogPattern (TrimSpace line) = None \<Longrightarrow>
   ParseNLBLogLine pf line = Inl NoPatternMatch"
  by (simp add: ParseNLBLogLine_def Let_def FindSubmatchAnchored_def)

lemma ParseNLBLogLine_match:
  assumes "TrimSpace line \<noteq> []" "\<not> HasPrefix (TrimSpace line) ''#''"
    and m: "bt_match nlbLogPattern (TrimSpace line) = Some (gs, rest)"
  shows "ParseNLBLogLine pf line =
           Inr (Some
             \<lparr>Type = gs ! 0,
               Version = gs ! 1,
               Time = gs ! 2,
               ELB = gs ! 3,
               ListenerID = gs ! 4,
               ClientIP = gs ! 5,
               ClientPort = parseCFInt (gs ! 6),
               TargetIP = gs ! 7,
               TargetPort = parseCFInt (gs ! 8),
               ConnectionTime = parseCFFloat pf (gs ! 9),
               TLSHandshakeTime = parseCFFloat pf (gs ! 10),
               ReceivedBytes = parseCFInt64 (gs ! 11),
               SentBytes = parseCFInt64 (gs ! 12),
               IncomingTLSAlert = gs ! 13,
               ChosenCertARN = gs ! 14,
               ChosenCertSerial = gs ! 15,
               TLSCipher = gs ! 16,
               TLSProtocolVersion = gs ! 17,
               TLSNamedGroup = gs ! 18,
               DomainName = gs ! 19,
               ALPNProtocol = gs ! 20,
               ALPNClientPreferenceList = gs ! 21,
               TLSHandshakeTimeMS = parseCFFloat pf (gs ! 22)\<rparr>)"
proof -
  have len: "length gs = 23"
    using nlb_decomposes_ports [OF bt_match_sound [OF m]] by blast
  have g: "getString (whole # gs) k = gs ! (k - 1)" if "0 < k" "k \<le> 23" for k whole
    using that len by (intro getString_groups) simp_all
  show ?thesis
    using assms(1,2)
    by (simp add: ParseNLBLogLine_def Let_def FindSubmatchAnchored_def m g
                  getInt_def getInt64_def getFloat_def parseCFInt_def parseCFInt64_def
                  parseCFFloat_def)
qed

lemma ParseNLBLogLine_trimmed:
  assumes t: "TrimSpace line = line" and "line \<noteq> []" "\<not> HasPrefix line ''#''"
    and m: "bt_match nlbLogPattern line = Some (gs, rest)"
  shows "ParseNLBLogLine pf line =
           Inr (Some
             \<lparr>Type = gs ! 0,
               Version = gs ! 1,
               Time = gs ! 2,
               ELB = gs ! 3,
               ListenerID = gs ! 4,
               ClientIP = gs ! 5,
               ClientPort = parseCFInt (gs ! 6),
               TargetIP = gs ! 7,
               TargetPort = parseCFInt (gs ! 8),
               ConnectionTime = parseCFFloat pf (gs ! 9),
               TLSHandshakeTime = parseCFFloat pf (gs ! 10),
               ReceivedBytes = parseCFInt64 (gs ! 11),
               SentBytes = parseCFInt64 (gs ! 12),
               IncomingTLSAlert = gs ! 13,
               ChosenCertARN = gs ! 14,
               ChosenCertSerial = gs ! 15,
               TLSCipher = gs ! 16,
               TLSProtocolVersion = gs ! 17,
               TLSNamedGroup = gs ! 18,
               DomainName = gs ! 19,
               ALPNProtocol = gs ! 20,
               ALPNClientPreferenceList = gs ! 21,
               TLSHandshakeTimeMS = parseCFFloat pf (gs ! 22)\<rparr>)"
  using assms by (intro ParseNLBLogLine_match) simp_all

lemma spec_example_groups:
  "bt_match nlbLogPattern ''tls 2.0 2023-10-01T00:00:00.000000Z app/net-lb/1234... listener/... 1.2.3.4:12345 5.6.7.8:80 0.001 0.002 100 200 - arn:aws:acm:...:certificate/... - ECDHE-RSA-AES128-GCM-SHA256 TLSv1.2 - example.com h2 - 2.000'' =
     Some ([''tls'', ''2.0'', ''2023-10-01T00:00:00.000000Z'', ''app/net-lb/1234...'', ''listener/...'', ''1.2.3.4'', ''12345'', ''5.6.7.8'', ''80'', ''0.001'', ''0.002'', ''100'', ''200'', ''-'', ''arn:aws:acm:...:certificate/...'', ''-'', ''ECDHE-RSA-AES128-GCM-SHA256'', ''TLSv1.2'', ''-'', ''example.com'', ''h2'', ''-'', ''2.000''], [])"
  by code_simp

lemma spec_example_trimmed:
  "TrimSpace ''tls 2.0 2023-10-01T00:00:00.000000Z app/net-lb/1234... listener/... 1.2.3.4:12345 5.6.7.8:80 0.001 0.002 100 200 - arn:aws:acm:...:certificate/... - ECDHE-RSA-AES128-GCM-SHA256 TLSv1.2 - example.com h2 - 2.000'' = ''tls 2.0 2023-10-01T00:00:00.000000Z app/net-lb/1234... listener/... 1.2.3.4:12345 5.6.7.8:80 0.001 0.002 100 200 - arn:aws:acm:...:certificate/... - ECDHE-RSA-AES128-GCM-SHA256 TLSv1.2 - example.com h2 - 2.000''"
  by code_simp

lemma invalid_line_no_match:
  "TrimSpace ''invalid log line'' = ''invalid log line'' \<and>
   bt_match nlbLogPattern ''invalid log line'' = None"
  by code_simp

text \<open>
  C6. The example line of the specification parses to an entry with client 1.2.3.4, port
  12345, target 5.6.7.8, port 80, and as handshake time in milliseconds the number that
  \<^verbatim>\<open>ParseFloat\<close> gives for \<^verbatim>\<open>2.000\<close>; the text \<^verbatim>\<open>invalid log line\<close> is a parse error. For every
  line that is not skipped as blank or comment: either the trimmed line is in the language
  of the pattern, and then the result is the entry all of whose 23 fields are the groups of
  a match (text fields as they stand, numeric fields under the coercion of the helpers), or
  it is not, and then the result is the parse error. No entry is built from a line that
  does not match.
\<close>

theorem ParseNLBLogLine_match_or_error:
  "map_sum id (map_option (\<lambda>e. (ClientIP e, ClientPort e, TargetIP e, TargetPort e,
                                 TLSHandshakeTimeMS e)))
     (ParseNLBLogLine pf
        ''tls 2.0 2023-10-01T00:00:00.000000Z app/net-lb/1234... listener/... 1.2.3.4:12345 5.6.7.8:80 0.001 0.002 100 200 - arn:aws:acm:...:certificate/... - ECDHE-RSA-AES128-GCM-SHA256 TLSv1.2 - example.com h2 - 2.000'')
     = Inr (Some (''1.2.3.4'', 12345, ''5.6.7.8'', 80, floatValue (pf ''2.000''))) \<and>
   ParseNLBLogLine pf ''invalid log line'' = Inl NoPatternMatch \<and>
   (TrimSpace line \<noteq> [] \<and> \<not> HasPrefix (TrimSpace line) ''#'' \<longrightarrow>
      (\<exists>gs rest. decomposes nlbLogPattern (TrimSpace line) gs rest \<and> length gs = 23 \<and>
          ParseNLBLogLine pf line =
            Inr (Some
              \<lparr>Type = gs ! 0,
                Version = gs ! 1,
                Time = gs ! 2,
                ELB = gs ! 3,
                ListenerID = gs ! 4,
                ClientIP = gs ! 5,
                ClientPort = parseCFInt (gs ! 6),
                TargetIP = gs ! 7,
                TargetPort = parseCFInt (gs ! 8),
                ConnectionTime = parseCFFloat pf (gs ! 9),
                TLSHandshakeTime = parseCFFloat pf (gs ! 10),
                ReceivedBytes = parseCFInt64 (gs ! 11),
                SentBytes = parseCFInt64 (gs ! 12),
                IncomingTLSAlert = gs ! 13,
                ChosenCertARN = gs ! 14,
                ChosenCertSerial = gs ! 15,
                TLSCipher = gs ! 16,
                TLSProtocolVersion = gs ! 17,
                TLSNamedGroup = gs ! 18,
                DomainName = gs ! 19,
                ALPNProtocol = gs ! 20,
                ALPNClientPreferenceList = gs ! 21,
                TLSHandshakeTimeMS = parseCFFloat pf (gs ! 22)\<rparr>)) \<or>
      (\<not> (\<exists>gs rest. decomposes nlbLogPattern (TrimSpace line) gs rest) \<and>
         ParseNLBLogLine pf line = Inl NoPatternMatch))"
proof (intro conjI impI)
  let ?ex = "''tls 2.0 2023-10-01T00:00:00.000000Z app/net-lb/1234... listener/... 1.2.3.4:12345 5.6.7.8:80 0.001 0.002 100 200 - arn:aws:acm:...:certificate/... - ECDHE-RSA-AES128-GCM-SHA256 TLSv1.2 - example.com h2 - 2.000''"
  have ne: "TrimSpace ?ex \<noteq> []" "\<not> HasPrefix (TrimSpace ?ex) ''#''"
    unfolding spec_example_trimmed by (simp_all add: HasPrefix_def)
  have m: "bt_match nlbLogPattern (TrimSpace ?ex) = Some ([''tls'', ''2.0'', ''2023-10-01T00:00:00.000000Z'', ''app/net-lb/1234...'', ''listener/...'', ''1.2.3.4'', ''12345'', ''5.6.7.8'', ''80'', ''0.001'', ''0.002'', ''100'', ''200'', ''-'', ''arn:aws:acm:...:certificate/...'', ''-'', ''ECDHE-RSA-AES128-GCM-SHA256'', ''TLSv1.2'', ''-'', ''example.com'', ''h2'', ''-'', ''2.000''], [])"
    unfolding spec_example_trimmed by (rule spec_example_groups)
  have port: "parseCFInt ''12345'' = 12345" "parseCFInt ''80'' = 80" by code_simp+
  show "map_sum id (map_option (\<lambda>e. (ClientIP e, ClientPort e, TargetIP e, TargetPort e,
                                 TLSHandshakeTimeMS e)))
     (ParseNLBLogLine pf ?ex)
     = Inr (Some (''1.2.3.4'', 12345, ''5.6.7.8'', 80, floatValue (pf ''2.000'')))"
    unfolding ParseNLBLogLine_match [OF ne m]
    by (simp add: port parseCFFloat_def)
next
  have "TrimSpace ''invalid log line'' \<noteq> []" "\<not> HasPrefix (TrimSpace ''invalid log line'') ''#''"
    using invalid_line_no_match by (simp_all add: HasPrefix_def)
  then show "ParseNLBLogLine pf ''invalid log line'' = Inl NoPatternMatch"
    using invalid_line_no_match by (intro ParseNLBLogLine_no_match) simp_all
next
  assume a: "TrimSpace line \<noteq> [] \<and> \<not> HasPrefix (TrimSpace line) ''#''"
  show "(\<exists>gs rest. decomposes nlbLogPattern (TrimSpace line) gs rest \<and> length gs = 23 \<and>
          ParseNLBLogLine pf line =
            Inr (Some
              \<lparr>Type = gs ! 0,
                Version = gs ! 1,
                Time = gs ! 2,
                ELB = gs ! 3,
                ListenerID = gs ! 4,
                ClientIP = gs ! 5,
                ClientPort = parseCFInt (gs ! 6),
                TargetIP = gs ! 7,
                TargetPort = parseCFInt (gs ! 8),
                ConnectionTime = parseCFFloat pf (gs ! 9),
                TLSHandshakeTime = parseCFFloat pf (gs ! 10),
                ReceivedBytes = parseCFInt64 (gs ! 11),
                SentBytes = parseCFInt64 (gs ! 12),
                IncomingTLSAlert = gs ! 13,
                ChosenCertARN = gs ! 14,
                ChosenCertSerial = gs ! 15,
                TLSCipher = gs ! 16,
                TLSProtocolVersion = gs ! 17,
                TLSNamedGroup = gs ! 18,
                DomainName = gs ! 19,
                ALPNProtocol = gs ! 20,
                ALPNClientPreferenceList = gs ! 21,
                TLSHandshakeTimeMS = parseCFFloat pf (gs ! 22)\<rparr>)) \<or>
      (\<not> (\<exists>gs rest. decomposes nlbLogPattern (TrimSpace line) gs rest) \<and>
         ParseNLBLogLine pf line = Inl NoPatternMatch)"
  proof (cases "bt_match nlbLogPattern (TrimSpace line)")
    case None
    then have "\<not> (\<exists>gs rest. decomposes nlbLogPattern (TrimSpace line) gs rest)"
      using bt_match_complete by blast
    moreover have "ParseNLBLogLine pf line = Inl NoPatternMatch"
      using a None by (intro ParseNLBLogLine_no_match) simp_all
    ultimately show ?thesis by blast
  next
    case (Some r)
    obtain gs rest where r: "r = (gs, rest)" by (cases r)
    have d: "decomposes nlbLogPattern (TrimSpace line) gs rest"
      using Some r by (intro bt_match_sound) simp
    have "length gs = 23" using nlb_decomposes_ports [OF d] by blast
    moreover have "ParseNLBLogLine pf line =
            Inr (Some
              \<lparr>Type = gs ! 0,
                Version = gs ! 1,
                Time = gs ! 2,
                ELB = gs ! 3,
                ListenerID = gs ! 4,
                ClientIP = gs ! 5,
                ClientPort = parseCFInt (gs ! 6),
                TargetIP = gs ! 7,
                TargetPort = parseCFInt (gs ! 8),
                ConnectionTime = parseCFFloat pf (gs ! 9),
                TLSHandshakeTime = parseCFFloat pf (gs ! 10),
                ReceivedBytes = parseCFInt64 (gs ! 11),
                SentBytes = parseCFInt64 (gs ! 12),
                IncomingTLSAlert = gs ! 13,
                ChosenCertARN = gs ! 14,
                ChosenCertSerial = gs ! 15,
                TLSCipher = gs ! 16,
                TLSProtocolVersion = gs ! 17,
                TLSNamedGroup = gs ! 18,
                DomainName = gs ! 19,
                ALPNProtocol = gs ! 20,
                ALPNClientPreferenceList = gs ! 21,
                TLSHandshakeTimeMS = parseCFFloat pf (gs ! 22)\<rparr>)"
      using a Some r by (intro ParseNLBLogLine_match) simp_all
    ultimately show ?thesis using d by blast
  qed
qed

text \<open>
  The line of the parser's own test, whose identifiers are written out in full. The
  stand-in for \<^verbatim>\<open>float64\<close> counts thousandths.
\<close>

theorem ParseNLBLogLine_match_or_error_witness:
  "TrimSpace ''tls 2.0 2023-10-01T00:00:00.000000Z app/net-lb/1234567890abcdef listener/net-lb/1234567890abcdef/1234567890abcdef 1.2.3.4:12345 5.6.7.8:80 0.001 0.002 100 200 - arn:aws:acm:us-east-1:123456789012:certificate/12345678-1234-1234-1234-123456789012 - ECDHE-RSA-AES128-GCM-SHA256 TLSv1.2 - example.com h2 - 2.000'' \<noteq> [] \<and>
   \<not> HasPrefix (TrimSpace ''tls 2.0 2023-10-01T00:00:00.000000Z app/net-lb/1234567890abcdef listener/net-lb/1234567890abcdef/1234567890abcdef 1.2.3.4:12345 5.6.7.8:80 0.001 0.002 100 200 - arn:aws:acm:us-east-1:123456789012:certificate/12345678-1234-1234-1234-123456789012 - ECDHE-RSA-AES128-GCM-SHA256 TLSv1.2 - example.com h2 - 2.000'') ''#'' \<and>
   (\<exists>gs rest. decomposes nlbLogPattern (TrimSpace ''tls 2.0 2023-10-01T00:00:00.000000Z app/net-lb/1234567890abcdef listener/net-lb/1234567890abcdef/1234567890abcdef 1.2.3.4:12345 5.6.7.8:80 0.001 0.002 100 200 - arn:aws:acm:us-east-1:123456789012:certificate/12345678-1234-1234-1234-123456789012 - ECDHE-RSA-AES128-GCM-SHA256 TLSv1.2 - example.com h2 - 2.000'') gs rest \<and> length gs = 23 \<and>
      ParseNLBLogLine (\<lambda>s. if s = ''2.000'' then FloatOK (2000 :: int) else FloatSyntax) ''tls 2.0 2023-10-01T00:00:00.000000Z app/net-lb/1234567890abcdef listener/net-lb/1234567890abcdef/1234567890abcdef 1.2.3.4:12345 5.6.7.8:80 0.001 0.002 100 200 - arn:aws:acm:us-east-1:123456789012:certificate/12345678-1234-1234-1234-123456789012 - ECDHE-RSA-AES128-GCM-SHA256 TLSv1.2 - example.com h2 - 2.000'' =
        Inr (Some
          \<lparr>Type = gs ! 0,
            Version = gs ! 1,
            Time = gs ! 2,
            ELB = gs ! 3,
            ListenerID = gs ! 4,
            ClientIP = gs ! 5,
            ClientPort = parseCFInt (gs ! 6),
            TargetIP = gs ! 7,
            TargetPort = parseCFInt (gs ! 8),
            ConnectionTime = parseCFFloat (\<lambda>s. if s = ''2.000'' then FloatOK (2000 :: int) else FloatSyntax) (gs ! 9),
            TLSHandshakeTime = parseCFFloat (\<lambda>s. if s = ''2.000'' then FloatOK (2000 :: int) else FloatSyntax) (gs ! 10),
            ReceivedBytes = parseCFInt64 (gs ! 11),
            SentBytes = parseCFInt64 (gs ! 12),
            IncomingTLSAlert = gs ! 13,
            ChosenCertARN = gs ! 14,
            ChosenCertSerial = gs ! 15,
            TLSCipher = gs ! 16,
            TLSProtocolVersion = gs ! 17,
            TLSNamedGroup = gs ! 18,
            DomainName = gs ! 19,
            ALPNProtocol = gs ! 20,
            ALPNClientPreferenceList = gs ! 21,
            TLSHandshakeTimeMS = parseCFFloat (\<lambda>s. if s = ''2.000'' then FloatOK (2000 :: int) else FloatSyntax) (gs ! 22)\<rparr>)) \<and>
   map_sum id (map_option (\<lambda>e. (ClientIP e, ClientPort e, TargetIP e, TargetPort e,
                                 TLSHandshakeTimeMS e)))
     (ParseNLBLogLine (\<lambda>s. if s = ''2.000'' then FloatOK (2000 :: int) else FloatSyntax)
        ''tls 2.0 2023-10-01T00:00:00.000000Z app/net-lb/1234... listener/... 1.2.3.4:12345 5.6.7.8:80 0.001 0.002 100 200 - arn:aws:acm:...:certificate/... - ECDHE-RSA-AES128-GCM-SHA256 TLSv1.2 - example.com h2 - 2.000'')
     = Inr (Some (''1.2.3.4'', 12345, ''5.6.7.8'', 80, 2000)) \<and>
   ParseNLBLogLine (\<lambda>s. if s = ''2.000'' then FloatOK (2000 :: int) else FloatSyntax) ''invalid log line'' = Inl NoPatternMatch"
proof -
  let ?pf = "(\<lambda>s. if s = ''2.000'' then FloatOK (2000 :: int) else FloatSyntax)"
  let ?ex = "''tls 2.0 2023-10-01T00:00:00.000000Z app/net-lb/1234567890abcdef listener/net-lb/1234567890abcdef/1234567890abcdef 1.2.3.4:12345 5.6.7.8:80 0.001 0.002 100 200 - arn:aws:acm:us-east-1:123456789012:certificate/12345678-1234-1234-1234-123456789012 - ECDHE-RSA-AES128-GCM-SHA256 TLSv1.2 - example.com h2 - 2.000''"
  note inst = ParseNLBLogLine_match_or_error [of ?pf ?ex]
  have t: "TrimSpace ?ex = ?ex" by code_simp
  have m: "bt_match nlbLogPattern ?ex =
             Some ([''tls'', ''2.0'', ''2023-10-01T00:00:00.000000Z'', ''app/net-lb/1234567890abcdef'', ''listener/net-lb/1234567890abcdef/1234567890abcdef'', ''1.2.3.4'', ''12345'', ''5.6.7.8'', ''80'', ''0.001'', ''0.002'', ''100'', ''200'', ''-'', ''arn:aws:acm:us-east-1:123456789012:certificate/12345678-1234-1234-1234-123456789012'', ''-'', ''ECDHE-RSA-AES128-GCM-SHA256'', ''TLSv1.2'', ''-'', ''example.com'', ''h2'', ''-'', ''2.000''], [])"
    by code_simp
  have p: "?ex \<noteq> []" "\<not> HasPrefix ?ex ''#''" by (simp_all add: HasPrefix_def)
  have h: "TrimSpace ?ex \<noteq> [] \<and> \<not> HasPrefix (TrimSpace ?ex) ''#''"
    unfolding t using p by blast
  have ok: "ParseNLBLogLine ?pf ?ex \<noteq> Inl NoPatternMatch"
    unfolding ParseNLBLogLine_trimmed [OF t p m] by simp
  from inst h ok have
    "\<exists>gs rest. decomposes nlbLogPattern (TrimSpace ?ex) gs rest \<and> length gs = 23 \<and>
      ParseNLBLogLine ?pf ?ex =
        Inr (Some
          \<lparr>Type = gs ! 0,
            Version = gs ! 1,
            Time = gs ! 2,
            ELB = gs ! 3,
            ListenerID = gs ! 4,
            ClientIP = gs ! 5,
            ClientPort = parseCFInt (gs ! 6),
            TargetIP = gs ! 7,
            TargetPort = parseCFInt (gs ! 8),
            ConnectionTime = parseCFFloat (\<lambda>s. if s = ''2.000'' then FloatOK (2000 :: int) else FloatSyntax) (gs ! 9),
            TLSHandshakeTime = parseCFFloat (\<lambda>s. if s = ''2.000'' then FloatOK (2000 :: int) else FloatSyntax) (gs ! 10),
            ReceivedBytes = parseCFInt64 (gs ! 11),
            SentBytes = parseCFInt64 (gs ! 12),
            IncomingTLSAlert = gs ! 13,
            ChosenCertARN = gs ! 14,
            ChosenCertSerial = gs ! 15,
            TLSCipher = gs ! 16,
            TLSProtocolVersion = gs ! 17,
            TLSNamedGroup = gs ! 18,
            DomainName = gs ! 19,
            ALPNProtocol = gs ! 20,
            ALPNClientPreferenceList = gs ! 21,
            TLSHandshakeTimeMS = parseCFFloat (\<lambda>s. if s = ''2.000'' then FloatOK (2000 :: int) else FloatSyntax) (gs ! 22)\<rparr>)"
    by blast
  moreover from inst have
    "map_sum id (map_option (\<lambda>e. (ClientIP e, ClientPort e, TargetIP e, TargetPort e,
                                 TLSHandshakeTimeMS e)))
     (ParseNLBLogLine ?pf ''tls 2.0 2023-10-01T00:00:00.000000Z app/net-lb/1234... listener/... 1.2.3.4:12345 5.6.7.8:80 0.001 0.002 100 200 - arn:aws:acm:...:certificate/... - ECDHE-RSA-AES128-GCM-SHA256 TLSv1.2 - example.com h2 - 2.000'')
     = Inr (Some (''1.2.3.4'', 12345, ''5.6.7.8'', 80, floatValue (?pf ''2.000'')))"
    by (rule conjunct1)
  moreover have "floatValue (?pf ''2.000'') = 2000" by (simp add: floatValue_def)
  moreover from inst have "ParseNLBLogLine ?pf ''invalid log line'' = Inl NoPatternMatch"
    by blast
  ultimately show ?thesis using h by simp
qed

section \<open>Absent numeric columns\<close>

text \<open>
  C8 (as the code has it). In the CloudFront format, a record with 33 columns or more after
  the white space around it (tabs included) is trimmed parses without error, and each of
  the eight numeric columns that holds the absent marker or the empty string is stored as
  0; this covers every record of 33 columns or more whose first column is not empty, does
  not begin with white space or \<^verbatim>\<open>#\<close>, and whose last column is not empty and does not end
  with white space. In the NLB format, a line that matches parses without error, and each
  of the two timing columns, the two byte counts and the closing handshake time that holds
  the marker or the empty text is stored as 0, as is a port whose text is empty; the grammar
  admits only digits in the two ports, so a match never has the marker \<^verbatim>\<open>-\<close> as a port and a
  line written with it is a parse error.
\<close>

theorem absent_numeric_columns_zero:
  "(TrimSpace line \<noteq> [] \<and> \<not> HasPrefix (TrimSpace line) ''#'' \<and>
      33 \<le> length (Split (TrimSpace line) (CHR 0x09))
      \<longrightarrow> (\<exists>e. ParseCloudFrontLogLine pf line = Inr (Some e) \<and>
          (Split (TrimSpace line) (CHR 0x09) ! 3 = ''-'' \<or> Split (TrimSpace line) (CHR 0x09) ! 3 = [] \<longrightarrow> SCBytes e = 0) \<and>
          (Split (TrimSpace line) (CHR 0x09) ! 8 = ''-'' \<or> Split (TrimSpace line) (CHR 0x09) ! 8 = [] \<longrightarrow> SCStatus e = 0) \<and>
          (Split (TrimSpace line) (CHR 0x09) ! 17 = ''-'' \<or> Split (TrimSpace line) (CHR 0x09) ! 17 = [] \<longrightarrow> CSBytes e = 0) \<and>
          (Split (TrimSpace line) (CHR 0x09) ! 18 = ''-'' \<or> Split (TrimSpace line) (CHR 0x09) ! 18 = [] \<longrightarrow> TimeTaken e = 0) \<and>
          (Split (TrimSpace line) (CHR 0x09) ! 25 = ''-'' \<or> Split (TrimSpace line) (CHR 0x09) ! 25 = [] \<longrightarrow> FLEEncryptedFields e = 0) \<and>
          (Split (TrimSpace line) (CHR 0x09) ! 26 = ''-'' \<or> Split (TrimSpace line) (CHR 0x09) ! 26 = [] \<longrightarrow> CPort e = 0) \<and>
          (Split (TrimSpace line) (CHR 0x09) ! 27 = ''-'' \<or> Split (TrimSpace line) (CHR 0x09) ! 27 = [] \<longrightarrow> TimeToFirstByte e = 0) \<and>
          (Split (TrimSpace line) (CHR 0x09) ! 30 = ''-'' \<or> Split (TrimSpace line) (CHR 0x09) ! 30 = [] \<longrightarrow> SCContentLen e = 0))) \<and>
   (33 \<le> length cols \<and> (\<forall>c \<in> set cols. CHR 0x09 \<notin> set c) \<and>
      hd cols \<noteq> [] \<and> spaceWidth (hd cols) = 0 \<and> \<not> HasPrefix (hd cols) ''#'' \<and>
      last cols \<noteq> [] \<and> spaceWidthLast (last cols) = 0
      \<longrightarrow> (\<exists>e. ParseCloudFrontLogLine pf (Join cols (CHR 0x09)) = Inr (Some e) \<and>
          (cols ! 3 = ''-'' \<or> cols ! 3 = [] \<longrightarrow> SCBytes e = 0) \<and>
          (cols ! 8 = ''-'' \<or> cols ! 8 = [] \<longrightarrow> SCStatus e = 0) \<and>
          (cols ! 17 = ''-'' \<or> cols ! 17 = [] \<longrightarrow> CSBytes e = 0) \<and>
          (cols ! 18 = ''-'' \<or> cols ! 18 = [] \<longrightarrow> TimeTaken e = 0) \<and>
          (cols ! 25 = ''-'' \<or> cols ! 25 = [] \<longrightarrow> FLEEncryptedFields e = 0) \<and>
          (cols ! 26 = ''-'' \<or> cols ! 26 = [] \<longrightarrow> CPort e = 0) \<and>
          (cols ! 27 = ''-'' \<or> cols ! 27 = [] \<longrightarrow> TimeToFirstByte e = 0) \<and>
          (cols ! 30 = ''-'' \<or> cols ! 30 = [] \<longrightarrow> SCContentLen e = 0))) \<and>
   (TrimSpace nlbLine \<noteq> [] \<and> \<not> HasPrefix (TrimSpace nlbLine) ''#'' \<and>
      bt_match nlbLogPattern (TrimSpace nlbLine) = Some (gs, rest)
      \<longrightarrow> list_all isDigit (gs ! 6) \<and> list_all isDigit (gs ! 8) \<and>
          gs ! 6 \<noteq> ''-'' \<and> gs ! 8 \<noteq> ''-'' \<and>
          list_all dashDotDigit (gs ! 9) \<and> list_all dashDotDigit (gs ! 10) \<and>
          list_all dashDigit (gs ! 11) \<and> list_all dashDigit (gs ! 12) \<and>
          list_all dashDotDigit (gs ! 22) \<and>
          (\<exists>e. ParseNLBLogLine pf nlbLine = Inr (Some e) \<and>
          (gs ! 6 = [] \<longrightarrow> ClientPort e = 0) \<and>
          (gs ! 8 = [] \<longrightarrow> TargetPort e = 0) \<and>
          (gs ! 9 = ''-'' \<or> gs ! 9 = [] \<longrightarrow> ConnectionTime e = 0) \<and>
          (gs ! 10 = ''-'' \<or> gs ! 10 = [] \<longrightarrow> TLSHandshakeTime e = 0) \<and>
          (gs ! 11 = ''-'' \<or> gs ! 11 = [] \<longrightarrow> ReceivedBytes e = 0) \<and>
          (gs ! 12 = ''-'' \<or> gs ! 12 = [] \<longrightarrow> SentBytes e = 0) \<and>
          (gs ! 22 = ''-'' \<or> gs ! 22 = [] \<longrightarrow> TLSHandshakeTimeMS e = 0)))"
proof (intro conjI impI)
  assume a: "TrimSpace line \<noteq> [] \<and> \<not> HasPrefix (TrimSpace line) ''#'' \<and>
      33 \<le> length (Split (TrimSpace line) (CHR 0x09))"
  show "\<exists>e. ParseCloudFrontLogLine pf line = Inr (Some e) \<and>
          (Split (TrimSpace line) (CHR 0x09) ! 3 = ''-'' \<or> Split (TrimSpace line) (CHR 0x09) ! 3 = [] \<longrightarrow> SCBytes e = 0) \<and>
          (Split (TrimSpace line) (CHR 0x09) ! 8 = ''-'' \<or> Split (TrimSpace line) (CHR 0x09) ! 8 = [] \<longrightarrow> SCStatus e = 0) \<and>
          (Split (TrimSpace line) (CHR 0x09) ! 17 = ''-'' \<or> Split (TrimSpace line) (CHR 0x09) ! 17 = [] \<longrightarrow> CSBytes e = 0) \<and>
          (Split (TrimSpace line) (CHR 0x09) ! 18 = ''-'' \<or> Split (TrimSpace line) (CHR 0x09) ! 18 = [] \<longrightarrow> TimeTaken e = 0) \<and>
          (Split (TrimSpace line) (CHR 0x09) ! 25 = ''-'' \<or> Split (TrimSpace line) (CHR 0x09) ! 25 = [] \<longrightarrow> FLEEncryptedFields e = 0) \<and>
          (Split (TrimSpace line) (CHR 0x09) ! 26 = ''-'' \<or> Split (TrimSpace line) (CHR 0x09) ! 26 = [] \<longrightarrow> CPort e = 0) \<and>
          (Split (TrimSpace line) (CHR 0x09) ! 27 = ''-'' \<or> Split (TrimSpace line) (CHR 0x09) ! 27 = [] \<longrightarrow> TimeToFirstByte e = 0) \<and>
          (Split (TrimSpace line) (CHR 0x09) ! 30 = ''-'' \<or> Split (TrimSpace line) (CHR 0x09) ! 30 = [] \<longrightarrow> SCContentLen e = 0)"
    using a
    by (subst ParseCloudFrontLogLine_entry)
       (auto simp: parseCFInt_def parseCFInt64_def parseCFFloat_def)
next
  assume a: "33 \<le> length cols \<and> (\<forall>c \<in> set cols. CHR 0x09 \<notin> set c) \<and>
      hd cols \<noteq> [] \<and> spaceWidth (hd cols) = 0 \<and> \<not> HasPrefix (hd cols) ''#'' \<and>
      last cols \<noteq> [] \<and> spaceWidthLast (last cols) = 0"
  show "\<exists>e. ParseCloudFrontLogLine pf (Join cols (CHR 0x09)) = Inr (Some e) \<and>
          (cols ! 3 = ''-'' \<or> cols ! 3 = [] \<longrightarrow> SCBytes e = 0) \<and>
          (cols ! 8 = ''-'' \<or> cols ! 8 = [] \<longrightarrow> SCStatus e = 0) \<and>
          (cols ! 17 = ''-'' \<or> cols ! 17 = [] \<longrightarrow> CSBytes e = 0) \<and>
          (cols ! 18 = ''-'' \<or> cols ! 18 = [] \<longrightarrow> TimeTaken e = 0) \<and>
          (cols ! 25 = ''-'' \<or> cols ! 25 = [] \<longrightarrow> FLEEncryptedFields e = 0) \<and>
          (cols ! 26 = ''-'' \<or> cols ! 26 = [] \<longrightarrow> CPort e = 0) \<and>
          (cols ! 27 = ''-'' \<or> cols ! 27 = [] \<longrightarrow> TimeToFirstByte e = 0) \<and>
          (cols ! 30 = ''-'' \<or> cols ! 30 = [] \<longrightarrow> SCContentLen e = 0)"
    using a
    by (subst ParseCloudFrontLogLine_cols)
       (auto simp: parseCFInt_def parseCFInt64_def parseCFFloat_def)
next
  assume a: "TrimSpace nlbLine \<noteq> [] \<and> \<not> HasPrefix (TrimSpace nlbLine) ''#'' \<and>
      bt_match nlbLogPattern (TrimSpace nlbLine) = Some (gs, rest)"
  then have d: "decomposes nlbLogPattern (TrimSpace nlbLine) gs rest"
    by (intro bt_match_sound) simp
  have dash: "\<not> isDigit (CHR ''-'')" by (simp add: isDigit_def)
  from nlb_decomposes_ports [OF d]
  show "list_all isDigit (gs ! 6)" "list_all isDigit (gs ! 8)" by blast+
  then show "gs ! 6 \<noteq> ''-''" "gs ! 8 \<noteq> ''-''" using dash by auto
  from nlb_decomposes_numeric [OF d]
  show "list_all dashDotDigit (gs ! 9)" "list_all dashDotDigit (gs ! 10)"
    "list_all dashDigit (gs ! 11)" "list_all dashDigit (gs ! 12)"
    "list_all dashDotDigit (gs ! 22)"
    by blast+
  show "\<exists>e. ParseNLBLogLine pf nlbLine = Inr (Some e) \<and>
          (gs ! 6 = [] \<longrightarrow> ClientPort e = 0) \<and>
          (gs ! 8 = [] \<longrightarrow> TargetPort e = 0) \<and>
          (gs ! 9 = ''-'' \<or> gs ! 9 = [] \<longrightarrow> ConnectionTime e = 0) \<and>
          (gs ! 10 = ''-'' \<or> gs ! 10 = [] \<longrightarrow> TLSHandshakeTime e = 0) \<and>
          (gs ! 11 = ''-'' \<or> gs ! 11 = [] \<longrightarrow> ReceivedBytes e = 0) \<and>
          (gs ! 12 = ''-'' \<or> gs ! 12 = [] \<longrightarrow> SentBytes e = 0) \<and>
          (gs ! 22 = ''-'' \<or> gs ! 22 = [] \<longrightarrow> TLSHandshakeTimeMS e = 0)"
    using a
    by (subst ParseNLBLogLine_match [of nlbLine gs rest])
       (auto simp: parseCFInt_def parseCFInt64_def parseCFFloat_def)
qed

text \<open>
  An NLB line with the absent marker as client port: the record is refused. And a
  CloudFront record of 33 columns with the marker as \<^verbatim>\<open>sc-content-len\<close> and two empty closing
  columns: the trim leaves 31 columns, and the record is refused.
\<close>

theorem absent_marker_refused_counterexample:
  "ParseNLBLogLine (\<lambda>s. FloatSyntax :: int float_result)
     ''tls 2.0 2023-10-01T00:00:00.000000Z net/lb/1234 listener/1234 1.2.3.4:- 5.6.7.8:80 0.001 0.002 100 200 - - - - - - - - - 2.000''
   = Inl NoPatternMatch \<and>
   length [''2019-12-04'',
      ''21:02:31'',
      ''LAX1'',
      ''392'',
      ''192.0.2.100'',
      ''GET'',
      ''d1.cloudfront.net'',
      ''/index.html'',
      ''200'',
      ''-'',
      ''UA'',
      ''-'',
      ''-'',
      ''Hit'',
      ''ID1'',
      ''d1.cloudfront.net'',
      ''https'',
      ''23'',
      ''0.001'',
      ''-'',
      ''TLSv1.2'',
      ''Cipher'',
      ''Hit'',
      ''HTTP/2.0'',
      ''-'',
      ''-'',
      ''11040'',
      ''0.001'',
      ''Hit'',
      ''text/html'',
      ''-'',
      [],
      []] = 33 \<and>
   ParseCloudFrontLogLine (\<lambda>s. FloatSyntax :: int float_result)
     (Join [''2019-12-04'',
      ''21:02:31'',
      ''LAX1'',
      ''392'',
      ''192.0.2.100'',
      ''GET'',
      ''d1.cloudfront.net'',
      ''/index.html'',
      ''200'',
      ''-'',
      ''UA'',
      ''-'',
      ''-'',
      ''Hit'',
      ''ID1'',
      ''d1.cloudfront.net'',
      ''https'',
      ''23'',
      ''0.001'',
      ''-'',
      ''TLSv1.2'',
      ''Cipher'',
      ''Hit'',
      ''HTTP/2.0'',
      ''-'',
      ''-'',
      ''11040'',
      ''0.001'',
      ''Hit'',
      ''text/html'',
      ''-'',
      [],
      []] (CHR 0x09))
   = Inl (InvalidFieldCount 31)"
proof -
  let ?pf = "(\<lambda>s. FloatSyntax :: int float_result)"
  let ?l = "''tls 2.0 2023-10-01T00:00:00.000000Z net/lb/1234 listener/1234 1.2.3.4:- 5.6.7.8:80 0.001 0.002 100 200 - - - - - - - - - 2.000''"
  let ?cols = "[''2019-12-04'',
      ''21:02:31'',
      ''LAX1'',
      ''392'',
      ''192.0.2.100'',
      ''GET'',
      ''d1.cloudfront.net'',
      ''/index.html'',
      ''200'',
      ''-'',
      ''UA'',
      ''-'',
      ''-'',
      ''Hit'',
      ''ID1'',
      ''d1.cloudfront.net'',
      ''https'',
      ''23'',
      ''0.001'',
      ''-'',
      ''TLSv1.2'',
      ''Cipher'',
      ''Hit'',
      ''HTTP/2.0'',
      ''-'',
      ''-'',
      ''11040'',
      ''0.001'',
      ''Hit'',
      ''text/html'',
      ''-'',
      [],
      []]"
  let ?left = "[''2019-12-04'',
      ''21:02:31'',
      ''LAX1'',
      ''392'',
      ''192.0.2.100'',
      ''GET'',
      ''d1.cloudfront.net'',
      ''/index.html'',
      ''200'',
      ''-'',
      ''UA'',
      ''-'',
      ''-'',
      ''Hit'',
      ''ID1'',
      ''d1.cloudfront.net'',
      ''https'',
      ''23'',
      ''0.001'',
      ''-'',
      ''TLSv1.2'',
      ''Cipher'',
      ''Hit'',
      ''HTTP/2.0'',
      ''-'',
      ''-'',
      ''11040'',
      ''0.001'',
      ''Hit'',
      ''text/html'',
      ''-'']"
  let ?line = "Join ?cols (CHR 0x09)"
  have "TrimSpace ?l = ?l \<and> bt_match nlbLogPattern ?l = None" by code_simp
  then have a: "ParseNLBLogLine ?pf ?l = Inl NoPatternMatch"
    by (intro ParseNLBLogLine_no_match) (simp_all add: HasPrefix_def)
  have t: "TrimSpace ?line = Join ?left (CHR 0x09)" by code_simp
  have sp: "Split (Join ?left (CHR 0x09)) (CHR 0x09) = ?left" by code_simp
  have p: "Join ?left (CHR 0x09) \<noteq> [] \<and> \<not> HasPrefix (Join ?left (CHR 0x09)) ''#''"
    by code_simp
  have "ParseCloudFrontLogLine ?pf ?line =
          Inl (InvalidFieldCount (length (Split (TrimSpace ?line) (CHR 0x09))))"
    by (rule ParseCloudFrontLogLine_short) (simp_all only: t sp, simp_all add: p)
  then have b: "ParseCloudFrontLogLine ?pf ?line = Inl (InvalidFieldCount 31)"
    unfolding t sp by simp
  from a b show ?thesis by simp
qed

text \<open>
  A CloudFront record with the marker or the empty string in all eight numeric columns,
  and an NLB line with empty ports and the marker in every other numeric column, which
  matches.
\<close>

theorem absent_numeric_columns_zero_witness:
  "map_sum id (map_option (\<lambda>e. (SCBytes e, SCStatus e, CSBytes e, TimeTaken e,
                                 FLEEncryptedFields e, CPort e, TimeToFirstByte e, SCContentLen e)))
     (ParseCloudFrontLogLine (\<lambda>s. FloatSyntax :: int float_result)
        (Join [''2019-12-04'',
         ''21:02:31'',
         ''LAX1'',
         ''-'',
         ''192.0.2.100'',
         ''GET'',
         ''d1.cloudfront.net'',
         ''/index.html'',
         [],
         ''-'',
         ''UA'',
         ''-'',
         ''-'',
         ''Hit'',
         ''ID1'',
         ''d1.cloudfront.net'',
         ''https'',
         ''-'',
         [],
         ''-'',
         ''TLSv1.2'',
         ''Cipher'',
         ''Hit'',
         ''HTTP/2.0'',
         ''-'',
         ''-'',
         [],
         ''-'',
         ''Hit'',
         ''text/html'',
         [],
         ''-'',
         ''-''] (CHR 0x09)))
     = Inr (Some (0, 0, 0, 0, 0, 0, 0, 0)) \<and>
   map_sum id (map_option (\<lambda>e. (ClientPort e, TargetPort e, ConnectionTime e,
                                 TLSHandshakeTime e, ReceivedBytes e, SentBytes e,
                                 TLSHandshakeTimeMS e)))
     (ParseNLBLogLine (\<lambda>s. FloatSyntax :: int float_result)
        ''tls 2.0 2023-10-01T00:00:00.000000Z net/lb/1234 listener/1234 1.2.3.4: 5.6.7.8: - - - - - - - - - - - - - -'')
     = Inr (Some (0, 0, 0, 0, 0, 0, 0))"
proof -
  let ?pf = "(\<lambda>s. FloatSyntax :: int float_result)"
  let ?cols = "[''2019-12-04'',
      ''21:02:31'',
      ''LAX1'',
      ''-'',
      ''192.0.2.100'',
      ''GET'',
      ''d1.cloudfront.net'',
      ''/index.html'',
      [],
      ''-'',
      ''UA'',
      ''-'',
      ''-'',
      ''Hit'',
      ''ID1'',
      ''d1.cloudfront.net'',
      ''https'',
      ''-'',
      [],
      ''-'',
      ''TLSv1.2'',
      ''Cipher'',
      ''Hit'',
      ''HTTP/2.0'',
      ''-'',
      ''-'',
      [],
      ''-'',
      ''Hit'',
      ''text/html'',
      [],
      ''-'',
      ''-'']"
  let ?line = "Join ?cols (CHR 0x09)"
  let ?nlb = "''tls 2.0 2023-10-01T00:00:00.000000Z net/lb/1234 listener/1234 1.2.3.4: 5.6.7.8: - - - - - - - - - - - - - -''"
  let ?gs = "[''tls'', ''2.0'', ''2023-10-01T00:00:00.000000Z'', ''net/lb/1234'', ''listener/1234'', ''1.2.3.4'', [], ''5.6.7.8'', [], ''-'', ''-'', ''-'', ''-'', ''-'', ''-'', ''-'', ''-'', ''-'', ''-'', ''-'', ''-'', ''-'', ''-'']"
  note inst = absent_numeric_columns_zero
    [where line = "?line" and pf = "?pf" and cols = "?cols" and nlbLine = "?nlb"
       and gs = "?gs" and rest = "[]"]
  note cf = inst [THEN conjunct1, THEN mp]
  note cfc = inst [THEN conjunct2, THEN conjunct1, THEN mp]
  note nlb = inst [THEN conjunct2, THEN conjunct2, THEN mp]
  have h4: "33 \<le> length ?cols \<and> (\<forall>c \<in> set ?cols. CHR 0x09 \<notin> set c) \<and>
      hd ?cols \<noteq> [] \<and> spaceWidth (hd ?cols) = 0 \<and> \<not> HasPrefix (hd ?cols) ''#'' \<and>
      last ?cols \<noteq> [] \<and> spaceWidthLast (last ?cols) = 0"
    by code_simp
  have t: "TrimSpace ?line = ?line"
    using h4 by (intro TrimSpace_Join) simp_all
  have sp: "Split ?line (CHR 0x09) = ?cols"
    using h4 by (intro Split_Join) simp_all
  have p: "?line \<noteq> [] \<and> \<not> HasPrefix ?line ''#''" by code_simp
  have h1: "TrimSpace ?line \<noteq> [] \<and> \<not> HasPrefix (TrimSpace ?line) ''#'' \<and>
            33 \<le> length (Split (TrimSpace ?line) (CHR 0x09))"
    unfolding t sp using p by simp
  have s1: "Split (TrimSpace ?line) (CHR 0x09) ! 3 = ''-''"
    "Split (TrimSpace ?line) (CHR 0x09) ! 8 = []"
    "Split (TrimSpace ?line) (CHR 0x09) ! 17 = ''-''"
    "Split (TrimSpace ?line) (CHR 0x09) ! 18 = []"
    "Split (TrimSpace ?line) (CHR 0x09) ! 25 = ''-''"
    "Split (TrimSpace ?line) (CHR 0x09) ! 26 = []"
    "Split (TrimSpace ?line) (CHR 0x09) ! 27 = ''-''"
    "Split (TrimSpace ?line) (CHR 0x09) ! 30 = []"
    unfolding t sp by simp_all
  from cf [OF h1] obtain e where e: "ParseCloudFrontLogLine ?pf ?line = Inr (Some e)"
    and "SCBytes e = 0" "SCStatus e = 0" "CSBytes e = 0" "TimeTaken e = 0"
        "FLEEncryptedFields e = 0" "CPort e = 0" "TimeToFirstByte e = 0" "SCContentLen e = 0"
    unfolding s1 by blast
  then have a: "map_sum id (map_option (\<lambda>e. (SCBytes e, SCStatus e, CSBytes e, TimeTaken e,
                                 FLEEncryptedFields e, CPort e, TimeToFirstByte e, SCContentLen e)))
     (ParseCloudFrontLogLine ?pf ?line) = Inr (Some (0, 0, 0, 0, 0, 0, 0, 0))"
    by simp
  from cfc [OF h4] obtain e' where "ParseCloudFrontLogLine ?pf ?line = Inr (Some e')"
    and "?cols ! 3 = ''-'' \<or> ?cols ! 3 = [] \<longrightarrow> SCBytes e' = 0"
    by (elim exE conjE)
  then have a': "map_sum id (map_option SCBytes) (ParseCloudFrontLogLine ?pf ?line) = Inr (Some 0)"
    by simp
  have tn: "TrimSpace ?nlb = ?nlb" by code_simp
  have mn: "bt_match nlbLogPattern ?nlb = Some (?gs, [])" by code_simp
  have h2: "TrimSpace ?nlb \<noteq> [] \<and> \<not> HasPrefix (TrimSpace ?nlb) ''#'' \<and>
            bt_match nlbLogPattern (TrimSpace ?nlb) = Some (?gs, [])"
    unfolding tn using mn by (simp add: HasPrefix_def)
  have g: "?gs ! 6 = []" "?gs ! 8 = []" "?gs ! 9 = ''-''" "?gs ! 10 = ''-''"
    "?gs ! 11 = ''-''" "?gs ! 12 = ''-''" "?gs ! 22 = ''-''"
    by simp_all
  from nlb [OF h2] have "\<exists>e. ParseNLBLogLine ?pf ?nlb = Inr (Some e) \<and>
          (?gs ! 6 = [] \<longrightarrow> ClientPort e = 0) \<and>
          (?gs ! 8 = [] \<longrightarrow> TargetPort e = 0) \<and>
          (?gs ! 9 = ''-'' \<or> ?gs ! 9 = [] \<longrightarrow> ConnectionTime e = 0) \<and>
          (?gs ! 10 = ''-'' \<or> ?gs ! 10 = [] \<longrightarrow> TLSHandshakeTime e = 0) \<and>
          (?gs ! 11 = ''-'' \<or> ?gs ! 11 = [] \<longrightarrow> ReceivedBytes e = 0) \<and>
          (?gs ! 12 = ''-'' \<or> ?gs ! 12 = [] \<longrightarrow> SentBytes e = 0) \<and>
          (?gs ! 22 = ''-'' \<or> ?gs ! 22 = [] \<longrightarrow> TLSHandshakeTimeMS e = 0)"
    by (elim conjE)
  then obtain n where "ParseNLBLogLine ?pf ?nlb = Inr (Some n)"
    and "ClientPort n = 0" "TargetPort n = 0" "ConnectionTime n = 0" "TLSHandshakeTime n = 0"
        "ReceivedBytes n = 0" "SentBytes n = 0" "TLSHandshakeTimeMS n = 0"
    unfolding g by blast
  then have b: "map_sum id (map_option (\<lambda>e. (ClientPort e, TargetPort e, ConnectionTime e,
                                 TLSHandshakeTime e, ReceivedBytes e, SentBytes e,
                                 TLSHandshakeTimeMS e)))
     (ParseNLBLogLine ?pf ?nlb) = Inr (Some (0, 0, 0, 0, 0, 0, 0))"
    by simp
  from a b show ?thesis by (rule conjI)
qed

end
